(* ===== verification/Prelude.thy ===== *)
theory Prelude
  imports Main
begin

text \<open>
  Shared vocabulary of the development.  The Python program raises and catches
  exceptions; they are values of the datatype \<open>py_exn\<close>, and a Python
  computation that may raise is a value of the sum type \<open>py_exn + 'a\<close>
  (\<open>Inl\<close> the exception, \<open>Inr\<close> the result).  The process environment
  \<open>os.environ\<close> is a finite map from names to strings.  Python strings are
  Isabelle strings whose characters are read as the code points 0 to 255
  (Latin-1), so that \<open>of_char c\<close> is the Python \<open>ord(c)\<close>.
  The collection \<open>py_simps\<close> gathers the evaluation equations of the
  models of Python builtins, used by the witnesses and the component proofs.
\<close>

named_theorems py_simps "evaluation equations of the Python builtins model"

section \<open>Exceptions\<close>

text \<open>
  The exception classes that reach the code of \<open>search_sciencedirect_bipolar\<close>:
  \<open>ValueError\<close> from \<open>int()\<close> and \<open>max()\<close>, \<open>KeyError\<close> from
  \<open>tag["href"]\<close>, \<open>WebDriverError\<close> for anything Selenium or the driver
  manager raises (its message is the text \<open>str(e)\<close> prints), and
  \<open>BaseExc\<close> for a \<open>BaseException\<close> that is not an \<open>Exception\<close>
  (\<open>KeyboardInterrupt\<close>, \<open>SystemExit\<close>), which \<open>except Exception\<close> does
  not catch.
\<close>

datatype py_exn =
    ValueError string
  | KeyError string
  | WebDriverError string
  | BaseExc string

text \<open>\<open>isinstance(e, Exception)\<close>.\<close>

fun is_exception :: "py_exn \<Rightarrow> bool" where
  "is_exception (BaseExc _) = False"
| "is_exception _ = True"

text \<open>
  \<open>str(e)\<close>: a \<open>KeyError\<close> prints the \<open>repr\<close> of its key, in single
  quotes (the only key the program looks up is \<open>href\<close>, whose \<open>repr\<close> is
  exactly that); the other exceptions print their message.
\<close>

fun str_exn :: "py_exn \<Rightarrow> string" where
  "str_exn (ValueError m) = m"
| "str_exn (KeyError k) = CHR 0x27 # k @ [CHR 0x27]"
| "str_exn (WebDriverError m) = m"
| "str_exn (BaseExc m) = m"

type_synonym 'a py_result = "py_exn + 'a"

text \<open>The process environment \<open>os.environ\<close>.\<close>

type_synonym env = "string \<rightharpoonup> string"

text \<open>Sequencing of computations that may raise: the first exception wins.\<close>

definition py_bind :: "'a py_result \<Rightarrow> ('a \<Rightarrow> 'b py_result) \<Rightarrow> 'b py_result" where
  "py_bind r f = (case r of Inl e \<Rightarrow> Inl e | Inr x \<Rightarrow> f x)"

text \<open>
  The exceptions and the values among a list of outcomes, in order: the
  vocabulary of loop-free specifications of loops that stop at the first
  exception.
\<close>

fun py_errors :: "'a py_result list \<Rightarrow> py_exn list" where
  "py_errors [] = []"
| "py_errors (Inl e # rs) = e # py_errors rs"
| "py_errors (Inr _ # rs) = py_errors rs"

fun py_values :: "'a py_result list \<Rightarrow> 'a list" where
  "py_values [] = []"
| "py_values (Inl _ # rs) = py_values rs"
| "py_values (Inr x # rs) = x # py_values rs"

lemma py_bind_Inl [simp, py_simps]: "py_bind (Inl e) f = Inl e"
  by (simp add: py_bind_def)

lemma py_bind_Inr [simp, py_simps]: "py_bind (Inr x) f = f x"
  by (simp add: py_bind_def)

section \<open>Generic list lemmas\<close>

lemma dropWhile_Cons_hd:
  "dropWhile P xs = y # ys \<Longrightarrow> \<not> P y"
  by (metis dropWhile_eq_Cons_conv)

lemma hd_filter_first_index:
  assumes "filter P xs \<noteq> []"
  shows "\<exists>i<length xs. hd (filter P xs) = xs ! i \<and> P (xs ! i) \<and> (\<forall>j<i. \<not> P (xs ! j))"
  using assms
proof (induction xs)
  case Nil
  then show ?case by simp
next
  case (Cons x xs)
  show ?case
  proof (cases "P x")
    case True
    then show ?thesis by auto
  next
    case False
    with Cons obtain i where "i < length xs" "hd (filter P xs) = xs ! i" "P (xs ! i)"
      "\<forall>j<i. \<not> P (xs ! j)"
      by auto
    with False show ?thesis
      by (intro exI [of _ "Suc i"]) (auto simp: less_Suc_eq_0_disj)
  qed
qed

end
