(* ===== verification/PyStr.thy ===== *)
theory PyStr
  imports Prelude
begin

text \<open>
  The Python string builtins the program calls: \<open>str.isspace\<close> and
  \<open>str.strip()\<close> (\<open>.text.strip()\<close>, src/ScrapingWLangsmith.py lines 68 and
  71), \<open>str.split()\<close> (how BeautifulSoup splits the \<open>class\<close> attribute that
  the selectors of lines 63 and 70 test), \<open>str.startswith\<close> (line 36),
  \<open>str.replace\<close> (line 48) and \<open>str(int)\<close> (the f-string of line 84).
  Each is a total executable function on strings.
\<close>

section \<open>Whitespace\<close>

text \<open>
  \<open>str.isspace\<close> on one code point below 256: the ASCII controls 9 to 13,
  the separators 28 to 31, the space, NEL (133) and NO-BREAK SPACE (160).
\<close>

definition py_isspace :: "char \<Rightarrow> bool" where
  "py_isspace c =
     (let n = (of_char c :: nat)
      in (9 \<le> n \<and> n \<le> 13) \<or> (28 \<le> n \<and> n \<le> 32) \<or> n = 133 \<or> n = 160)"

text \<open>\<open>str.strip()\<close> with no argument removes leading and trailing whitespace.\<close>

definition py_strip :: "string \<Rightarrow> string" where
  "py_strip s = rev (dropWhile py_isspace (rev (dropWhile py_isspace s)))"

text \<open>
  A string is stripped when it is empty or starts and ends with a
  non-whitespace character.
\<close>

definition stripped :: "string \<Rightarrow> bool" where
  "stripped t = (t = [] \<or> (\<not> py_isspace (hd t) \<and> \<not> py_isspace (last t)))"

text \<open>
  \<open>str.split()\<close> with no argument: the maximal runs of non-whitespace
  characters, in order.
\<close>

function py_split :: "string \<Rightarrow> string list" where
  "py_split s =
     (let t = dropWhile py_isspace s
      in if t = [] then []
         else takeWhile (\<lambda>c. \<not> py_isspace c) t
              # py_split (dropWhile (\<lambda>c. \<not> py_isspace c) t))"
  by pat_completeness auto
termination
proof (relation "measure length", simp)
  fix s t :: string
  assume t: "t = dropWhile py_isspace s" and ne: "t \<noteq> []"
  from ne obtain c cs where tc: "t = c # cs" by (cases t) simp_all
  with t have "\<not> py_isspace c" by (metis dropWhile_Cons_hd)
  with tc have "length (dropWhile (\<lambda>c. \<not> py_isspace c) t) < length t"
    by (simp add: le_imp_less_Suc length_dropWhile_le)
  moreover have "length t \<le> length s"
    using t by (simp add: length_dropWhile_le)
  ultimately show "(dropWhile (\<lambda>c. \<not> py_isspace c) t, s) \<in> measure length"
    by simp
qed

declare py_split.simps [simp del]

text \<open>A word of \<open>split()\<close>: non-empty, without whitespace.\<close>

definition is_word :: "string \<Rightarrow> bool" where
  "is_word w = (w \<noteq> [] \<and> \<not> list_ex py_isspace w)"

text \<open>\<open>s.startswith(p)\<close>.\<close>

definition py_startswith :: "string \<Rightarrow> string \<Rightarrow> bool" where
  "py_startswith s p = (take (length p) s = p)"

section \<open>Replacement\<close>

text \<open>
  \<open>s.replace(old, new)\<close>: the occurrences of \<open>old\<close> are replaced from left
  to right without overlap.  An empty \<open>old\<close> matches before every character
  and at the end (\<open>'ab'.replace('', '-') == '-a-b-'\<close>).
\<close>

function replace_scan :: "string \<Rightarrow> string \<Rightarrow> string \<Rightarrow> string" where
  "replace_scan old new [] = []"
| "replace_scan old new (c # cs) =
     (if old \<noteq> [] \<and> take (length old) (c # cs) = old
      then new @ replace_scan old new (drop (length old) (c # cs))
      else c # replace_scan old new cs)"
  by pat_completeness auto
termination
  by (relation "measure (\<lambda>(_, _, s). length s)") auto

definition py_replace :: "string \<Rightarrow> string \<Rightarrow> string \<Rightarrow> string" where
  "py_replace s old new =
     (if old = [] then new @ concat (map (\<lambda>c. c # new) s)
      else replace_scan old new s)"

section \<open>Decimal digits and \<open>str(int)\<close>\<close>

definition is_digit :: "char \<Rightarrow> bool" where
  "is_digit c = (let n = (of_char c :: nat) in 48 \<le> n \<and> n \<le> 57)"

definition digit_val :: "char \<Rightarrow> nat" where
  "digit_val c = of_char c - 48"

definition digit_char :: "nat \<Rightarrow> char" where
  "digit_char d = char_of (48 + d)"

text \<open>The value of a string of decimal digits, most significant first.\<close>

definition digits_value :: "string \<Rightarrow> nat" where
  "digits_value ds = foldl (\<lambda>a c. 10 * a + digit_val c) 0 ds"

fun show_nat :: "nat \<Rightarrow> string" where
  "show_nat n =
     (if n < 10 then [digit_char n] else show_nat (n div 10) @ [digit_char (n mod 10)])"

declare show_nat.simps [simp del]

text \<open>\<open>str(n)\<close> for a Python \<open>int\<close>.\<close>

definition py_str_int :: "int \<Rightarrow> string" where
  "py_str_int n =
     (if n < 0 then CHR ''-'' # show_nat (nat (- n)) else show_nat (nat n))"

declare py_isspace_def [py_simps] is_digit_def [py_simps] digit_val_def [py_simps]
  digit_char_def [py_simps] digits_value_def [py_simps] py_startswith_def [py_simps]

section \<open>Lemmas on digits\<close>

lemma digit_char_digit [simp]: "d < 10 \<Longrightarrow> is_digit (digit_char d)"
  by (simp add: is_digit_def digit_char_def)

lemma digit_val_digit_char [simp]: "d < 10 \<Longrightarrow> digit_val (digit_char d) = d"
  by (simp add: digit_val_def digit_char_def)

lemma digit_val_less: "is_digit c \<Longrightarrow> digit_val c < 10"
  unfolding is_digit_def digit_val_def Let_def by linarith

lemma digit_char_not_space [simp]: "d < 10 \<Longrightarrow> \<not> py_isspace (digit_char d)"
  by (simp add: py_isspace_def digit_char_def)

lemma digit_not_space: "is_digit c \<Longrightarrow> \<not> py_isspace c"
  by (auto simp: is_digit_def py_isspace_def Let_def)

lemma digits_value_snoc [simp]:
  "digits_value (xs @ [c]) = 10 * digits_value xs + digit_val c"
  by (simp add: digits_value_def)

lemma digits_value_append:
  "digits_value (xs @ ys) = digits_value xs * 10 ^ length ys + digits_value ys"
proof (induction ys rule: rev_induct)
  case Nil
  then show ?case by (simp add: digits_value_def)
next
  case (snoc y ys)
  then show ?case
    by (simp flip: append_assoc add: algebra_simps)
qed

section \<open>\<open>str(n)\<close> and the value of its digits\<close>

lemma show_nat_unfold:
  "show_nat n = (if n < 10 then [digit_char n] else show_nat (n div 10) @ [digit_char (n mod 10)])"
  by (rule show_nat.simps)

lemma show_nat_not_Nil [simp]: "show_nat n \<noteq> []"
  by (subst show_nat_unfold) simp

lemma digits_value_show_nat [simp]: "digits_value (show_nat n) = n"
proof (induction n rule: show_nat.induct)
  case (1 n)
  show ?case
  proof (cases "n < 10")
    case True
    then show ?thesis by (subst show_nat_unfold) (simp add: digits_value_def)
  next
    case False
    with "1.IH" have "digits_value (show_nat (n div 10)) = n div 10" by simp
    with False show ?thesis by (subst show_nat_unfold) simp
  qed
qed

lemma length_show_nat_le:
  "0 < k \<Longrightarrow> length (show_nat n) \<le> k \<longleftrightarrow> n < 10 ^ k"
proof (induction n arbitrary: k rule: show_nat.induct)
  case (1 n)
  show ?case
  proof (cases "n < 10")
    case True
    have "(10::nat) ^ 1 \<le> 10 ^ k" using "1.prems" by (intro power_increasing) simp_all
    with True "1.prems" show ?thesis by (subst show_nat_unfold) simp
  next
    case False
    show ?thesis
    proof (cases k)
      case 0
      with "1.prems" show ?thesis by simp
    next
      case (Suc j)
      show ?thesis
      proof (cases j)
        case 0
        with False Suc show ?thesis by (subst show_nat_unfold) simp
      next
        case (Suc i)
        with "1.IH" False have "length (show_nat (n div 10)) \<le> j \<longleftrightarrow> n div 10 < 10 ^ j"
          by simp
        moreover have "n div 10 < 10 ^ j \<longleftrightarrow> n < 10 ^ Suc j"
          by (simp add: div_less_iff_less_mult mult.commute)
        ultimately show ?thesis using False \<open>k = Suc j\<close>
          by (subst show_nat_unfold) simp
      qed
    qed
  qed
qed

section \<open>Lemmas on \<open>strip\<close> and \<open>replace\<close>\<close>

lemma dropWhile_stripped_append:
  "stripped t \<Longrightarrow> t \<noteq> [] \<Longrightarrow> dropWhile py_isspace (t @ b) = t @ b"
  by (cases t) (auto simp: stripped_def)

lemma py_strip_surrounded:
  assumes a: "list_all py_isspace a" and b: "list_all py_isspace b" and t: "stripped t"
  shows "py_strip (a @ t @ b) = t"
proof (cases "t = []")
  case True
  with a b show ?thesis
    by (auto simp: py_strip_def dropWhile_append2 list_all_iff dropWhile_eq_Nil_conv
        dest: set_dropWhileD)
next
  case False
  have "dropWhile py_isspace (a @ t @ b) = t @ b"
    using a t False by (simp add: dropWhile_append2 list_all_iff dropWhile_stripped_append)
  moreover have "stripped (rev t)"
    using t False by (simp add: stripped_def hd_rev last_rev)
  moreover have "dropWhile py_isspace (rev b @ rev t) = dropWhile py_isspace (rev t)"
    using b by (intro dropWhile_append2) (simp add: list_all_iff)
  moreover have "dropWhile py_isspace (rev t) = rev t"
    using dropWhile_stripped_append [of "rev t" "[]"] \<open>stripped (rev t)\<close> False by simp
  ultimately show ?thesis by (simp add: py_strip_def)
qed

lemma py_strip_stripped: "stripped (py_strip s)"
proof -
  define d where "d = dropWhile py_isspace s"
  define u where "u = dropWhile py_isspace (rev d)"
  have strip: "py_strip s = rev u" by (simp add: py_strip_def d_def u_def)
  have "rev d = takeWhile py_isspace (rev d) @ u" by (simp add: u_def)
  then have d: "d = rev u @ rev (takeWhile py_isspace (rev d))"
    by (metis rev_append rev_rev_ident)
  show ?thesis
  proof (cases u)
    case Nil
    with strip show ?thesis by (simp add: stripped_def)
  next
    case (Cons x xs)
    then have hu: "\<not> py_isspace x" using u_def by (metis dropWhile_Cons_hd)
    from d Cons obtain y ys where dy: "d = y # ys" by (cases d) auto
    then have "\<not> py_isspace y" using d_def by (metis dropWhile_Cons_hd)
    moreover have "hd (rev u) = y"
      using d dy Cons by (metis hd_append2 list.sel(1) list.distinct(1) rev_is_Nil_conv)
    ultimately show ?thesis using hu Cons strip by (simp add: stripped_def)
  qed
qed

text \<open>
  \<open>str.strip()\<close> yields a string that neither starts nor
  ends with whitespace, and stripping it again changes nothing.
\<close>

theorem py_strip_normal_form: "stripped (py_strip s) \<and> py_strip (py_strip s) = py_strip s"
  using py_strip_surrounded [of "[]" "[]" "py_strip s"] py_strip_stripped by simp

theorem py_strip_normal_form_witness:
  "stripped (py_strip '' ab\<newline>'') \<and> py_strip '' ab\<newline>'' = ''ab''"
proof -
  have "py_strip '' ab\<newline>'' = ''ab''" by (simp add: py_strip_def py_simps)
  then show ?thesis using py_strip_normal_form [of "'' ab\<newline>''"] by simp
qed

lemma replace_scan_single:
  "replace_scan [a] new s = concat (map (\<lambda>c. if c = a then new else [c]) s)"
  by (induction s) auto

lemma py_replace_single:
  "py_replace s [a] new = concat (map (\<lambda>c. if c = a then new else [c]) s)"
  by (simp add: py_replace_def replace_scan_single)

section \<open>Properties of \<open>split\<close>\<close>

text \<open>
  \<open>s.split()\<close> cuts \<open>s\<close> into words: every piece is
  non-empty and free of whitespace, and the pieces together are the
  characters of \<open>s\<close> that are not whitespace, in order.
\<close>

theorem py_split_words:
  "list_all is_word (py_split s) \<and> concat (py_split s) = filter (\<lambda>c. \<not> py_isspace c) s"
proof (induction s rule: py_split.induct)
  case (1 s)
  define t where "t = dropWhile py_isspace s"
  show ?case
  proof (cases "t = []")
    case True
    then have "filter (\<lambda>c. \<not> py_isspace c) s = []"
      by (simp add: t_def filter_empty_conv)
    with True show ?thesis by (simp add: py_split.simps t_def)
  next
    case False
    then obtain c cs where tc: "t = c # cs" by (cases t) auto
    then have c: "\<not> py_isspace c" unfolding t_def by (rule dropWhile_Cons_hd)
    have ih: "list_all is_word (py_split (dropWhile (\<lambda>c. \<not> py_isspace c) t)) \<and>
              concat (py_split (dropWhile (\<lambda>c. \<not> py_isspace c) t))
                = filter (\<lambda>c. \<not> py_isspace c) (dropWhile (\<lambda>c. \<not> py_isspace c) t)"
      using "1.IH" False t_def by blast
    have fs: "filter (\<lambda>c. \<not> py_isspace c) s = filter (\<lambda>c. \<not> py_isspace c) t"
      unfolding t_def by (induction s) auto
    have split: "t = takeWhile (\<lambda>c. \<not> py_isspace c) t @ dropWhile (\<lambda>c. \<not> py_isspace c) t"
      by simp
    have "filter (\<lambda>c. \<not> py_isspace c) (takeWhile (\<lambda>c. \<not> py_isspace c) t)
            = takeWhile (\<lambda>c. \<not> py_isspace c) t"
      by (auto simp: filter_id_conv dest: set_takeWhileD)
    moreover have "is_word (takeWhile (\<lambda>c. \<not> py_isspace c) t)"
      using tc c by (auto simp: is_word_def list_ex_iff dest: set_takeWhileD)
    moreover have "py_split s = takeWhile (\<lambda>c. \<not> py_isspace c) t # py_split (dropWhile (\<lambda>c. \<not> py_isspace c) t)"
      using False by (simp add: py_split.simps [of s] t_def Let_def)
    ultimately show ?thesis using ih fs split
      by (metis concat.simps(2) filter_append list.pred_inject(2))
  qed
qed

text \<open>
  Words joined with single spaces split back into the same
  words; this is how BeautifulSoup reads a \<open>class\<close> attribute such as
  \<open>"result-item-content other"\<close>.
\<close>

theorem py_split_join:
  assumes "list_all is_word ws"
  shows "py_split (concat (map (\<lambda>w. CHR '' '' # w) ws)) = ws"
  using assms
proof (induction ws)
  case Nil
  then show ?case by (simp add: py_split.simps)
next
  case (Cons w ws)
  then have w: "w \<noteq> []" "\<forall>c\<in>set w. \<not> py_isspace c" by (auto simp: is_word_def list_ex_iff)
  have sp: "py_isspace (CHR '' '')" by (simp add: py_isspace_def)
  obtain c cs where wc: "w = c # cs" using w by (cases w) auto
  have "takeWhile (\<lambda>c. \<not> py_isspace c) (w @ concat (map (\<lambda>w. CHR '' '' # w) ws)) = w"
    using w by (cases ws) (simp_all add: takeWhile_append2 sp)
  moreover have "dropWhile (\<lambda>c. \<not> py_isspace c) (w @ concat (map (\<lambda>w. CHR '' '' # w) ws))
                   = concat (map (\<lambda>w. CHR '' '' # w) ws)"
    using w sp by (cases ws) (simp_all add: dropWhile_append2)
  ultimately show ?case using Cons sp wc w
    by (subst py_split.simps) (simp add: Let_def)
qed

theorem py_split_join_witness:
  "list_all is_word [''result-item-content'', ''other''] \<and>
   py_split '' result-item-content other'' = [''result-item-content'', ''other'']"
proof -
  have h: "list_all is_word [''result-item-content'', ''other'']"
    by (simp add: is_word_def py_isspace_def)
  show ?thesis using h py_split_join [OF h] by simp
qed

end
