(* ===== verification/Html.thy ===== *)
theory Html
  imports PyStr
begin

text \<open>
  The parsed page and the two BeautifulSoup/soupsieve queries the program
  makes on it (src/ScrapingWLangsmith.py lines 62 to 71).  A page is the
  forest of nodes \<open>BeautifulSoup(driver.page_source, "html.parser")\<close>
  produces (theory \<open>HtmlParse\<close> builds it from the markup).  An element node carries its tag
  name and its attribute dictionary (names and values as \<open>html.parser\<close>
  leaves them: names lower case, a repeated attribute already resolved); a text
  node is a \<open>NavigableString\<close>.  A \<open>tag\<close> is BeautifulSoup's handle on an
  element: besides name, attributes and children it knows its ancestors
  (nearest first), which soupsieve consults for the descendant combinator.
\<close>

section \<open>Documents and tags\<close>

type_synonym attrs = "(string \<times> string) list"

datatype node =
    Element string attrs "node list"
  | Text string

text \<open>An ancestor as soupsieve sees it: its name and attributes.\<close>

type_synonym elem_info = "string \<times> attrs"

record tag =
  tag_anc :: "elem_info list"
  tag_name :: string
  tag_attrs :: attrs
  tag_children :: "node list"

definition tag_info :: "tag \<Rightarrow> elem_info" where
  "tag_info t = (tag_name t, tag_attrs t)"

text \<open>Every string below a node, in document order.\<close>

fun node_text :: "node \<Rightarrow> string" where
  "node_text (Text s) = s"
| "node_text (Element _ _ cs) = concat (map node_text cs)"

text \<open>
  \<open>HTMLTreeBuilder.DEFAULT_STRING_CONTAINERS\<close>: a string whose innermost
  enclosing element has one of these names is built as that element's
  string class (\<open>RubyTextString\<close>, \<open>RubyParenthesisString\<close>,
  \<open>Stylesheet\<close>, \<open>Script\<close>, \<open>TemplateString\<close>) by
  \<open>BeautifulSoup.string_container\<close>; any other string is a
  \<open>NavigableString\<close>.  \<open>node_strings k\<close> pairs each string below a node
  with its class, named by its container (\<open>None\<close> for
  \<open>NavigableString\<close>), \<open>k\<close> being the class above the node.
\<close>

definition string_containers :: "string list" where
  "string_containers = [''rt'', ''rp'', ''style'', ''script'', ''template'']"

fun node_strings :: "string option \<Rightarrow> node \<Rightarrow> (string option \<times> string) list" where
  "node_strings k (Text s) = [(k, s)]"
| "node_strings k (Element n _ cs) =
     concat (map (node_strings (if n \<in> set string_containers then Some n else k)) cs)"

text \<open>
  \<open>Tag.text\<close>, that is \<open>get_text()\<close> over \<open>_all_strings\<close> with the
  tag's \<open>interesting_string_types\<close>: the strings below the element whose
  class is exactly the tag's own, its container class for a string
  container and \<open>NavigableString\<close> otherwise.  The class of a string
  below the tag comes from the innermost container among the tag itself,
  its ancestors and the elements between.
\<close>

definition tag_text :: "tag \<Rightarrow> string" where
  "tag_text t =
     (let own = (if tag_name t \<in> set string_containers then Some (tag_name t) else None);
          k = (case own of Some n \<Rightarrow> Some n | None \<Rightarrow> find (\<lambda>n. n \<in> set string_containers) (map fst (tag_anc t)))
      in concat (map snd (filter (\<lambda>ks. fst ks = own) (concat (map (node_strings k) (tag_children t))))))"

text \<open>
  \<open>tag[key]\<close>: the attribute's value, or \<open>KeyError(key)\<close> when the element
  has no such attribute.
\<close>

definition tag_getitem :: "tag \<Rightarrow> string \<Rightarrow> string py_result" where
  "tag_getitem t k = (case map_of (tag_attrs t) k of None \<Rightarrow> Inl (KeyError k) | Some v \<Rightarrow> Inr v)"

section \<open>Traversal in document order\<close>

text \<open>
  \<open>descendants anc ns\<close>: the elements of the forest \<open>ns\<close>, whose parents are
  \<open>anc\<close>, in document order (pre-order), each as a tag that knows its
  ancestors.  Text nodes are skipped: soupsieve only matches elements.
\<close>

fun descendants :: "elem_info list \<Rightarrow> node list \<Rightarrow> tag list" where
  "descendants anc [] = []"
| "descendants anc (Text _ # ns) = descendants anc ns"
| "descendants anc (Element n a cs # ns) =
     \<lparr>tag_anc = anc, tag_name = n, tag_attrs = a, tag_children = cs\<rparr>
     # descendants ((n, a) # anc) cs @ descendants anc ns"

section \<open>CSS selectors\<close>

text \<open>
  The selectors of the program are compound selectors \<open>name.class...\<close>
  joined by the descendant combinator: \<open>article.result-item-content\<close>,
  \<open>h2 a\<close> and \<open>span.CitationCount\<close>.  A compound names an optional tag
  and the classes the element must carry; the classes of an element are its
  \<open>class\<close> attribute split at whitespace, as BeautifulSoup splits it.
\<close>

datatype compound = Compound "string option" "string list"

type_synonym selector = "compound list"

definition classes :: "attrs \<Rightarrow> string list" where
  "classes a = (case map_of a ''class'' of None \<Rightarrow> [] | Some v \<Rightarrow> py_split v)"

fun match_compound :: "compound \<Rightarrow> elem_info \<Rightarrow> bool" where
  "match_compound (Compound nm cls) (n, a) =
     ((case nm of None \<Rightarrow> True | Some m \<Rightarrow> m = n) \<and> list_all (\<lambda>c. c \<in> set (classes a)) cls)"

text \<open>
  The descendant combinator, as soupsieve's \<open>match_past_relations\<close> walks
  it: the remaining compounds (innermost first) must match a chain of
  ancestors, each found by walking further up from the last one matched.  The
  walk is not bounded by the element \<open>select\<close> was called on.
\<close>

fun match_ancestors :: "compound list \<Rightarrow> elem_info list \<Rightarrow> bool" where
  "match_ancestors [] _ = True"
| "match_ancestors (c # cs) [] = False"
| "match_ancestors (c # cs) (p # ps) =
     ((match_compound c p \<and> match_ancestors cs ps) \<or> match_ancestors (c # cs) ps)"

definition match_selector :: "selector \<Rightarrow> tag \<Rightarrow> bool" where
  "match_selector sel t =
     (case rev sel of
       [] \<Rightarrow> False
     | c # cs \<Rightarrow> match_compound c (tag_info t) \<and> match_ancestors cs (tag_anc t))"

text \<open>
  \<open>soup.select(sel)\<close> on the document (the forest has no parent) and
  \<open>tag.select(sel)\<close> on an element: the matching descendants in document
  order.  \<open>select_one\<close> is the first of them, \<open>None\<close> when there is none.
\<close>

definition soup_select :: "node list \<Rightarrow> selector \<Rightarrow> tag list" where
  "soup_select doc sel = filter (match_selector sel) (descendants [] doc)"

definition tag_select :: "tag \<Rightarrow> selector \<Rightarrow> tag list" where
  "tag_select t sel = filter (match_selector sel) (descendants (tag_info t # tag_anc t) (tag_children t))"

definition tag_select_one :: "tag \<Rightarrow> selector \<Rightarrow> tag option" where
  "tag_select_one t sel = (case tag_select t sel of [] \<Rightarrow> None | x # _ \<Rightarrow> Some x)"

section \<open>Lemmas\<close>

lemma descendants_append [simp]:
  "descendants anc (xs @ ys) = descendants anc xs @ descendants anc ys"
proof (induction xs arbitrary: ys)
  case Nil
  then show ?case by simp
next
  case (Cons x xs)
  then show ?case by (cases x) simp_all
qed

text \<open>Every element found below a forest has the forest's parents as its outer ancestors.\<close>

lemma descendants_anc:
  "t \<in> set (descendants anc ns) \<Longrightarrow> \<exists>p. tag_anc t = p @ anc"
proof (induction anc ns rule: descendants.induct)
  case (3 anc n a cs ns)
  then show ?case by (auto dest!: "3.IH"(1))
qed simp_all

lemma match_ancestors_single:
  "match_ancestors [c] ps = list_ex (match_compound c) ps"
  by (induction ps) auto

lemma match_descendant_pair:
  "match_selector [Compound (Some p) [], Compound (Some c) []] t
   = (tag_name t = c \<and> list_ex (\<lambda>x. fst x = p) (tag_anc t))"
proof -
  have "match_compound (Compound (Some p) []) = (\<lambda>x. fst x = p)"
    by (auto simp: fun_eq_iff)
  then show ?thesis
    by (auto simp: match_selector_def tag_info_def match_ancestors_single)
qed

text \<open>
  Below a string container every string has a container class; without
  one, every string is a \<open>NavigableString\<close>.
\<close>

lemma node_strings_classed:
  "k \<noteq> None \<Longrightarrow> \<forall>p \<in> set (node_strings k x). fst p \<noteq> None"
  by (induction k x rule: node_strings.induct) auto

lemma node_strings_plain:
  "\<forall>d \<in> set (descendants anc xs). tag_name d \<notin> set string_containers \<Longrightarrow>
   (\<forall>p \<in> set (concat (map (node_strings None) xs)). fst p = None) \<and>
   concat (map snd (concat (map (node_strings None) xs))) = concat (map node_text xs)"
  by (induction anc xs rule: descendants.induct) auto

section \<open>Properties of the queries\<close>

text \<open>
  C20 (functional): on markup without string containers, neither around
  the element nor below it, \<open>Tag.text\<close> is every string below the element
  in document order.
\<close>

theorem tag_text_plain:
  assumes "tag_name t \<notin> set string_containers"
    and "\<forall>n \<in> set (map fst (tag_anc t)). n \<notin> set string_containers"
    and "\<forall>d \<in> set (descendants [] (tag_children t)). tag_name d \<notin> set string_containers"
  shows "tag_text t = concat (map node_text (tag_children t))"
proof -
  have "find (\<lambda>n. n \<in> set string_containers) (map fst (tag_anc t)) = None"
    using assms(2) by (simp add: find_None_iff)
  with assms(1) node_strings_plain [OF assms(3)] show ?thesis
    by (simp add: tag_text_def Let_def filter_id_conv)
qed

theorem tag_text_plain_witness:
  "''a'' \<notin> set string_containers \<and> ''h2'' \<notin> set string_containers \<and> ''em'' \<notin> set string_containers \<and>
   tag_text \<lparr>tag_anc = [(''h2'', [])], tag_name = ''a'', tag_attrs = [], tag_children = [Text ''Lithium '', Element ''em'' [] [Text ''in'']]\<rparr> = ''Lithium in''"
  using tag_text_plain [of "\<lparr>tag_anc = [(''h2'', [])], tag_name = ''a'', tag_attrs = [], tag_children = [Text ''Lithium '', Element ''em'' [] [Text ''in'']]\<rparr>"]
  by (simp add: string_containers_def)

text \<open>
  C21 (functional): a string container inside an ordinary element, such as a
  \<open>script\<close> inside the title anchor, adds nothing to the element's
  \<open>Tag.text\<close>: its strings have the container's class.
\<close>

theorem tag_text_drops_container:
  assumes "n \<in> set string_containers" and "tag_name t \<notin> set string_containers"
  shows "tag_text (t\<lparr>tag_children := xs @ Element n a ks # ys\<rparr>) = tag_text (t\<lparr>tag_children := xs @ ys\<rparr>)"
proof -
  have "\<forall>p \<in> set (node_strings k (Element n a ks)). fst p \<noteq> None" for k
    using assms(1) node_strings_classed [of "Some n"] by auto
  then show ?thesis
    using assms(2) by (simp add: tag_text_def Let_def filter_empty_conv)
qed

theorem tag_text_drops_container_witness:
  "''script'' \<in> set string_containers \<and> ''a'' \<notin> set string_containers \<and>
   tag_text \<lparr>tag_anc = [], tag_name = ''a'', tag_attrs = [], tag_children = [Text ''Title''] @ Element ''script'' [] [Text ''x=1''] # []\<rparr> = ''Title''"
proof -
  have "tag_text (\<lparr>tag_anc = [], tag_name = ''a'', tag_attrs = [], tag_children = []\<rparr>\<lparr>tag_children := [Text ''Title''] @ Element ''script'' [] [Text ''x=1''] # []\<rparr>)
          = tag_text (\<lparr>tag_anc = [], tag_name = ''a'', tag_attrs = [], tag_children = []\<rparr>\<lparr>tag_children := [Text ''Title''] @ []\<rparr>)"
    by (rule tag_text_drops_container) (simp_all add: string_containers_def)
  then show ?thesis by (simp add: tag_text_def string_containers_def)
qed

text \<open>
  \<open>tag.select\<close> only returns elements strictly below the
  tag: each result's ancestors are some elements followed by the tag itself
  and the tag's own ancestors.
\<close>

theorem tag_select_below:
  assumes "x \<in> set (tag_select t sel)"
  shows "\<exists>p. tag_anc x = p @ tag_info t # tag_anc t"
proof -
  from assms have "x \<in> set (descendants (tag_info t # tag_anc t) (tag_children t))"
    by (simp add: tag_select_def)
  then show ?thesis by (rule descendants_anc)
qed

theorem tag_select_below_witness:
  "\<lparr>tag_anc = [(''p'', []), (''div'', [])], tag_name = ''a'', tag_attrs = [], tag_children = []\<rparr>
     \<in> set (tag_select \<lparr>tag_anc = [], tag_name = ''div'', tag_attrs = [],
                          tag_children = [Element ''p'' [] [Element ''a'' [] []]]\<rparr>
              [Compound (Some ''a'') []]) \<and>
   (\<exists>p. [(''p'', []), (''div'', [])]
          = p @ tag_info \<lparr>tag_anc = [], tag_name = ''div'', tag_attrs = [],
                          tag_children = [Element ''p'' [] [Element ''a'' [] []]]\<rparr> # [])"
proof -
  have h: "\<lparr>tag_anc = [(''p'', []), (''div'', [])], tag_name = ''a'', tag_attrs = [], tag_children = []\<rparr>
     \<in> set (tag_select \<lparr>tag_anc = [], tag_name = ''div'', tag_attrs = [],
                          tag_children = [Element ''p'' [] [Element ''a'' [] []]]\<rparr>
              [Compound (Some ''a'') []])"
    by code_simp
  show ?thesis using h tag_select_below [OF h] by simp
qed

end
