(* ===== verification/PyInt.thy ===== *)
theory PyInt
  imports PyStr
begin

text \<open>
  Python's \<open>int(s)\<close> on a string, as CPython computes it
  (\<open>PyLong_FromUnicodeObject\<close>), used on line 74 of
  src/ScrapingWLangsmith.py to read the citation count.  The string is first
  normalised (characters below 127 are kept, a whitespace character from 127
  up becomes a space, any other becomes \<open>?\<close>); then optional ASCII whitespace, an
  optional sign, decimal digits with single underscores between digits, and
  optional trailing whitespace.  More than \<open>int_max_str_digits\<close> = 4300
  digits is refused (CPython 3.11 and later).  Every failure is a
  \<open>ValueError\<close>.
\<close>

section \<open>Definitions\<close>

definition int_max_str_digits :: nat where
  "int_max_str_digits = 4300"

text \<open>\<open>_PyUnicode_TransformDecimalAndSpaceToASCII\<close> on one character.\<close>

definition int_transform :: "char \<Rightarrow> char" where
  "int_transform c =
     (if (of_char c :: nat) < 127 then c else if py_isspace c then CHR '' '' else CHR ''?'')"

text \<open>\<open>Py_ISSPACE\<close>: the ASCII whitespace the C parser skips.\<close>

definition is_ascii_space :: "char \<Rightarrow> bool" where
  "is_ascii_space c = (let n = (of_char c :: nat) in n = 32 \<or> (9 \<le> n \<and> n \<le> 13))"

text \<open>
  The digit loop of \<open>long_from_string_base\<close>: it accumulates the value and
  counts the digits; an underscore is consumed only when a digit follows it,
  so a doubled or trailing underscore stops the scan and is left in the rest.
\<close>

fun scan_digits :: "nat \<Rightarrow> nat \<Rightarrow> string \<Rightarrow> nat \<times> nat \<times> string" where
  "scan_digits v k [] = (v, k, [])"
| "scan_digits v k (c # cs) =
     (if is_digit c then scan_digits (10 * v + digit_val c) (Suc k) cs
      else if c = CHR ''_'' then
        (case cs of
          d # _ \<Rightarrow> if is_digit d then scan_digits v k cs else (v, k, c # cs)
        | [] \<Rightarrow> (v, k, c # cs))
      else (v, k, c # cs))"

definition int_invalid :: py_exn where
  "int_invalid = ValueError ''invalid literal for int() with base 10''"

definition int_too_long :: py_exn where
  "int_too_long = ValueError ''Exceeds the limit (4300 digits) for integer string conversion''"

text \<open>The sign, then the digits: \<open>(negative, rest)\<close>.\<close>

fun split_sign :: "string \<Rightarrow> bool \<times> string" where
  "split_sign (c # r) =
     (if c = CHR ''-'' then (True, r) else if c = CHR ''+'' then (False, r) else (False, c # r))"
| "split_sign [] = (False, [])"

text \<open>
  The part of \<open>PyLong_FromString\<close> after the sign: at least one digit
  first, the digit loop, the digit limit, then only whitespace may follow.
\<close>

definition int_body :: "bool \<Rightarrow> string \<Rightarrow> int py_result" where
  "int_body neg body =
     (case body of
       [] \<Rightarrow> Inl int_invalid
     | c # _ \<Rightarrow>
         if is_digit c then
           (case scan_digits 0 0 body of
             (v, k, rest) \<Rightarrow>
               if int_max_str_digits < k then Inl int_too_long
               else if list_all is_ascii_space rest
               then Inr (if neg then - int v else int v)
               else Inl int_invalid)
         else Inl int_invalid)"

definition py_int :: "string \<Rightarrow> int py_result" where
  "py_int s =
     (case split_sign (dropWhile is_ascii_space (map int_transform s)) of
       (neg, body) \<Rightarrow> int_body neg body)"

text \<open>A group of digits between underscores in a literal such as \<open>"1_000"\<close>.\<close>

definition digit_group :: "string \<Rightarrow> bool" where
  "digit_group g = (g \<noteq> [] \<and> list_all is_digit g)"

declare int_max_str_digits_def [py_simps] is_ascii_space_def [py_simps]

section \<open>Lemmas\<close>

lemma int_transform_digit [simp]: "is_digit c \<Longrightarrow> int_transform c = c"
  by (auto simp: int_transform_def is_digit_def py_isspace_def Let_def)

text \<open>The characters \<open>int()\<close> skips around a number.\<close>

lemma is_digit_int_transform [simp]: "is_digit (int_transform c) = is_digit c"
  by (auto simp: int_transform_def is_digit_def py_isspace_def Let_def)

lemma ascii_space_not_digit: "is_ascii_space c \<Longrightarrow> \<not> is_digit c"
  by (auto simp: is_ascii_space_def is_digit_def Let_def)

lemma space_is_ascii_space [simp]: "is_ascii_space CHR '' ''"
  by (simp add: is_ascii_space_def)

lemma scan_digits_append:
  "list_all is_digit ds \<Longrightarrow>
   scan_digits v k (ds @ rest) = scan_digits (v * 10 ^ length ds + digits_value ds) (k + length ds) rest"
proof (induction ds arbitrary: v k)
  case Nil
  then show ?case by (simp add: digits_value_def)
next
  case (Cons d ds)
  have "digits_value (d # ds) = digit_val d * 10 ^ length ds + digits_value ds"
    using digits_value_append [of "[d]" ds] by (simp add: digits_value_def)
  with Cons show ?case by (simp add: algebra_simps)
qed

lemma scan_digits_bound:
  "scan_digits v k cs = (v', k', r) \<Longrightarrow> k \<le> k' \<and> v' + 1 \<le> (v + 1) * 10 ^ (k' - k)"
proof (induction v k cs arbitrary: v' k' r rule: scan_digits.induct)
  case (1 v k)
  then show ?case by simp
next
  case (2 v k c cs)
  show ?case
  proof (cases "is_digit c")
    case True
    with "2.prems" have eq: "scan_digits (10 * v + digit_val c) (Suc k) cs = (v', k', r)" by simp
    with True "2.IH"(1) have ih: "Suc k \<le> k' \<and> v' + 1 \<le> (10 * v + digit_val c + 1) * 10 ^ (k' - Suc k)"
      by blast
    have "10 * v + digit_val c + 1 \<le> (v + 1) * 10" using digit_val_less [OF True] by simp
    then have "(10 * v + digit_val c + 1) * 10 ^ (k' - Suc k) \<le> (v + 1) * 10 * 10 ^ (k' - Suc k)"
      by (rule mult_right_mono) simp
    also have "\<dots> = (v + 1) * 10 ^ (k' - k)"
    proof -
      from ih have "Suc k \<le> k'" by (rule conjunct1)
      then have "k' - k = Suc (k' - Suc k)" by arith
      then show ?thesis by (simp only: power_Suc mult.assoc)
    qed
    finally show ?thesis using ih by simp
  next
    case False
    then show ?thesis using "2.prems" "2.IH"(2)
      by (auto split: if_splits list.splits)
  qed
qed

lemma map_int_transform_digits:
  "list_all is_digit ds \<Longrightarrow> map int_transform ds = ds"
  by (induction ds) auto

lemma int_transform_minus [simp]: "int_transform CHR ''-'' = CHR ''-''"
  by (simp add: int_transform_def py_isspace_def)

lemma scan_digits_spaces:
  "list_all is_ascii_space ws \<Longrightarrow> scan_digits v k ws = (v, k, ws)"
proof (cases ws)
  case (Cons c cs)
  moreover assume "list_all is_ascii_space ws"
  ultimately have sp: "is_ascii_space c" by simp
  then have "\<not> is_digit c" by (rule ascii_space_not_digit)
  moreover from sp have "c \<noteq> CHR ''_''" by (auto simp: is_ascii_space_def)
  ultimately show ?thesis using Cons by simp
qed simp

lemma int_body_digits:
  assumes "ds \<noteq> []" "list_all is_digit ds" "list_all is_ascii_space ws"
    and "length ds \<le> int_max_str_digits"
  shows "int_body neg (ds @ ws) =
           Inr (if neg then - int (digits_value ds) else int (digits_value ds))"
proof -
  obtain d ds' where ds: "ds = d # ds'" using assms(1) by (cases ds) auto
  have "scan_digits 0 0 (ds @ ws) = (digits_value ds, length ds, ws)"
    using assms(2,3) by (simp add: scan_digits_append scan_digits_spaces)
  with assms(2,3,4) ds show ?thesis by (simp add: int_body_def)
qed

lemma split_sign_digits:
  "ds \<noteq> [] \<Longrightarrow> list_all is_digit ds \<Longrightarrow> split_sign (ds @ ws) = (False, ds @ ws)"
  by (cases ds) (auto simp: is_digit_def)

lemma dropWhile_ascii_space_digits:
  "ds \<noteq> [] \<Longrightarrow> list_all is_digit ds \<Longrightarrow> dropWhile is_ascii_space (ds @ ws) = ds @ ws"
  by (cases ds) (auto dest: ascii_space_not_digit)

text \<open>The characters the body of the parse is taken from.\<close>

lemma set_split_sign: "set (snd (split_sign xs)) \<subseteq> set xs"
  by (cases xs rule: split_sign.cases) auto

lemma int_body_Inl: "int_body neg body = Inl e \<Longrightarrow> e = int_invalid \<or> e = int_too_long"
  by (auto simp: int_body_def split: list.splits if_splits prod.splits)

lemma int_body_bound:
  assumes "int_body neg body = Inr n"
  shows "\<bar>n\<bar> < 10 ^ int_max_str_digits"
proof -
  obtain c cs where body: "body = c # cs" using assms by (cases body) (auto simp: int_body_def)
  obtain v k rest where scan: "scan_digits 0 0 body = (v, k, rest)" by (cases "scan_digits 0 0 body")
  with assms body have k: "k \<le> int_max_str_digits" and n: "\<bar>n\<bar> = int v"
    by (auto simp: int_body_def split: if_splits)
  from scan_digits_bound [OF scan] have "v < 10 ^ k" by simp
  also have "\<dots> \<le> 10 ^ int_max_str_digits" using k by (rule power_increasing) simp
  finally show ?thesis using n by (simp flip: of_nat_power)
qed

lemma int_body_no_digit:
  "\<not> list_ex is_digit body \<Longrightarrow> int_body neg body = Inl int_invalid"
  by (cases body) (auto simp: int_body_def)

text \<open>
  The general shape of a string \<open>int()\<close> accepts: whitespace, an optional
  minus sign, at most 4300 digits, whitespace.
\<close>

lemma py_int_signed_digits:
  assumes ds: "ds \<noteq> []" "list_all is_digit ds" "length ds \<le> int_max_str_digits"
    and a: "list_all (\<lambda>c. is_ascii_space (int_transform c)) a"
    and b: "list_all (\<lambda>c. is_ascii_space (int_transform c)) b"
  shows "py_int (a @ (if neg then [CHR ''-''] else []) @ ds @ b) =
           Inr (if neg then - int (digits_value ds) else int (digits_value ds))"
proof -
  let ?A = "map int_transform a" and ?B = "map int_transform b"
  let ?sg = "if neg then [CHR ''-''] else []"
  have map: "map int_transform (a @ ?sg @ ds @ b) = ?A @ ?sg @ ds @ ?B"
    using ds by (simp add: map_int_transform_digits)
  have "dropWhile is_ascii_space (?A @ ?sg @ ds @ ?B) = dropWhile is_ascii_space (?sg @ ds @ ?B)"
    using a by (intro dropWhile_append2) (auto simp: list_all_iff)
  also have "\<dots> = ?sg @ ds @ ?B"
    using ds by (auto simp: dropWhile_ascii_space_digits is_ascii_space_def)
  finally have dw: "dropWhile is_ascii_space (map int_transform (a @ ?sg @ ds @ b)) = ?sg @ ds @ ?B"
    using map by simp
  have sign: "split_sign (?sg @ ds @ ?B) = (neg, ds @ ?B)"
    using ds by (simp add: split_sign_digits)
  have sp: "list_all is_ascii_space ?B" using b by (simp add: list_all_iff)
  have "py_int (a @ ?sg @ ds @ b) = int_body neg (ds @ ?B)"
    by (simp only: py_int_def dw sign prod.case)
  also have "\<dots> = Inr (if neg then - int (digits_value ds) else int (digits_value ds))"
    using ds(1,2) sp ds(3) by (rule int_body_digits)
  finally show ?thesis .
qed

text \<open>The digit loop reads digit groups joined by single underscores as one numeral.\<close>

lemma scan_digits_groups:
  "list_all digit_group gs \<Longrightarrow>
   scan_digits v k (concat (map (\<lambda>g. CHR ''_'' # g) gs) @ rest)
     = scan_digits (v * 10 ^ length (concat gs) + digits_value (concat gs)) (k + length (concat gs)) rest"
proof (induction gs arbitrary: v k)
  case Nil
  then show ?case by (simp add: digits_value_def)
next
  case (Cons g gs)
  then obtain d ds where g: "g = d # ds" "is_digit d" "list_all is_digit g"
    by (cases g) (auto simp: digit_group_def)
  have us: "\<not> is_digit CHR ''_''" by (simp add: is_digit_def)
  have "scan_digits v k (concat (map (\<lambda>g. CHR ''_'' # g) (g # gs)) @ rest)
          = scan_digits v k (g @ concat (map (\<lambda>g. CHR ''_'' # g) gs) @ rest)"
    using g us by simp
  also have "\<dots> = scan_digits (v * 10 ^ length g + digits_value g) (k + length g)
                     (concat (map (\<lambda>g. CHR ''_'' # g) gs) @ rest)"
    using g(3) by (rule scan_digits_append)
  also have "\<dots> = scan_digits ((v * 10 ^ length g + digits_value g) * 10 ^ length (concat gs)
                       + digits_value (concat gs)) (k + length g + length (concat gs)) rest"
    using Cons by simp
  also have "\<dots> = scan_digits (v * 10 ^ length (concat (g # gs)) + digits_value (concat (g # gs)))
                     (k + length (concat (g # gs))) rest"
    by (simp add: digits_value_append algebra_simps power_add)
  finally show ?case .
qed

lemma py_int_Inl_ValueError: "py_int s = Inl e \<Longrightarrow> \<exists>m. e = ValueError m"
  by (auto simp: py_int_def int_invalid_def int_too_long_def split: prod.splits
           dest: int_body_Inl)

lemma py_int_no_digit:
  assumes "\<not> list_ex is_digit s"
  shows "py_int s = Inl int_invalid"
proof -
  let ?xs = "dropWhile is_ascii_space (map int_transform s)"
  have "set (snd (split_sign ?xs)) \<subseteq> set (map int_transform s)"
    using set_split_sign [of ?xs] set_dropWhileD by fastforce
  moreover obtain neg body where sp: "split_sign ?xs = (neg, body)"
    by (cases "split_sign ?xs")
  ultimately have "\<not> list_ex is_digit body"
    using assms by (fastforce simp: list_ex_iff)
  then show ?thesis
    by (simp add: py_int_def sp int_body_no_digit)
qed

section \<open>Properties of \<open>int()\<close>\<close>

text \<open>
  C27 (bounds): whatever \<open>int()\<close> accepts is below \<open>10 ^ 4300\<close> in absolute
  value, because of the digit limit.
\<close>

theorem py_int_bound: "py_int s = Inr n \<Longrightarrow> \<bar>n\<bar> < 10 ^ int_max_str_digits"
  by (auto simp: py_int_def split: prod.splits intro: int_body_bound)

theorem py_int_bound_witness:
  "py_int ''300'' = Inr 300 \<and> \<bar>300::int\<bar> < 10 ^ int_max_str_digits"
proof -
  have h: "py_int ''300'' = Inr 300" by code_simp
  show ?thesis using h py_int_bound [OF h] by simp
qed

text \<open>
  C28 (functional): \<open>int()\<close> reads digit groups joined by single underscores
  as the numeral of all their digits: a citation text \<open>"1_000"\<close> counts
  1000.
\<close>

theorem py_int_underscores:
  assumes "list_all digit_group (g # gs)" and "length (concat (g # gs)) \<le> int_max_str_digits"
  shows "py_int (g @ concat (map (\<lambda>g. CHR ''_'' # g) gs)) = Inr (int (digits_value (concat (g # gs))))"
proof -
  let ?s = "g @ concat (map (\<lambda>g. CHR ''_'' # g) gs)"
  obtain d ds where g: "g = d # ds" "is_digit d" "list_all is_digit g"
    using assms(1) by (cases g) (auto simp: digit_group_def)
  have tr: "int_transform c = c" if "c \<in> set ?s" for c
  proof -
    from that assms(1) have "is_digit c \<or> c = CHR ''_''"
      by (auto simp: digit_group_def list_all_iff split: if_splits)
    then show ?thesis by (elim disjE) (simp, simp add: int_transform_def)
  qed
  then have "map int_transform ?s = ?s" by (rule map_idI)
  moreover have "dropWhile is_ascii_space ?s = ?s"
    using g by (auto dest: ascii_space_not_digit)
  moreover have "split_sign ?s = (False, ?s)"
    using g by (auto simp: is_digit_def)
  moreover have "scan_digits 0 0 ?s = (digits_value (concat (g # gs)), length (concat (g # gs)), [])"
  proof -
    have "scan_digits (digits_value g) (length g) (concat (map (\<lambda>g. CHR ''_'' # g) gs) @ [])
            = (digits_value g * 10 ^ length (concat gs) + digits_value (concat gs),
               length g + length (concat gs), [])"
      using assms(1) scan_digits_groups [of gs "digits_value g" "length g" "[]"] by simp
    then show ?thesis
      using g(3) by (simp add: scan_digits_append digits_value_append)
  qed
  ultimately show ?thesis
    using g assms(2) by (simp add: py_int_def int_body_def)
qed

theorem py_int_underscores_witness:
  "list_all digit_group [''1'', ''000''] \<and> length (concat [''1'', ''000'']) \<le> int_max_str_digits \<and>
   py_int ''1_000'' = Inr 1000"
proof -
  have h1: "list_all digit_group [''1'', ''000'']" by (simp add: digit_group_def is_digit_def)
  have h2: "length (concat [''1'', ''000'']) \<le> int_max_str_digits" by (simp add: int_max_str_digits_def)
  have "py_int (''1'' @ concat (map (\<lambda>g. CHR ''_'' # g) [''000'']))
          = Inr (int (digits_value (concat [''1'', ''000''])))"
    using py_int_underscores [OF h1 h2] by simp
  then show ?thesis using h1 h2 by (simp add: digits_value_def digit_val_def)
qed

end
