(* ===== verification/Extract.thy ===== *)
theory Extract
  imports Html PyInt
begin

text \<open>
  The extractor-ranker: the body of the \<open>try\<close> block of
  \<open>search_sciencedirect_bipolar\<close> after the page is fetched
  (src/ScrapingWLangsmith.py lines 62 to 84).  The page is selected for
  article nodes, the first ten are turned into candidates
  \<open>(title, link, citations)\<close>, and the most cited one is formatted.  Every
  exception the code can raise here is an \<open>Inl\<close>; \<open>search_sciencedirect_bipolar\<close>
  (theory \<open>Tool\<close>) turns it into the error string.
\<close>

section \<open>Selectors and constants\<close>

definition article_sel :: selector where
  "article_sel = [Compound (Some ''article'') [''result-item-content'']]"

definition title_sel :: selector where
  "title_sel = [Compound (Some ''h2'') [], Compound (Some ''a'') []]"

definition citation_sel :: selector where
  "citation_sel = [Compound (Some ''span'') [''CitationCount'']]"

definition base_url :: string where
  "base_url = ''https://www.sciencedirect.com''"

section \<open>One article\<close>

type_synonym candidate = "string \<times> string \<times> int"

definition cand_citations :: "candidate \<Rightarrow> int" where
  "cand_citations c = snd (snd c)"

text \<open>
  Lines 73 to 76: \<open>int(citations)\<close>, with a \<open>ValueError\<close> caught and
  replaced by 0; any other exception would propagate.
\<close>

definition citations_to_int :: "string \<Rightarrow> int py_result" where
  "citations_to_int s =
     (case py_int s of
       Inr n \<Rightarrow> Inr n
     | Inl (ValueError _) \<Rightarrow> Inr 0
     | Inl e \<Rightarrow> Inl e)"

text \<open>
  Lines 67 to 78 for one article: the title anchor \<open>h2 a\<close> gives the title
  (its stripped text, \<open>"No Title"\<close> without an anchor) and the link (the site
  prefixed to \<open>title_tag["href"]\<close>, which raises \<open>KeyError\<close> when the anchor
  has no \<open>href\<close>; \<open>""\<close> without an anchor); \<open>span.CitationCount\<close> gives
  the citation text (\<open>"0"\<close> without one).  The expressions are evaluated in
  the order of the source lines.
\<close>

definition extract_article :: "tag \<Rightarrow> candidate py_result" where
  "extract_article art =
     (let title_tag = tag_select_one art title_sel;
          title = (case title_tag of Some t \<Rightarrow> py_strip (tag_text t) | None \<Rightarrow> ''No Title'')
      in py_bind
           (case title_tag of
              Some t \<Rightarrow> py_bind (tag_getitem t ''href'') (\<lambda>h. Inr (base_url @ h))
            | None \<Rightarrow> Inr '''')
           (\<lambda>link.
              let citation_tag = tag_select_one art citation_sel;
                  citations = (case citation_tag of Some c \<Rightarrow> py_strip (tag_text c) | None \<Rightarrow> ''0'')
              in py_bind (citations_to_int citations) (\<lambda>n. Inr (title, link, n))))"

section \<open>The loop and the ranking\<close>

text \<open>Lines 65 to 78: \<open>results.append\<close> in a loop; an exception leaves the loop.\<close>

fun collect_results :: "tag list \<Rightarrow> candidate list \<Rightarrow> candidate list py_result" where
  "collect_results [] acc = Inr acc"
| "collect_results (art # arts) acc =
     py_bind (extract_article art) (\<lambda>r. collect_results arts (acc @ [r]))"

text \<open>Lines 63 to 78: the candidates of the first ten article nodes.\<close>

definition page_candidates :: "node list \<Rightarrow> candidate list py_result" where
  "page_candidates doc = collect_results (take 10 (soup_select doc article_sel)) []"

text \<open>
  Python's \<open>max(iterable, key=k)\<close> (line 83): the first item is the running
  maximum, and a later item replaces it only when its key is strictly
  greater; an empty iterable raises \<open>ValueError\<close>.
\<close>

fun max_scan :: "('a \<Rightarrow> int) \<Rightarrow> 'a \<Rightarrow> 'a list \<Rightarrow> 'a" where
  "max_scan k m [] = m"
| "max_scan k m (x # xs) = (if k m < k x then max_scan k x xs else max_scan k m xs)"

definition py_max_key :: "('a \<Rightarrow> int) \<Rightarrow> 'a list \<Rightarrow> 'a py_result" where
  "py_max_key k xs =
     (case xs of
       [] \<Rightarrow> Inl (ValueError ''max() arg is an empty sequence'')
     | x # rest \<Rightarrow> Inr (max_scan k x rest))"

text \<open>
  The ranking the specification asks for, stated without a loop: the first
  element, in list order, whose key is at least every key.
\<close>

definition first_max :: "('a \<Rightarrow> int) \<Rightarrow> 'a list \<Rightarrow> 'a" where
  "first_max k xs = hd (filter (\<lambda>x. list_all (\<lambda>y. k y \<le> k x) xs) xs)"

text \<open>Line 84: \<open>f"{title} ({citations} citations): {link}"\<close>.\<close>

definition format_result :: "candidate \<Rightarrow> string" where
  "format_result c =
     (case c of (title, link, n) \<Rightarrow>
        title @ '' ('' @ py_str_int n @ '' citations): '' @ link)"

definition no_articles :: string where
  "no_articles = ''No articles found.''"

text \<open>Lines 62 to 84, from the parsed page to the returned string.\<close>

definition scrape_page :: "node list \<Rightarrow> string py_result" where
  "scrape_page doc =
     py_bind (page_candidates doc)
       (\<lambda>results.
          if results = [] then Inr no_articles
          else py_bind (py_max_key cand_citations results) (\<lambda>m. Inr (format_result m)))"

text \<open>
  What lines 62 to 84 promise, stated without the loop and the scan: of the
  outcomes of the first ten articles, the first exception is raised; with no
  exception, no candidate gives \<open>"No articles found."\<close> and otherwise the
  first most-cited candidate is formatted.
\<close>

definition best_article :: "node list \<Rightarrow> string py_result" where
  "best_article doc =
     (let outs = map extract_article (take 10 (soup_select doc article_sel))
      in case py_errors outs of
           e # _ \<Rightarrow> Inl e
         | [] \<Rightarrow> (let cs = py_values outs
                 in if cs = [] then Inr no_articles
                    else Inr (format_result (first_max cand_citations cs))))"

text \<open>
  The shape of a candidate: a stripped title, and a link that is empty
  exactly for the placeholder title \<open>"No Title"\<close> and otherwise starts with
  the site's address.
\<close>

definition wf_candidate :: "candidate \<Rightarrow> bool" where
  "wf_candidate c =
     (case c of (title, link, n) \<Rightarrow>
        stripped title \<and> (if link = [] then title = ''No Title'' else py_startswith link base_url))"

section \<open>The ranking\<close>

text \<open>
  \<open>max\<close>'s scan computes the first maximal element: a later element replaces
  the running maximum only when it is strictly greater, so among equal keys
  the earliest survives.
\<close>

lemma max_scan_first_max: "max_scan k m xs = first_max k (m # xs)"
proof (induction xs arbitrary: m)
  case Nil
  then show ?case by (simp add: first_max_def)
next
  case (Cons x xs)
  let ?P = "\<lambda>L z. list_all (\<lambda>y. k y \<le> k z) L"
  show ?case
  proof (cases "k m < k x")
    case True
    have "filter (?P (m # x # xs)) (x # xs) = filter (?P (x # xs)) (x # xs)"
      using True by (intro filter_cong) auto
    with True Cons.IH [of x] show ?thesis by (simp add: first_max_def)
  next
    case False
    have eq: "?P (m # x # xs) = ?P (m # xs)"
      using False by (auto simp: fun_eq_iff)
    have "\<not> ?P (m # xs) m \<Longrightarrow> \<not> ?P (m # xs) x"
      using False by auto
    then have "filter (?P (m # xs)) (m # x # xs) = filter (?P (m # xs)) (m # xs) \<or>
               hd (filter (?P (m # xs)) (m # x # xs)) = m \<and> ?P (m # xs) m"
      by auto
    with False Cons.IH [of m] eq show ?thesis by (auto simp: first_max_def)
  qed
qed

lemma py_max_key_first_max:
  "xs \<noteq> [] \<Longrightarrow> py_max_key k xs = Inr (first_max k xs)"
  by (cases xs) (simp_all add: py_max_key_def max_scan_first_max)

lemma first_max_exists:
  fixes k :: "'a \<Rightarrow> int"
  shows "xs \<noteq> [] \<Longrightarrow> filter (\<lambda>x. list_all (\<lambda>y. k y \<le> k x) xs) xs \<noteq> []"
proof -
  assume ne: "xs \<noteq> []"
  let ?m = "Max (k ` set xs)"
  have "?m \<in> k ` set xs" using ne by simp
  then obtain x where x: "x \<in> set xs" "k x = ?m" by auto
  have "list_all (\<lambda>y. k y \<le> k x) xs" using x by (simp add: list_all_iff)
  with x(1) show ?thesis by (auto simp: filter_empty_conv simp del: list_all_iff)
qed

lemma first_max_index:
  fixes k :: "'a \<Rightarrow> int"
  assumes "xs \<noteq> []"
  shows "\<exists>i<length xs. first_max k xs = xs ! i \<and> (\<forall>j<length xs. k (xs ! j) \<le> k (xs ! i))
           \<and> (\<forall>j<i. k (xs ! j) < k (xs ! i))"
proof -
  let ?P = "\<lambda>x. list_all (\<lambda>y. k y \<le> k x) xs"
  obtain i where i: "i < length xs" "hd (filter ?P xs) = xs ! i" "?P (xs ! i)"
    "\<forall>j<i. \<not> ?P (xs ! j)"
    using hd_filter_first_index [OF first_max_exists [OF assms]] by blast
  have all: "\<forall>j<length xs. k (xs ! j) \<le> k (xs ! i)"
    using i(3) by (simp add: list_all_length)
  have "\<forall>j<i. k (xs ! j) < k (xs ! i)"
  proof (intro allI impI)
    fix j assume "j < i"
    with i(4) obtain l where "l < length xs" "k (xs ! j) < k (xs ! l)"
      by (auto simp: list_all_length not_le)
    with all show "k (xs ! j) < k (xs ! i)" by (meson less_le_trans)
  qed
  with i(1,2) all show ?thesis by (auto simp: first_max_def)
qed

section \<open>The loop\<close>

lemma collect_results_Inr:
  "collect_results arts acc = Inr rs \<longleftrightarrow>
   (\<exists>cs. list_all2 (\<lambda>a c. extract_article a = Inr c) arts cs \<and> rs = acc @ cs)"
proof (induction arts arbitrary: acc)
  case Nil
  then show ?case by auto
next
  case (Cons a arts)
  show ?case
  proof (cases "extract_article a")
    case (Inl e)
    then show ?thesis by (simp add: list_all2_Cons1)
  next
    case (Inr c)
    then show ?thesis using Cons.IH [of "acc @ [c]"]
      by (auto simp: list_all2_Cons1 simp del: split_paired_Ex)
  qed
qed

lemma collect_results_Inl:
  "collect_results arts acc = Inl e \<Longrightarrow>
   \<exists>i<length arts. extract_article (arts ! i) = Inl e \<and>
     (\<forall>j<i. \<exists>c. extract_article (arts ! j) = Inr c)"
proof (induction arts arbitrary: acc)
  case Nil
  then show ?case by simp
next
  case (Cons a arts)
  show ?case
  proof (cases "extract_article a")
    case (Inl e')
    with Cons.prems show ?thesis by (intro exI [of _ 0]) simp
  next
    case (Inr c)
    with Cons.prems Cons.IH [of "acc @ [c]"] obtain i where
      i: "i < length arts" "extract_article (arts ! i) = Inl e"
      and before: "\<forall>j<i. \<exists>c. extract_article (arts ! j) = Inr c"
      by auto
    show ?thesis
    proof (intro exI [of _ "Suc i"] conjI allI impI)
      show "Suc i < length (a # arts)" and "extract_article ((a # arts) ! Suc i) = Inl e"
        using i by simp_all
    next
      fix j assume j: "j < Suc i"
      show "\<exists>c. extract_article ((a # arts) ! j) = Inr c"
      proof (cases j)
        case 0
        with Inr show ?thesis by (simp del: split_paired_Ex)
      next
        case (Suc j')
        with j before have "\<exists>c. extract_article (arts ! j') = Inr c" by blast
        with Suc show ?thesis by simp
      qed
    qed
  qed
qed

section \<open>Citations\<close>

lemma citations_to_int_py_int:
  "citations_to_int s = Inr (case py_int s of Inr n \<Rightarrow> n | Inl _ \<Rightarrow> 0)"
proof (cases "py_int s")
  case (Inl e)
  then obtain m where "e = ValueError m" using py_int_Inl_ValueError by blast
  with Inl show ?thesis by (simp add: citations_to_int_def)
qed (simp add: citations_to_int_def)

lemma format_result_paren: "CHR ''('' \<in> set (format_result c)"
  by (cases c) (auto simp: format_result_def)

lemma format_result_not_no_articles: "format_result c \<noteq> no_articles"
  using format_result_paren [of c] by (auto simp: no_articles_def)

text \<open>The loop raises the first exception of its iterations, or returns all candidates.\<close>

lemma collect_results_errors_first:
  "collect_results arts acc =
     (case py_errors (map extract_article arts) of
        e # _ \<Rightarrow> Inl e
      | [] \<Rightarrow> Inr (acc @ py_values (map extract_article arts)))"
proof (induction arts arbitrary: acc)
  case Nil
  then show ?case by simp
next
  case (Cons a arts)
  then show ?case by (cases "extract_article a") (simp_all split: list.splits)
qed

lemma page_candidates_Inr:
  "page_candidates doc = Inr rs \<longleftrightarrow>
   list_all2 (\<lambda>a c. extract_article a = Inr c) (take 10 (soup_select doc article_sel)) rs"
  by (simp add: page_candidates_def collect_results_Inr)

text \<open>Every candidate one article yields has the shape \<open>wf_candidate\<close>.\<close>

lemma extract_article_wf:
  assumes "extract_article art = Inr c"
  shows "wf_candidate c"
proof (cases "tag_select_one art title_sel")
  case None
  with assms show ?thesis
    by (auto simp: extract_article_def wf_candidate_def stripped_def py_isspace_def citations_to_int_py_int
             split: sum.splits)
next
  case (Some t)
  with assms obtain h where "tag_getitem t ''href'' = Inr h"
    by (cases "tag_getitem t ''href''") (auto simp: extract_article_def)
  with Some assms show ?thesis
    by (auto simp: extract_article_def wf_candidate_def py_strip_stripped py_startswith_def base_url_def citations_to_int_py_int
             split: sum.splits)
qed

section \<open>Properties of the extractor-ranker\<close>

text \<open>
  C1 (functional): on a non-empty list, \<open>max(results, key=lambda x: x[2])\<close>
  returns the element of greatest key, and of the elements with that key the
  one with the smallest index: ties go to the first in document order.
\<close>

theorem py_max_key_stable_max:
  fixes k :: "'a \<Rightarrow> int"
  assumes "xs \<noteq> []"
  shows "\<exists>i<length xs. py_max_key k xs = Inr (xs ! i) \<and>
           (\<forall>j<length xs. k (xs ! j) \<le> k (xs ! i)) \<and> (\<forall>j<i. k (xs ! j) < k (xs ! i))"
  using first_max_index [OF assms, of k] py_max_key_first_max [OF assms, of k] by auto

theorem py_max_key_stable_max_witness:
  "[(''A'', ''a'', 50), (''B'', ''b'', 50)] \<noteq> ([] :: candidate list) \<and>
   (\<exists>i<length [(''A'', ''a'', 50), (''B'', ''b'', 50::int)].
      py_max_key cand_citations [(''A'', ''a'', 50), (''B'', ''b'', 50)] =
        Inr ([(''A'', ''a'', 50), (''B'', ''b'', 50)] ! i) \<and>
      (\<forall>j<length [(''A'', ''a'', 50), (''B'', ''b'', 50::int)].
         cand_citations ([(''A'', ''a'', 50), (''B'', ''b'', 50)] ! j)
           \<le> cand_citations ([(''A'', ''a'', 50), (''B'', ''b'', 50)] ! i)) \<and>
      (\<forall>j<i. cand_citations ([(''A'', ''a'', 50), (''B'', ''b'', 50)] ! j)
           < cand_citations ([(''A'', ''a'', 50), (''B'', ''b'', 50::int)] ! i)))"
proof -
  have h: "[(''A'', ''a'', 50), (''B'', ''b'', 50)] \<noteq> ([] :: candidate list)" by simp
  show ?thesis using h py_max_key_stable_max [OF h, of cand_citations] by simp
qed

text \<open>
  C5 (functional): the page yields the string \<open>"No articles found."\<close>
  exactly when it has no \<open>article.result-item-content\<close> node.
\<close>

theorem scrape_page_no_articles_iff:
  "scrape_page doc = Inr no_articles \<longleftrightarrow> soup_select doc article_sel = []"
proof
  assume none: "soup_select doc article_sel = []"
  then have "page_candidates doc = Inr []" by (simp add: page_candidates_def)
  then show "scrape_page doc = Inr no_articles" by (simp add: scrape_page_def)
next
  assume res: "scrape_page doc = Inr no_articles"
  show "soup_select doc article_sel = []"
  proof (rule ccontr)
    assume ne: "soup_select doc article_sel \<noteq> []"
    obtain rs where rs: "page_candidates doc = Inr rs"
      using res by (cases "page_candidates doc") (auto simp: scrape_page_def)
    then have "list_all2 (\<lambda>a c. extract_article a = Inr c) (take 10 (soup_select doc article_sel)) rs"
      by (simp only: page_candidates_Inr)
    then have "length (take 10 (soup_select doc article_sel)) = length rs"
      by (rule list_all2_lengthD)
    with ne have "rs \<noteq> []" by (cases "soup_select doc article_sel") auto
    with rs res show False
      by (simp add: scrape_page_def py_max_key_first_max format_result_not_no_articles)
  qed
qed

theorem scrape_page_no_articles_iff_witness:
  "scrape_page [Element ''div'' [] [Text ''nothing here'']] = Inr no_articles \<and>
   soup_select [Element ''div'' [] [Text ''nothing here'']] article_sel = []"
proof -
  have h: "soup_select [Element ''div'' [] [Text ''nothing here'']] article_sel = []"
    by code_simp
  show ?thesis using h scrape_page_no_articles_iff by simp
qed

text \<open>
  C7 (functional): a citation text made of decimal digits, with any
  whitespace around it, is read as exactly that number by
  \<open>int(citation_tag.text.strip())\<close>.
\<close>

theorem citations_to_int_digits:
  assumes ds: "ds \<noteq> []" "list_all is_digit ds" "length ds \<le> int_max_str_digits"
    and ws: "list_all py_isspace a" "list_all py_isspace b"
  shows "citations_to_int (py_strip (a @ ds @ b)) = Inr (int (digits_value ds))"
proof -
  have "\<forall>c\<in>set ds. \<not> py_isspace c"
    using ds(2) by (auto simp: list_all_iff dest: digit_not_space)
  then have "stripped ds"
    using ds(1) hd_in_set [of ds] last_in_set [of ds] by (simp add: stripped_def)
  with ws have "py_strip (a @ ds @ b) = ds" by (simp add: py_strip_surrounded)
  moreover have "py_int ([] @ [] @ ds @ []) = Inr (int (digits_value ds))"
    using py_int_signed_digits [of ds "[]" "[]" False] ds by simp
  ultimately show ?thesis by (simp add: citations_to_int_def)
qed

theorem citations_to_int_digits_witness:
  "''12'' \<noteq> [] \<and> list_all is_digit ''12'' \<and> length ''12'' \<le> int_max_str_digits \<and>
   list_all py_isspace '' '' \<and> list_all py_isspace [CHR 0x0A] \<and>
   citations_to_int (py_strip ('' '' @ ''12'' @ [CHR 0x0A])) = Inr (int (digits_value ''12''))"
proof -
  have h: "''12'' \<noteq> []" "list_all is_digit ''12''" "length ''12'' \<le> int_max_str_digits"
    "list_all py_isspace '' ''" "list_all py_isspace [CHR 0x0A]"
    by (simp_all add: py_simps)
  show ?thesis using h citations_to_int_digits [OF h] by simp
qed

text \<open>
  C8 (error): a citation text with no decimal digit at all (missing count,
  \<open>"N/A"\<close>, a word) makes \<open>int()\<close> raise \<open>ValueError\<close>, which the code
  turns into 0; the normalisation never raises.
\<close>

theorem citations_to_int_no_digit:
  "\<not> list_ex is_digit s \<Longrightarrow> citations_to_int s = Inr 0"
  by (simp add: citations_to_int_def py_int_no_digit int_invalid_def)

theorem citations_to_int_no_digit_witness:
  "\<not> list_ex is_digit ''N/A'' \<and> citations_to_int ''N/A'' = Inr 0"
proof -
  have h: "\<not> list_ex is_digit ''N/A''" by (simp add: py_simps)
  show ?thesis using h citations_to_int_no_digit [OF h] by simp
qed

text \<open>
  C25 (functional): a citation text \<open>"-n"\<close> is read as the negative number
  \<open>-n\<close>: \<open>int()\<close> accepts a sign and the code does not clamp, so a
  candidate's citation count can be negative.
\<close>

theorem citations_to_int_negative:
  assumes "ds \<noteq> []" "list_all is_digit ds" "length ds \<le> int_max_str_digits"
  shows "citations_to_int (CHR ''-'' # ds) = Inr (- int (digits_value ds))"
proof -
  have "py_int ([] @ [CHR ''-''] @ ds @ []) = Inr (- int (digits_value ds))"
    using py_int_signed_digits [of ds "[]" "[]" True] assms by simp
  then show ?thesis by (simp add: citations_to_int_def)
qed

theorem citations_to_int_negative_witness:
  "''5'' \<noteq> [] \<and> list_all is_digit ''5'' \<and> length ''5'' \<le> int_max_str_digits \<and>
   citations_to_int ''-5'' = Inr (-5)"
proof -
  have h: "''5'' \<noteq> []" "list_all is_digit ''5''" "length ''5'' \<le> int_max_str_digits"
    by (simp_all add: py_simps)
  have "digits_value ''5'' = 5" by (simp add: py_simps)
  then show ?thesis using h citations_to_int_negative [OF h] by simp
qed

text \<open>
  C6 (bounds): only the first ten article nodes are read: the candidate list
  has \<open>min 10 n\<close> entries for a page of \<open>n\<close> article nodes, and its
  \<open>i\<close>-th entry is the one extracted from the \<open>i\<close>-th article node in
  document order.
\<close>

theorem page_candidates_first_ten:
  assumes "page_candidates doc = Inr rs"
  shows "length rs = min 10 (length (soup_select doc article_sel)) \<and>
         (\<forall>i<length rs. extract_article (soup_select doc article_sel ! i) = Inr (rs ! i))"
proof -
  have all2: "list_all2 (\<lambda>a c. extract_article a = Inr c) (take 10 (soup_select doc article_sel)) rs"
    using assms by (simp only: page_candidates_Inr)
  then have len: "length rs = min 10 (length (soup_select doc article_sel))"
    by (auto dest: list_all2_lengthD)
  have "\<forall>i<length rs. extract_article (soup_select doc article_sel ! i) = Inr (rs ! i)"
  proof (intro allI impI)
    fix i assume i: "i < length rs"
    with len have "i < 10" "i < length (soup_select doc article_sel)" by simp_all
    with all2 i show "extract_article (soup_select doc article_sel ! i) = Inr (rs ! i)"
      by (auto simp: list_all2_conv_all_nth)
  qed
  with len show ?thesis by simp
qed

theorem page_candidates_first_ten_witness:
  "page_candidates [Element ''article'' [(''class'', ''result-item-content'')]
        [Element ''h2'' [] [Element ''a'' [(''href'', ''/x'')] [Text ''T'']]]] = Inr [(''T'', ''https://www.sciencedirect.com/x'', 0)] \<and>
   length [(''T'', ''https://www.sciencedirect.com/x'', 0::int)]
     = min 10 (length (soup_select [Element ''article'' [(''class'', ''result-item-content'')]
        [Element ''h2'' [] [Element ''a'' [(''href'', ''/x'')] [Text ''T'']]]] article_sel))"
proof -
  have h: "page_candidates [Element ''article'' [(''class'', ''result-item-content'')]
        [Element ''h2'' [] [Element ''a'' [(''href'', ''/x'')] [Text ''T'']]]] = Inr [(''T'', ''https://www.sciencedirect.com/x'', 0)]"
    by code_simp
  show ?thesis using h page_candidates_first_ten [OF h] by simp
qed

text \<open>
  C24 (error): an article whose title anchor has no \<open>href\<close> attribute does
  not get an empty link: \<open>title_tag["href"]\<close> raises \<open>KeyError('href')\<close>,
  which leaves the loop.
\<close>

theorem extract_article_missing_href:
  assumes "tag_select_one art title_sel = Some t" and "map_of (tag_attrs t) ''href'' = None"
  shows "extract_article art = Inl (KeyError ''href'')"
  using assms by (simp add: extract_article_def tag_getitem_def)

theorem extract_article_missing_href_witness:
  "tag_select_one
     \<lparr>tag_anc = [], tag_name = ''article'', tag_attrs = [(''class'', ''result-item-content'')],
      tag_children = [Element ''h2'' [] [Element ''a'' [] [Text ''T'']]]\<rparr> title_sel
     = Some \<lparr>tag_anc = [(''h2'', []), (''article'', [(''class'', ''result-item-content'')])],
             tag_name = ''a'', tag_attrs = [], tag_children = [Text ''T'']\<rparr> \<and>
   map_of (tag_attrs \<lparr>tag_anc = [(''h2'', []), (''article'', [(''class'', ''result-item-content'')])],
             tag_name = ''a'', tag_attrs = [], tag_children = [Text ''T'']\<rparr>) ''href'' = None \<and>
   extract_article
     \<lparr>tag_anc = [], tag_name = ''article'', tag_attrs = [(''class'', ''result-item-content'')],
      tag_children = [Element ''h2'' [] [Element ''a'' [] [Text ''T'']]]\<rparr>
     = Inl (KeyError ''href'')"
proof -
  have h1: "tag_select_one
     \<lparr>tag_anc = [], tag_name = ''article'', tag_attrs = [(''class'', ''result-item-content'')],
      tag_children = [Element ''h2'' [] [Element ''a'' [] [Text ''T'']]]\<rparr> title_sel
     = Some \<lparr>tag_anc = [(''h2'', []), (''article'', [(''class'', ''result-item-content'')])],
             tag_name = ''a'', tag_attrs = [], tag_children = [Text ''T'']\<rparr>"
    by code_simp
  have h2: "map_of (tag_attrs \<lparr>tag_anc = [(''h2'', []), (''article'', [(''class'', ''result-item-content'')])],
             tag_name = ''a'', tag_attrs = [], tag_children = [Text ''T'']\<rparr>) ''href'' = None"
    by simp
  show ?thesis using h1 h2 extract_article_missing_href [OF h1 h2] by simp
qed

text \<open>
  C9 (refinement): the extractor-ranker implements its loop-free
  specification \<open>best_article\<close> on every page, the error outcome included:
  the loop with its accumulator and \<open>max\<close>'s scan compute exactly the
  first exception, or the first most-cited candidate, or the empty answer.
\<close>

theorem scrape_page_refines_best_article: "scrape_page doc = best_article doc"
  by (simp add: scrape_page_def best_article_def page_candidates_def collect_results_errors_first
      py_max_key_first_max Let_def split: list.splits)

text \<open>
  An article without a title anchor is kept, with the
  title \<open>"No Title"\<close>, the empty link, and a citation count.
\<close>

theorem extract_article_no_title:
  assumes "tag_select_one art title_sel = None"
  shows "\<exists>n. extract_article art = Inr (''No Title'', '''', n)"
  using assms by (simp add: extract_article_def citations_to_int_py_int)

theorem extract_article_no_title_witness:
  "tag_select_one \<lparr>tag_anc = [], tag_name = ''article'', tag_attrs = [],
       tag_children = [Text ''plain'']\<rparr> title_sel = None \<and>
   (\<exists>n. extract_article \<lparr>tag_anc = [], tag_name = ''article'', tag_attrs = [],
       tag_children = [Text ''plain'']\<rparr> = Inr (''No Title'', '''', n))"
proof -
  have h: "tag_select_one \<lparr>tag_anc = [], tag_name = ''article'', tag_attrs = [],
       tag_children = [Text ''plain'']\<rparr> title_sel = None"
    by code_simp
  show ?thesis using h extract_article_no_title [OF h] by simp
qed

section \<open>The only exception of the extractor-ranker\<close>

lemma extract_article_Inl: "extract_article art = Inl e \<Longrightarrow> e = KeyError ''href''"
  by (auto simp: extract_article_def tag_getitem_def citations_to_int_py_int Let_def py_bind_def
           split: option.splits sum.splits)

lemma scrape_page_Inl: "scrape_page doc = Inl e \<Longrightarrow> e = KeyError ''href''"
proof -
  assume err: "scrape_page doc = Inl e"
  show ?thesis
  proof (cases "page_candidates doc")
    case (Inl e')
    then obtain i where "extract_article (take 10 (soup_select doc article_sel) ! i) = Inl e'"
      by (auto simp: page_candidates_def dest: collect_results_Inl)
    then have "e' = KeyError ''href''" by (rule extract_article_Inl)
    with Inl err show ?thesis by (simp add: scrape_page_def)
  next
    case (Inr rs)
    with err show ?thesis
      by (cases "rs = []") (simp_all add: scrape_page_def py_max_key_first_max)
  qed
qed

lemma case_filter_find: "(case filter P xs of [] \<Rightarrow> None | x # _ \<Rightarrow> Some x) = find P xs"
  by (induction xs) auto

text \<open>
  C30 (functional): soupsieve's descendant combinator looks above the
  article: inside an \<open>h2\<close>, \<open>art.select_one("h2 a")\<close> is the first anchor
  below the article in document order, whether or not the article has an
  \<open>h2\<close> of its own.
\<close>

theorem title_anchor_h2_above_article:
  assumes "''h2'' \<in> set (map fst (tag_anc t))"
  shows "tag_select_one t title_sel
           = find (\<lambda>d. tag_name d = ''a'') (descendants (tag_info t # tag_anc t) (tag_children t))"
proof -
  have "tag_select t title_sel = filter (\<lambda>d. tag_name d = ''a'') (descendants (tag_info t # tag_anc t) (tag_children t))"
    unfolding tag_select_def title_sel_def match_descendant_pair
  proof (rule filter_cong [OF refl])
    fix d assume "d \<in> set (descendants (tag_info t # tag_anc t) (tag_children t))"
    then obtain p where "tag_anc d = p @ tag_info t # tag_anc t" by (blast dest: descendants_anc)
    with assms have "list_ex (\<lambda>x. fst x = ''h2'') (tag_anc d)" by (force simp: list_ex_iff)
    then show "(tag_name d = ''a'' \<and> list_ex (\<lambda>x. fst x = ''h2'') (tag_anc d)) = (tag_name d = ''a'')"
      by simp
  qed
  then show ?thesis by (simp add: tag_select_one_def case_filter_find)
qed

text \<open>An article inside an \<open>h2\<close>, with an anchor and no \<open>h2\<close> of its own.\<close>

theorem title_anchor_h2_above_article_witness:
  "''h2'' \<in> set (map fst (tag_anc \<lparr>tag_anc = [(''h2'', [])], tag_name = ''article'', tag_attrs = [(''class'', ''result-item-content'')],
       tag_children = [Element ''a'' [(''href'', ''/p'')] [Text ''T'']]\<rparr>)) \<and>
   tag_select_one \<lparr>tag_anc = [(''h2'', [])], tag_name = ''article'', tag_attrs = [(''class'', ''result-item-content'')],
       tag_children = [Element ''a'' [(''href'', ''/p'')] [Text ''T'']]\<rparr> title_sel
   = Some \<lparr>tag_anc = [(''article'', [(''class'', ''result-item-content'')]), (''h2'', [])],
           tag_name = ''a'', tag_attrs = [(''href'', ''/p'')], tag_children = [Text ''T'']\<rparr>"
  using title_anchor_h2_above_article [of "\<lparr>tag_anc = [(''h2'', [])], tag_name = ''article'', tag_attrs = [(''class'', ''result-item-content'')],
       tag_children = [Element ''a'' [(''href'', ''/p'')] [Text ''T'']]\<rparr>"]
  by (simp add: tag_info_def)

text \<open>
  C17 (type): every candidate of a page is well formed: its title is
  stripped, and its link is empty only for an article without title anchor
  (title \<open>"No Title"\<close>) and otherwise an address on the site.
\<close>

theorem page_candidates_wf:
  assumes "page_candidates doc = Inr rs"
  shows "list_all wf_candidate rs"
proof -
  have "list_all2 (\<lambda>a c. extract_article a = Inr c) (take 10 (soup_select doc article_sel)) rs"
    using assms by (simp only: page_candidates_Inr)
  then show ?thesis
    by (induction rule: list_all2_induct) (auto intro: extract_article_wf)
qed

theorem page_candidates_wf_witness:
  "page_candidates [Element ''article'' [(''class'', ''result-item-content'')]
        [Element ''h2'' [] [Element ''a'' [(''href'', ''/x'')] [Text '' T '']]]]
     = Inr [(''T'', ''https://www.sciencedirect.com/x'', 0)] \<and>
   list_all wf_candidate [(''T'', ''https://www.sciencedirect.com/x'', 0)]"
proof -
  have h: "page_candidates [Element ''article'' [(''class'', ''result-item-content'')]
        [Element ''h2'' [] [Element ''a'' [(''href'', ''/x'')] [Text '' T '']]]]
     = Inr [(''T'', ''https://www.sciencedirect.com/x'', 0)]"
    by code_simp
  show ?thesis using h page_candidates_wf [OF h] by simp
qed

end
