(* ===== verification/Url.thy ===== *)
theory Url
  imports PyStr
begin

text \<open>
  The search request of line 48 of src/ScrapingWLangsmith.py:
  \<open>f"https://www.sciencedirect.com/search?qs={query.replace(' ', '%20')}"\<close>.
  Only spaces are escaped; every other character of the query, \<open>%\<close>,
  \<open>&\<close> and \<open>#\<close> included, goes into the URL as it is.
\<close>

definition search_prefix :: string where
  "search_prefix = ''https://www.sciencedirect.com/search?qs=''"

definition search_url :: "string \<Rightarrow> string" where
  "search_url query = search_prefix @ py_replace query '' '' ''%20''"

section \<open>Lemmas\<close>

lemma py_replace_space:
  "py_replace q '' '' ''%20'' = concat (map (\<lambda>c. if c = CHR '' '' then ''%20'' else [c]) q)"
  by (simp add: py_replace_single)

lemma replace_scan_pct20_encode:
  "CHR ''%'' \<notin> set q \<Longrightarrow>
   replace_scan ''%20'' '' '' (concat (map (\<lambda>c. if c = CHR '' '' then ''%20'' else [c]) q)) = q"
  by (induction q) auto

section \<open>Properties of the search URL\<close>

text \<open>
  The URL built for any query contains no space.
\<close>

theorem search_url_no_space: "CHR '' '' \<notin> set (search_url q)"
  by (auto simp: search_url_def search_prefix_def py_replace_space split: if_splits)

text \<open>
  For a query without \<open>%\<close>, decoding \<open>%20\<close> in the
  query part of the URL gives the query back.
\<close>

theorem search_url_decode:
  "CHR ''%'' \<notin> set q \<Longrightarrow> py_replace (drop (length search_prefix) (search_url q)) ''%20'' '' '' = q"
  by (simp add: search_url_def py_replace_space) (simp add: py_replace_def replace_scan_pct20_encode)

theorem search_url_decode_witness:
  "CHR ''%'' \<notin> set ''bipolar disorder'' \<and>
   py_replace (drop (length search_prefix) (search_url ''bipolar disorder'')) ''%20'' '' '' = ''bipolar disorder''"
proof -
  have h: "CHR ''%'' \<notin> set ''bipolar disorder''" by simp
  show ?thesis using h search_url_decode [OF h] by simp
qed

text \<open>
  C29 (functional): the encoding is not injective and not a URL encoding: a
  query that already contains \<open>%20\<close> gives the same URL as the one with a
  space, and \<open>&\<close> is passed through, so \<open>"R&D"\<close> ends the \<open>qs\<close>
  parameter early.
\<close>

theorem search_url_not_injective:
  "\<not> inj search_url \<and> CHR ''&'' \<in> set (search_url ''R&D'')"
proof -
  have "search_url ''a b'' = search_url ''a%20b''"
    by (simp add: search_url_def py_replace_space)
  moreover have "''a b'' \<noteq> ''a%20b''" by simp
  ultimately have "\<not> inj search_url" by (meson injD)
  moreover have "CHR ''&'' \<in> set (search_url ''R&D'')"
    by (simp add: search_url_def py_replace_space)
  ultimately show ?thesis by simp
qed

end
