(* ===== verification/Tool.thy ===== *)
theory Tool
  imports Extract Url
begin

text \<open>
  The fetcher and the tool as a whole: \<open>search_sciencedirect_bipolar\<close>,
  lines 44 to 90 of src/ScrapingWLangsmith.py.  Selenium and the driver
  manager are outside the program; they are a \<open>backend\<close> record of the
  answers they give (an exception or a value) to each call the tool makes.
  The effect of the calls on the browser is a \<open>browser\<close> record: the log
  of the calls made on the driver object, oldest first (its creation is
  logged when \<open>webdriver.Chrome\<close> returns), and whether a Chrome process is
  running.
  Lemmas about the tool hold for every backend, so they hold for every
  behaviour of the network, the browser and the page.
\<close>

section \<open>The browser and its driver\<close>

datatype drv_event =
    Launch "string list"
  | Navigate string
  | PageSource
  | Quit

record backend =
  bk_install :: "string py_result"
  bk_launch :: "string \<Rightarrow> string list \<Rightarrow> py_exn option"
  bk_get :: "string \<Rightarrow> py_exn option"
  bk_page_source :: "string \<Rightarrow> node list py_result"
  bk_quit :: "py_exn option"

text \<open>
  \<open>bk_install\<close>: \<open>ChromeDriverManager().install()\<close>, the driver's path;
  \<open>bk_launch\<close>: \<open>webdriver.Chrome(service=Service(path), options=options)\<close>;
  \<open>bk_get\<close>: \<open>driver.get(url)\<close>; \<open>bk_page_source\<close>: \<open>driver.page_source\<close>
  of the page loaded from the URL, as \<open>BeautifulSoup(..., "html.parser")\<close>
  parses it; \<open>bk_quit\<close>: \<open>driver.quit()\<close>, which stops the process even
  when it raises.
\<close>

record browser =
  br_events :: "drv_event list"
  br_live :: bool

definition log_event :: "drv_event \<Rightarrow> browser \<Rightarrow> browser" where
  "log_event e b = b\<lparr>br_events := br_events b @ [e]\<rparr>"

text \<open>Lines 51 to 55.\<close>

definition chrome_options :: "string list" where
  "chrome_options = [''--headless'', ''--no-sandbox'', ''--disable-dev-shm-usage'', ''user-agent=Mozilla/5.0'']"

definition error_prefix :: string where
  "error_prefix = ''Error during scraping: ''"

section \<open>The tool\<close>

text \<open>
  Lines 61 to 84, the \<open>try\<close> block: load the URL, read the page source,
  then the extractor-ranker of theory \<open>Extract\<close>.
\<close>

definition fetch_and_scrape :: "backend \<Rightarrow> string \<Rightarrow> browser \<Rightarrow> string py_result \<times> browser" where
  "fetch_and_scrape bk url b =
     (let b1 = log_event (Navigate url) b
      in case bk_get bk url of
           Some e \<Rightarrow> (Inl e, b1)
         | None \<Rightarrow>
             (let b2 = log_event PageSource b1
              in case bk_page_source bk url of
                   Inl e \<Rightarrow> (Inl e, b2)
                 | Inr doc \<Rightarrow> (scrape_page doc, b2)))"

text \<open>
  Lines 86 and 87: \<open>except Exception as e\<close> turns an \<open>Exception\<close> into the
  error string; any other \<open>BaseException\<close> propagates.
\<close>

definition handle_exception :: "string py_result \<Rightarrow> string py_result" where
  "handle_exception r =
     (case r of
       Inl e \<Rightarrow> if is_exception e then Inr (error_prefix @ str_exn e) else Inl e
     | Inr s \<Rightarrow> Inr s)"

text \<open>
  Lines 89 and 90: \<open>finally: driver.quit()\<close> runs on every exit of the
  \<open>try\<close> statement; an exception of \<open>quit\<close> replaces the outcome.
\<close>

definition quit_driver :: "backend \<Rightarrow> string py_result \<Rightarrow> browser \<Rightarrow> string py_result \<times> browser" where
  "quit_driver bk r b =
     (let b' = (log_event Quit b)\<lparr>br_live := False\<rparr>
      in case bk_quit bk of Some e \<Rightarrow> (Inl e, b') | None \<Rightarrow> (r, b'))"

text \<open>
  Lines 44 to 90.  The driver is installed and launched before the
  \<open>try\<close> statement, so an exception there propagates to the caller and no
  \<open>quit\<close> is due.
\<close>

definition search_sciencedirect_bipolar ::
  "backend \<Rightarrow> string \<Rightarrow> browser \<Rightarrow> string py_result \<times> browser" where
  "search_sciencedirect_bipolar bk query b =
     (let url = search_url query
      in case bk_install bk of
           Inl e \<Rightarrow> (Inl e, b)
         | Inr path \<Rightarrow>
             (case bk_launch bk path chrome_options of
               Some e \<Rightarrow> (Inl e, b)
             | None \<Rightarrow>
                 (let b1 = (log_event (Launch chrome_options) b)\<lparr>br_live := True\<rparr>
                  in case fetch_and_scrape bk url b1 of
                       (r, b2) \<Rightarrow> quit_driver bk (handle_exception r) b2)))"

section \<open>The driver protocol\<close>

text \<open>
  The order in which a driver may be used: created, then any number of page
  loads and reads, then quit; nothing after quit.
\<close>

datatype drv_phase = NoDriver | Running | Closed

inductive drv_step :: "drv_phase \<Rightarrow> drv_event \<Rightarrow> drv_phase \<Rightarrow> bool" where
  launch: "drv_step NoDriver (Launch opts) Running"
| navigate: "drv_step Running (Navigate u) Running"
| page_source: "drv_step Running PageSource Running"
| quit: "drv_step Running Quit Closed"

definition fresh_browser :: browser where
  "fresh_browser = \<lparr>br_events = [], br_live = False\<rparr>"

text \<open>
  A backend for the examples: every call succeeds and the page is the
  given tree.
\<close>

definition fixture_backend :: "node list \<Rightarrow> backend" where
  "fixture_backend doc =
     \<lparr>bk_install = Inr ''/usr/bin/chromedriver'', bk_launch = (\<lambda>_ _. None),
      bk_get = (\<lambda>_. None), bk_page_source = (\<lambda>_. Inr doc), bk_quit = None\<rparr>"

inductive drv_run :: "drv_phase \<Rightarrow> drv_event list \<Rightarrow> drv_phase \<Rightarrow> bool" where
  run_nil: "drv_run p [] p"
| run_snoc: "drv_run p es q \<Longrightarrow> drv_step q e r \<Longrightarrow> drv_run p (es @ [e]) r"


section \<open>Lemmas\<close>

lemma log_event_simps [simp]:
  "br_events (log_event e b) = br_events b @ [e]"
  "br_live (log_event e b) = br_live b"
  by (simp_all add: log_event_def)

lemma fetch_and_scrape_browser:
  "br_live (snd (fetch_and_scrape bk url b)) = br_live b \<and>
   (br_events (snd (fetch_and_scrape bk url b)) = br_events b @ [Navigate url] \<or>
    br_events (snd (fetch_and_scrape bk url b)) = br_events b @ [Navigate url, PageSource])"
  by (simp add: fetch_and_scrape_def Let_def split: option.splits sum.splits)

lemma drv_run_loads:
  "es = [Navigate url] \<or> es = [Navigate url, PageSource] \<Longrightarrow>
   drv_run NoDriver ([Launch opts] @ es @ [Quit]) Closed"
proof -
  have r1: "drv_run NoDriver [Launch opts] Running"
    using run_snoc [OF run_nil launch] by simp
  then have r2: "drv_run NoDriver [Launch opts, Navigate url] Running"
    using run_snoc [OF r1 navigate] by simp
  then have r3: "drv_run NoDriver [Launch opts, Navigate url, PageSource] Running"
    using run_snoc [OF r2 page_source] by simp
  assume "es = [Navigate url] \<or> es = [Navigate url, PageSource]"
  then show ?thesis
    using run_snoc [OF r2 quit] run_snoc [OF r3 quit] by auto
qed

lemma handle_exception_Inl: "handle_exception r = Inl e \<Longrightarrow> \<not> is_exception e"
  by (auto simp: handle_exception_def split: sum.splits if_splits)

lemma search_launched:
  assumes "bk_install bk = Inr p" and "bk_launch bk p chrome_options = None"
  shows "search_sciencedirect_bipolar bk q b =
           (case fetch_and_scrape bk (search_url q)
                   ((log_event (Launch chrome_options) b)\<lparr>br_live := True\<rparr>) of
             (r, b2) \<Rightarrow> quit_driver bk (handle_exception r) b2)"
  using assms by (simp add: search_sciencedirect_bipolar_def)

text \<open>
  What a run of the protocol from no driver means: until the driver is
  closed no \<open>Quit\<close> was sent, and a closed run ends with its only
  \<open>Quit\<close>.
\<close>

lemma drv_run_quit:
  "drv_run p es q \<Longrightarrow> p = NoDriver \<Longrightarrow>
   (q \<noteq> Closed \<longrightarrow> Quit \<notin> set es) \<and> (q = Closed \<longrightarrow> (\<exists>es'. es = es' @ [Quit] \<and> Quit \<notin> set es'))"
proof (induction rule: drv_run.induct)
  case (run_nil p)
  then show ?case by simp
next
  case (run_snoc p es q e r)
  then have ih: "(q \<noteq> Closed \<longrightarrow> Quit \<notin> set es) \<and>
                 (q = Closed \<longrightarrow> (\<exists>es'. es = es' @ [Quit] \<and> Quit \<notin> set es'))" by simp
  from run_snoc.hyps(2) show ?case
  proof (cases rule: drv_step.cases)
    case quit
    with ih show ?thesis by simp
  qed (use ih in auto)
qed

section \<open>Properties of the tool\<close>

text \<open>
  C2 (safety): whatever the backend does, the calls the tool makes on a
  fresh browser follow the driver protocol and leave no Chrome process
  running: either no driver was created, or it was used and then quit.
\<close>

theorem tool_releases_driver:
  "\<exists>ph. drv_run NoDriver (br_events (snd (search_sciencedirect_bipolar bk q fresh_browser))) ph \<and>
        ph \<noteq> Running \<and> \<not> br_live (snd (search_sciencedirect_bipolar bk q fresh_browser))"
proof (cases "bk_install bk")
  case (Inl e)
  then show ?thesis
    by (auto simp: search_sciencedirect_bipolar_def fresh_browser_def intro: run_nil)
next
  case (Inr p)
  show ?thesis
  proof (cases "bk_launch bk p chrome_options")
    case (Some e)
    with Inr show ?thesis
      by (auto simp: search_sciencedirect_bipolar_def fresh_browser_def intro: run_nil)
  next
    case None
    let ?b1 = "(log_event (Launch chrome_options) fresh_browser)\<lparr>br_live := True\<rparr>"
    obtain r b2 where fs: "fetch_and_scrape bk (search_url q) ?b1 = (r, b2)"
      by (cases "fetch_and_scrape bk (search_url q) ?b1")
    from fetch_and_scrape_browser [of bk "search_url q" ?b1] fs obtain es where
      es: "es = [Navigate (search_url q)] \<or> es = [Navigate (search_url q), PageSource]"
      and ev: "br_events b2 = [Launch chrome_options] @ es"
      by (auto simp: fresh_browser_def)
    have "search_sciencedirect_bipolar bk q fresh_browser = quit_driver bk (handle_exception r) b2"
      using search_launched [OF Inr None] fs by simp
    moreover have "drv_run NoDriver ([Launch chrome_options] @ es @ [Quit]) Closed"
      using es by (rule drv_run_loads)
    ultimately show ?thesis using ev
      by (auto simp: quit_driver_def Let_def split: option.splits)
  qed
qed

text \<open>
  C26 (functional): when the driver starts and the page loads, the driver
  is used in exactly this order: created with the four options, sent to the
  search URL, read once, quit.  The page source is read right after
  \<open>driver.get\<close> returns; nothing waits for the result list to be rendered.
\<close>

theorem tool_event_order:
  assumes "bk_install bk = Inr p" "bk_launch bk p chrome_options = None"
    and "bk_get bk (search_url q) = None"
  shows "br_events (snd (search_sciencedirect_bipolar bk q fresh_browser))
           = [Launch chrome_options, Navigate (search_url q), PageSource, Quit]"
  using assms
  by (simp add: search_launched fetch_and_scrape_def quit_driver_def fresh_browser_def Let_def
           split: option.splits sum.splits)

theorem tool_event_order_witness:
  "bk_install (fixture_backend []) = Inr ''/usr/bin/chromedriver'' \<and>
   bk_launch (fixture_backend []) ''/usr/bin/chromedriver'' chrome_options = None \<and>
   bk_get (fixture_backend []) (search_url ''bipolar disorder'') = None \<and>
   br_events (snd (search_sciencedirect_bipolar (fixture_backend []) ''bipolar disorder'' fresh_browser))
     = [Launch chrome_options, Navigate (search_url ''bipolar disorder''), PageSource, Quit]"
proof -
  have h: "bk_install (fixture_backend []) = Inr ''/usr/bin/chromedriver''"
    "bk_launch (fixture_backend []) ''/usr/bin/chromedriver'' chrome_options = None"
    "bk_get (fixture_backend []) (search_url ''bipolar disorder'') = None"
    by (simp_all add: fixture_backend_def)
  show ?thesis using h tool_event_order [OF h] by simp
qed

text \<open>
  C4 (error): once the driver is running and \<open>quit\<close> succeeds, no
  \<open>Exception\<close> escapes the tool: every one raised while loading, reading,
  extracting or ranking becomes the returned error string, and only a
  \<open>BaseException\<close> such as \<open>KeyboardInterrupt\<close> propagates.
\<close>

theorem tool_catches_exceptions:
  assumes "bk_install bk = Inr p" "bk_launch bk p chrome_options = None" "bk_quit bk = None"
    and "fst (search_sciencedirect_bipolar bk q b) = Inl e"
  shows "\<not> is_exception e"
proof -
  let ?b1 = "(log_event (Launch chrome_options) b)\<lparr>br_live := True\<rparr>"
  obtain r b2 where fs: "fetch_and_scrape bk (search_url q) ?b1 = (r, b2)"
    by (cases "fetch_and_scrape bk (search_url q) ?b1")
  with assms have "handle_exception r = Inl e"
    by (simp add: search_launched quit_driver_def Let_def)
  then show ?thesis by (rule handle_exception_Inl)
qed

theorem tool_catches_exceptions_witness:
  "bk_install ((fixture_backend [])\<lparr>bk_get := (\<lambda>_. Some (BaseExc ''KeyboardInterrupt''))\<rparr>)
     = Inr ''/usr/bin/chromedriver'' \<and>
   bk_launch ((fixture_backend [])\<lparr>bk_get := (\<lambda>_. Some (BaseExc ''KeyboardInterrupt''))\<rparr>)
     ''/usr/bin/chromedriver'' chrome_options = None \<and>
   bk_quit ((fixture_backend [])\<lparr>bk_get := (\<lambda>_. Some (BaseExc ''KeyboardInterrupt''))\<rparr>) = None \<and>
   fst (search_sciencedirect_bipolar
          ((fixture_backend [])\<lparr>bk_get := (\<lambda>_. Some (BaseExc ''KeyboardInterrupt''))\<rparr>) ''q'' fresh_browser)
     = Inl (BaseExc ''KeyboardInterrupt'') \<and>
   \<not> is_exception (BaseExc ''KeyboardInterrupt'')"
proof -
  let ?bk = "(fixture_backend [])\<lparr>bk_get := (\<lambda>_. Some (BaseExc ''KeyboardInterrupt''))\<rparr>"
  have h: "bk_install ?bk = Inr ''/usr/bin/chromedriver''"
    "bk_launch ?bk ''/usr/bin/chromedriver'' chrome_options = None" "bk_quit ?bk = None"
    by (simp_all add: fixture_backend_def)
  have r: "fst (search_sciencedirect_bipolar ?bk ''q'' fresh_browser) = Inl (BaseExc ''KeyboardInterrupt'')"
    by (simp add: search_sciencedirect_bipolar_def fetch_and_scrape_def handle_exception_def
        quit_driver_def fixture_backend_def Let_def)
  show ?thesis using h r tool_catches_exceptions [OF h r] by simp
qed

text \<open>
  C22 (error): an exception of \<open>ChromeDriverManager().install()\<close> or of
  \<open>webdriver.Chrome(...)\<close> is raised before the \<open>try\<close> statement: it
  propagates to the caller instead of becoming an error string, and the
  browser is left untouched.
\<close>

theorem tool_setup_failure_raises:
  assumes "bk_install bk = Inl e \<or> (bk_install bk = Inr p \<and> bk_launch bk p chrome_options = Some e)"
  shows "search_sciencedirect_bipolar bk q b = (Inl e, b)"
  using assms by (auto simp: search_sciencedirect_bipolar_def)

theorem tool_setup_failure_raises_witness:
  "(bk_install ((fixture_backend [])\<lparr>bk_install := Inl (WebDriverError ''no network'')\<rparr>)
      = Inl (WebDriverError ''no network'') \<or>
    (bk_install ((fixture_backend [])\<lparr>bk_install := Inl (WebDriverError ''no network'')\<rparr>) = Inr '''' \<and>
     bk_launch ((fixture_backend [])\<lparr>bk_install := Inl (WebDriverError ''no network'')\<rparr>) ''''
       chrome_options = Some (WebDriverError ''no network''))) \<and>
   search_sciencedirect_bipolar ((fixture_backend [])\<lparr>bk_install := Inl (WebDriverError ''no network'')\<rparr>)
     ''q'' fresh_browser = (Inl (WebDriverError ''no network''), fresh_browser)"
proof -
  let ?bk = "(fixture_backend [])\<lparr>bk_install := Inl (WebDriverError ''no network'')\<rparr>"
  have h: "bk_install ?bk = Inl (WebDriverError ''no network'') \<or>
    (bk_install ?bk = Inr '''' \<and> bk_launch ?bk '''' chrome_options = Some (WebDriverError ''no network''))"
    by simp
  show ?thesis using h tool_setup_failure_raises [OF h] by simp
qed

text \<open>
  C23 (error): an exception of \<open>driver.quit()\<close> in the \<open>finally\<close> clause
  replaces the outcome: it propagates even after a successful scrape.
\<close>

theorem tool_quit_failure_raises:
  assumes "bk_install bk = Inr p" "bk_launch bk p chrome_options = None" "bk_quit bk = Some e"
  shows "fst (search_sciencedirect_bipolar bk q b) = Inl e"
  using assms by (simp add: search_launched quit_driver_def Let_def split: prod.splits)

theorem tool_quit_failure_raises_witness:
  "bk_install ((fixture_backend [])\<lparr>bk_quit := Some (WebDriverError ''session lost'')\<rparr>)
     = Inr ''/usr/bin/chromedriver'' \<and>
   bk_launch ((fixture_backend [])\<lparr>bk_quit := Some (WebDriverError ''session lost'')\<rparr>)
     ''/usr/bin/chromedriver'' chrome_options = None \<and>
   bk_quit ((fixture_backend [])\<lparr>bk_quit := Some (WebDriverError ''session lost'')\<rparr>)
     = Some (WebDriverError ''session lost'') \<and>
   fst (search_sciencedirect_bipolar ((fixture_backend [])\<lparr>bk_quit := Some (WebDriverError ''session lost'')\<rparr>)
     ''q'' fresh_browser) = Inl (WebDriverError ''session lost'')"
proof -
  let ?bk = "(fixture_backend [])\<lparr>bk_quit := Some (WebDriverError ''session lost'')\<rparr>"
  have h: "bk_install ?bk = Inr ''/usr/bin/chromedriver''"
    "bk_launch ?bk ''/usr/bin/chromedriver'' chrome_options = None"
    "bk_quit ?bk = Some (WebDriverError ''session lost'')"
    by (simp_all add: fixture_backend_def)
  show ?thesis using h tool_quit_failure_raises [OF h] by simp
qed

text \<open>
  C3 (functional): when the browser calls succeed, the tool returns what the
  extractor-ranker computes on the page, and its only possible exception,
  \<open>KeyError('href')\<close>, as the string \<open>"Error during scraping: 'href'"\<close>.
\<close>

theorem tool_returns_scrape:
  assumes "bk_install bk = Inr p" "bk_launch bk p chrome_options = None"
    and "bk_get bk (search_url q) = None" "bk_page_source bk (search_url q) = Inr doc"
    and "bk_quit bk = None"
  shows "fst (search_sciencedirect_bipolar bk q b) =
           Inr (case scrape_page doc of
                  Inr s \<Rightarrow> s
                | Inl _ \<Rightarrow> error_prefix @ str_exn (KeyError ''href''))"
proof (cases "scrape_page doc")
  case (Inl e)
  then have "e = KeyError ''href''" by (rule scrape_page_Inl)
  with Inl assms show ?thesis
    by (simp add: search_launched fetch_and_scrape_def quit_driver_def handle_exception_def Let_def)
next
  case (Inr s)
  with assms show ?thesis
    by (simp add: search_launched fetch_and_scrape_def quit_driver_def handle_exception_def Let_def)
qed

theorem tool_returns_scrape_witness:
  "bk_install (fixture_backend []) = Inr ''/usr/bin/chromedriver'' \<and>
   bk_launch (fixture_backend []) ''/usr/bin/chromedriver'' chrome_options = None \<and>
   bk_get (fixture_backend []) (search_url ''q'') = None \<and>
   bk_page_source (fixture_backend []) (search_url ''q'') = Inr [] \<and>
   bk_quit (fixture_backend []) = None \<and>
   fst (search_sciencedirect_bipolar (fixture_backend []) ''q'' fresh_browser) = Inr no_articles"
proof -
  have h: "bk_install (fixture_backend []) = Inr ''/usr/bin/chromedriver''"
    "bk_launch (fixture_backend []) ''/usr/bin/chromedriver'' chrome_options = None"
    "bk_get (fixture_backend []) (search_url ''q'') = None"
    "bk_page_source (fixture_backend []) (search_url ''q'') = Inr []"
    "bk_quit (fixture_backend []) = None"
    by (simp_all add: fixture_backend_def)
  have "scrape_page [] = Inr no_articles"
    by (simp add: scrape_page_def page_candidates_def soup_select_def)
  then show ?thesis using h tool_returns_scrape [OF h, of fresh_browser] by simp
qed

end
