(* ===== verification/Session.thy ===== *)
theory Session
  imports Tool
begin

text \<open>
  The tool across a run of the agent.  \<open>agent.invoke\<close> (lines 110 to 112)
  may call \<open>search_sciencedirect_bipolar\<close> any number of times in one
  process; LangChain's agent and the LLM are not modelled, so the queries it
  chooses are any list.  The calls run one after the other on one browser
  state; an exception that leaves the tool ends the run.  The invariant: the
  driver log is a sequence of complete driver sessions and no Chrome process
  is left running.
\<close>

fun tool_session :: "backend \<Rightarrow> string list \<Rightarrow> browser \<Rightarrow> string py_result list \<times> browser" where
  "tool_session bk [] b = ([], b)"
| "tool_session bk (q # qs) b =
     (case search_sciencedirect_bipolar bk q b of
        (Inl e, b') \<Rightarrow> ([Inl e], b')
      | (Inr s, b') \<Rightarrow> (case tool_session bk qs b' of (rs, b'') \<Rightarrow> (Inr s # rs, b'')))"

text \<open>Logs made of complete sessions of the driver protocol.\<close>

inductive drv_sessions :: "drv_event list \<Rightarrow> bool" where
  sessions_nil: "drv_sessions []"
| sessions_snoc: "drv_sessions es \<Longrightarrow> drv_run NoDriver s Closed \<Longrightarrow> drv_sessions (es @ s)"

definition browser_idle :: "browser \<Rightarrow> bool" where
  "browser_idle b = (drv_sessions (br_events b) \<and> \<not> br_live b)"

text \<open>One call adds nothing to the log, or one complete session that quits the driver.\<close>

lemma search_events:
  "\<exists>es. br_events (snd (search_sciencedirect_bipolar bk q b)) = br_events b @ es \<and>
        (es = [] \<and> br_live (snd (search_sciencedirect_bipolar bk q b)) = br_live b \<or>
         drv_run NoDriver es Closed \<and> \<not> br_live (snd (search_sciencedirect_bipolar bk q b)))"
proof (cases "bk_install bk")
  case (Inl e)
  then show ?thesis by (simp add: search_sciencedirect_bipolar_def)
next
  case (Inr p)
  show ?thesis
  proof (cases "bk_launch bk p chrome_options")
    case (Some e)
    with Inr show ?thesis by (simp add: search_sciencedirect_bipolar_def)
  next
    case None
    let ?b1 = "(log_event (Launch chrome_options) b)\<lparr>br_live := True\<rparr>"
    obtain r b2 where fs: "fetch_and_scrape bk (search_url q) ?b1 = (r, b2)"
      by (cases "fetch_and_scrape bk (search_url q) ?b1")
    from fetch_and_scrape_browser [of bk "search_url q" ?b1] fs obtain es where
      es: "es = [Navigate (search_url q)] \<or> es = [Navigate (search_url q), PageSource]"
      and ev: "br_events b2 = br_events b @ [Launch chrome_options] @ es"
      by auto
    have "search_sciencedirect_bipolar bk q b = quit_driver bk (handle_exception r) b2"
      using search_launched [OF Inr None] fs by simp
    moreover have "drv_run NoDriver ([Launch chrome_options] @ es @ [Quit]) Closed"
      using es by (rule drv_run_loads)
    ultimately show ?thesis using ev
      by (auto simp: quit_driver_def Let_def split: option.splits)
  qed
qed

lemma search_keeps_idle:
  "browser_idle b \<Longrightarrow> browser_idle (snd (search_sciencedirect_bipolar bk q b))"
  using search_events [of bk q b]
  by (auto simp: browser_idle_def intro: sessions_snoc)

text \<open>
  C10 (invariant): from an idle browser, any sequence of tool calls leaves
  the browser idle: every driver the tool creates is quit within the same
  call, whatever the backend answers and wherever the run stops.
\<close>

theorem tool_session_idle:
  assumes "browser_idle b"
  shows "browser_idle (snd (tool_session bk qs b))"
  using assms
proof (induction qs arbitrary: b)
  case Nil
  then show ?case by simp
next
  case (Cons q qs)
  have idle: "browser_idle (snd (search_sciencedirect_bipolar bk q b))"
    using Cons.prems by (rule search_keeps_idle)
  show ?case
  proof (cases "search_sciencedirect_bipolar bk q b")
    case (Pair r b')
    with idle Cons.IH [of b'] show ?thesis
      by (cases r) (auto split: prod.splits)
  qed
qed

theorem tool_session_idle_witness:
  "browser_idle fresh_browser \<and>
   browser_idle (snd (tool_session (fixture_backend []) [''bipolar disorder'', ''lithium''] fresh_browser))"
proof -
  have h: "browser_idle fresh_browser"
    by (simp add: browser_idle_def fresh_browser_def sessions_nil)
  show ?thesis using h tool_session_idle [OF h] by blast
qed

end
