(* ===== verification/Config.thy ===== *)
theory Config
  imports PyStr
begin

text \<open>
  The module-level configuration of src/ScrapingWLangsmith.py, lines 26 to
  40, as a function on the process environment \<open>os.environ\<close> (a finite
  map from names to strings): \<open>load_dotenv\<close> adds the variables of the
  \<open>.env\<close> file that are not already set, the LangSmith variables are copied
  to the names LangChain reads, and \<open>PROXY\<close>, given a scheme when it has
  none, becomes \<open>http_proxy\<close> and \<open>https_proxy\<close>.  Locating the \<open>.env\<close>
  file (\<open>find_dotenv\<close>) and parsing it are not modelled: the file is the
  map of the variables it assigns.
\<close>

section \<open>Definitions\<close>

text \<open>\<open>os.getenv(key, default)\<close>.\<close>

definition getenv_default :: "env \<Rightarrow> string \<Rightarrow> string \<Rightarrow> string" where
  "getenv_default env k d = (case env k of None \<Rightarrow> d | Some v \<Rightarrow> v)"

text \<open>
  Line 26, \<open>load_dotenv(find_dotenv())\<close> with \<open>override=False\<close>: a variable
  of the file is set only when the environment does not have it yet.
\<close>

definition load_dotenv :: "env \<Rightarrow> env \<Rightarrow> env" where
  "load_dotenv env dotenv = (\<lambda>k. case env k of None \<Rightarrow> dotenv k | Some v \<Rightarrow> Some v)"

text \<open>Lines 29 to 32, in order.\<close>

definition langsmith_setup :: "env \<Rightarrow> env" where
  "langsmith_setup env =
     (let e1 = env(''LANGCHAIN_TRACING_V2'' \<mapsto> getenv_default env ''LANGSMITH_TRACING'' ''false'');
          e2 = e1(''LANGCHAIN_ENDPOINT'' \<mapsto> getenv_default e1 ''LANGSMITH_ENDPOINT'' '''');
          e3 = e2(''LANGCHAIN_API_KEY'' \<mapsto> getenv_default e2 ''LANGSMITH_API_KEY'' '''')
      in e3(''LANGCHAIN_PROJECT'' \<mapsto> getenv_default e3 ''LANGSMITH_PROJECT'' ''''))"

text \<open>
  Lines 35 to 37: \<open>proxy = os.getenv("PROXY")\<close>, then
  \<open>if proxy and not proxy.startswith("http"): proxy = "http://" + proxy\<close>.
  A value is truthy when it is set and not empty.
\<close>

definition normalize_proxy :: "string option \<Rightarrow> string option" where
  "normalize_proxy proxy =
     (case proxy of
       None \<Rightarrow> None
     | Some p \<Rightarrow> Some (if p \<noteq> [] \<and> \<not> py_startswith p ''http'' then ''http://'' @ p else p))"

text \<open>Lines 38 to 40.\<close>

definition proxy_setup :: "env \<Rightarrow> env" where
  "proxy_setup env =
     (case normalize_proxy (env ''PROXY'') of
       Some p \<Rightarrow> if p \<noteq> [] then env(''http_proxy'' \<mapsto> p, ''https_proxy'' \<mapsto> p) else env
     | None \<Rightarrow> env)"

text \<open>Lines 26 to 40 in order.\<close>

definition module_config :: "env \<Rightarrow> env \<Rightarrow> env" where
  "module_config env dotenv = proxy_setup (langsmith_setup (load_dotenv env dotenv))"

section \<open>Lemmas\<close>

lemma langsmith_setup_other:
  "k \<notin> {''LANGCHAIN_TRACING_V2'', ''LANGCHAIN_ENDPOINT'', ''LANGCHAIN_API_KEY'', ''LANGCHAIN_PROJECT''}
   \<Longrightarrow> langsmith_setup env k = env k"
  by (simp add: langsmith_setup_def Let_def)

lemma proxy_setup_other:
  "k \<notin> {''http_proxy'', ''https_proxy''} \<Longrightarrow> proxy_setup env k = env k"
  by (simp add: proxy_setup_def split: option.splits)

lemma langsmith_setup_reads:
  "langsmith_setup env ''LANGCHAIN_TRACING_V2'' = Some (getenv_default env ''LANGSMITH_TRACING'' ''false'')"
  "langsmith_setup env ''LANGCHAIN_ENDPOINT'' = Some (getenv_default env ''LANGSMITH_ENDPOINT'' '''')"
  "langsmith_setup env ''LANGCHAIN_API_KEY'' = Some (getenv_default env ''LANGSMITH_API_KEY'' '''')"
  "langsmith_setup env ''LANGCHAIN_PROJECT'' = Some (getenv_default env ''LANGSMITH_PROJECT'' '''')"
  by (simp_all add: langsmith_setup_def Let_def getenv_default_def)

section \<open>Properties of the configuration\<close>

text \<open>
  C33 (invariant): the configuration step changes no variable but the four
  LangChain variables and the two proxy variables; every other variable is
  the environment's, or the \<open>.env\<close> file's when the environment lacks it.
\<close>

theorem module_config_frame:
  assumes "k \<notin> {''LANGCHAIN_TRACING_V2'', ''LANGCHAIN_ENDPOINT'', ''LANGCHAIN_API_KEY'',
                 ''LANGCHAIN_PROJECT'', ''http_proxy'', ''https_proxy''}"
  shows "module_config env dotenv k = (case env k of Some v \<Rightarrow> Some v | None \<Rightarrow> dotenv k)"
  using assms
  by (simp add: module_config_def proxy_setup_other langsmith_setup_other load_dotenv_def)

theorem module_config_frame_witness:
  "''HOME'' \<notin> {''LANGCHAIN_TRACING_V2'', ''LANGCHAIN_ENDPOINT'', ''LANGCHAIN_API_KEY'',
                 ''LANGCHAIN_PROJECT'', ''http_proxy'', ''https_proxy''} \<and>
   module_config Map.empty [''HOME'' \<mapsto> ''/root''] ''HOME'' = Some ''/root''"
proof -
  have h: "''HOME'' \<notin> {''LANGCHAIN_TRACING_V2'', ''LANGCHAIN_ENDPOINT'', ''LANGCHAIN_API_KEY'',
                 ''LANGCHAIN_PROJECT'', ''http_proxy'', ''https_proxy''}" by simp
  show ?thesis using h module_config_frame [OF h, of Map.empty "[''HOME'' \<mapsto> ''/root'']"] by simp
qed

text \<open>
  LangSmith tracing is switched on exactly as
  \<open>LANGSMITH_TRACING\<close> says, taken from the environment, else from the
  \<open>.env\<close> file, else \<open>"false"\<close>; the API key likewise, defaulting to the
  empty string.
\<close>

theorem module_config_tracing:
  "module_config env dotenv ''LANGCHAIN_TRACING_V2'' =
     Some (case env ''LANGSMITH_TRACING'' of Some v \<Rightarrow> v
           | None \<Rightarrow> (case dotenv ''LANGSMITH_TRACING'' of Some v \<Rightarrow> v | None \<Rightarrow> ''false'')) \<and>
   module_config env dotenv ''LANGCHAIN_API_KEY'' =
     Some (case env ''LANGSMITH_API_KEY'' of Some v \<Rightarrow> v
           | None \<Rightarrow> (case dotenv ''LANGSMITH_API_KEY'' of Some v \<Rightarrow> v | None \<Rightarrow> ''''))"
  by (simp add: module_config_def proxy_setup_other langsmith_setup_reads getenv_default_def
                load_dotenv_def split: option.splits)

text \<open>
  C34 (functional): a non-empty \<open>PROXY\<close> is copied to both \<open>http_proxy\<close>
  and \<open>https_proxy\<close>, prefixed with \<open>http://\<close> unless it already starts
  with the four letters \<open>http\<close>, so a proxy host whose name starts with
  \<open>http\<close> (\<open>httpproxy:3128\<close>) is left without a scheme.
\<close>

theorem proxy_setup_sets_both:
  assumes "env ''PROXY'' = Some p" and "p \<noteq> []"
  shows "proxy_setup env ''http_proxy'' = Some (if py_startswith p ''http'' then p else ''http://'' @ p) \<and>
         proxy_setup env ''https_proxy'' = Some (if py_startswith p ''http'' then p else ''http://'' @ p)"
  using assms by (simp add: proxy_setup_def normalize_proxy_def)

theorem proxy_setup_sets_both_witness:
  "[''PROXY'' \<mapsto> ''httpproxy:3128''] ''PROXY'' = Some ''httpproxy:3128'' \<and> ''httpproxy:3128'' \<noteq> [] \<and>
   proxy_setup [''PROXY'' \<mapsto> ''httpproxy:3128''] ''http_proxy'' = Some ''httpproxy:3128'' \<and>
   proxy_setup [''PROXY'' \<mapsto> ''httpproxy:3128''] ''https_proxy'' = Some ''httpproxy:3128''"
proof -
  have h: "[''PROXY'' \<mapsto> ''httpproxy:3128''] ''PROXY'' = Some ''httpproxy:3128''"
    "''httpproxy:3128'' \<noteq> []" by simp_all
  have "py_startswith ''httpproxy:3128'' ''http''" by (simp add: py_simps)
  then show ?thesis
    using h proxy_setup_sets_both [where env = "[''PROXY'' \<mapsto> ''httpproxy:3128'']", OF h] by simp
qed

text \<open>
  An unset or empty \<open>PROXY\<close> leaves the environment as
  it is.
\<close>

theorem proxy_setup_no_proxy:
  assumes "env ''PROXY'' = None \<or> env ''PROXY'' = Some []"
  shows "proxy_setup env = env"
  using assms by (auto simp: proxy_setup_def normalize_proxy_def)

theorem proxy_setup_no_proxy_witness:
  "(Map.empty ''PROXY'' = None \<or> Map.empty ''PROXY'' = Some []) \<and> proxy_setup Map.empty = Map.empty"
proof -
  have h: "(Map.empty :: env) ''PROXY'' = None \<or> (Map.empty :: env) ''PROXY'' = Some []" by simp
  show ?thesis using h proxy_setup_no_proxy [OF h] by simp
qed

end
