(* ===== verification/Agent.thy ===== *)
theory Agent
  imports Complex_Main Session Config "HOL-Library.While_Combinator"
begin

text \<open>
  Lines 43 and 92 to 113 of src/ScrapingWLangsmith.py: the registration of the
  tool (\<open>@tool\<close>), the LLM client (\<open>Together(...)\<close>), the agent
  (\<open>initialize_agent\<close>) and its run (\<open>agent.invoke\<close>).  LangChain and
  the LLM are libraries; what the program fixes is their configuration and
  the tool they drive.  The agent is LangChain's \<open>AgentExecutor\<close> with the
  defaults \<open>initialize_agent\<close> leaves in place (\<open>max_iterations = 15\<close>,
  \<open>early_stopping_method = "force"\<close>, \<open>handle_parsing_errors = False\<close>,
  tools that do not handle their errors).  Its \<open>_call\<close> loop is kept as a
  loop, \<open>while_option\<close> over an explicit state: the intermediate steps,
  the iteration counter, the browser, and the outcome (still running, a
  final answer, or an exception that leaves \<open>invoke\<close>).  The LLM is an
  oracle: any function from its configuration, the tools, the input and the
  steps so far to a parsed output (a tool call, a final answer, or text the
  ReAct output parser rejects) or an exception of the API call.
\<close>

section \<open>Tool registration, LLM and agent configuration\<close>

text \<open>
  Line 43, \<open>@tool\<close>: the function is registered under its name, with its
  docstring (lines 45 to 47, dedented and stripped) as the description and
  its one string parameter as the input schema.
\<close>

record tool_reg =
  tool_name :: string
  tool_description :: string
  tool_args :: "(string \<times> string) list"

definition sciencedirect_tool :: tool_reg where
  "sciencedirect_tool =
     \<lparr>tool_name = ''search_sciencedirect_bipolar'',
      tool_description = ''Uses Selenium to search ScienceDirect for articles about bipolar disorder and returns the most cited one.'',
      tool_args = [(''query'', ''string'')]\<rparr>"

text \<open>Lines 93 to 98: the client's settings; the key is read from the environment.\<close>

record llm_conf =
  llm_model :: string
  llm_temperature :: real
  llm_max_tokens :: nat
  llm_api_key :: "string option"

definition llm_setup :: "env \<Rightarrow> llm_conf" where
  "llm_setup env =
     \<lparr>llm_model = ''mistralai/Mixtral-8x7B-Instruct-v0.1'', llm_temperature = 7 / 10,
      llm_max_tokens = 512, llm_api_key = env ''TOGETHER_API_KEY''\<rparr>"

text \<open>
  Lines 103 to 108 and the \<open>AgentExecutor\<close> defaults they keep.  The only
  agent type the program uses is \<open>ZERO_SHOT_REACT_DESCRIPTION\<close>.
\<close>

datatype agent_type = ZERO_SHOT_REACT_DESCRIPTION

record agent_conf =
  ag_tools :: "tool_reg list"
  ag_llm :: llm_conf
  ag_type :: agent_type
  ag_verbose :: bool
  ag_max_iterations :: nat
  ag_handle_parsing_errors :: bool

definition initialize_agent :: "tool_reg list \<Rightarrow> llm_conf \<Rightarrow> agent_type \<Rightarrow> bool \<Rightarrow> agent_conf" where
  "initialize_agent tools llm ty verbose =
     \<lparr>ag_tools = tools, ag_llm = llm, ag_type = ty, ag_verbose = verbose,
      ag_max_iterations = 15, ag_handle_parsing_errors = False\<rparr>"

section \<open>The agent loop\<close>

text \<open>
  An intermediate step: the tool name, the tool input and the observation.
  The LLM's output as the ReAct output parser gives it: a tool call, a final
  answer, or an \<open>OutputParserException\<close> carrying the rejected text and,
  when it is raised with \<open>send_to_llm=True\<close>, the observation to send back.
\<close>

type_synonym agent_step_rec = "string \<times> string \<times> string"

datatype llm_output = Act string string | Finish string | Unparsable string "string option"

type_synonym llm_oracle = "llm_conf \<Rightarrow> tool_reg list \<Rightarrow> string \<Rightarrow> agent_step_rec list \<Rightarrow> llm_output py_result"

datatype agent_outcome = Running | Finished string | Raised py_exn

record agent_state =
  as_steps :: "agent_step_rec list"
  as_iterations :: nat
  as_browser :: browser
  as_outcome :: agent_outcome

text \<open>
  With \<open>handle_parsing_errors = False\<close>, an \<open>OutputParserException\<close>
  becomes this \<open>ValueError\<close>; with \<open>True\<close>, the observation is the
  exception's own when it asks to be sent to the LLM, and this text otherwise.
\<close>

definition parse_error_observation :: "string option \<Rightarrow> string" where
  "parse_error_observation obs = (case obs of Some m \<Rightarrow> m | None \<Rightarrow> ''Invalid or incomplete response'')"

definition parse_error :: "string \<Rightarrow> py_exn" where
  "parse_error text =
     ValueError (''An output parsing error occurred. In order to pass this error back to the agent and have it try again, pass `handle_parsing_errors=True` to the AgentExecutor. This is the error: Could not parse LLM output: `'' @ text @ ''`'')"

text \<open>
  \<open>InvalidTool\<close>: the observation for a tool name that is not registered,
  with the registered names joined by \<open>", "\<close>.
\<close>

fun join_names :: "string list \<Rightarrow> string" where
  "join_names [] = ''''"
| "join_names [n] = n"
| "join_names (n # ns) = n @ '', '' @ join_names ns"

definition invalid_tool :: "string \<Rightarrow> tool_reg list \<Rightarrow> string" where
  "invalid_tool name tools =
     name @ '' is not a valid tool, try one of ['' @ join_names (map tool_name tools) @ ''].''"

text \<open>\<open>return_stopped_response\<close> with \<open>early_stopping_method = "force"\<close>.\<close>

definition stopped_message :: string where
  "stopped_message = ''Agent stopped due to iteration limit or time limit.''"

text \<open>
  One iteration of \<open>AgentExecutor._call\<close> (\<open>_take_next_step\<close>): ask the
  LLM; a final answer or an exception ends the loop; output the parser
  rejects raises \<open>ValueError\<close>, or, when the agent handles parsing errors,
  becomes a step of the \<open>_Exception\<close> tool, which observes its input; a tool call runs the
  tool when its name is registered (an exception of the tool propagates)
  and otherwise observes \<open>InvalidTool\<close>'s message; the step is recorded
  and the counter advanced.
\<close>

definition agent_step :: "agent_conf \<Rightarrow> llm_oracle \<Rightarrow> backend \<Rightarrow> string \<Rightarrow> agent_state \<Rightarrow> agent_state" where
  "agent_step ag llm bk inp st =
     (case llm (ag_llm ag) (ag_tools ag) inp (as_steps st) of
        Inl e \<Rightarrow> st\<lparr>as_outcome := Raised e\<rparr>
      | Inr (Unparsable text obs) \<Rightarrow>
          (if ag_handle_parsing_errors ag then
             st\<lparr>as_steps := as_steps st @ [(''_Exception'', parse_error_observation obs, parse_error_observation obs)],
                as_iterations := Suc (as_iterations st)\<rparr>
           else st\<lparr>as_outcome := Raised (parse_error text)\<rparr>)
      | Inr (Finish answer) \<Rightarrow> st\<lparr>as_outcome := Finished answer\<rparr>
      | Inr (Act name q) \<Rightarrow>
          (if name \<in> set (map tool_name (ag_tools ag)) then
             (case search_sciencedirect_bipolar bk q (as_browser st) of
                (Inl e, b') \<Rightarrow> st\<lparr>as_browser := b', as_outcome := Raised e\<rparr>
              | (Inr obs, b') \<Rightarrow>
                  st\<lparr>as_steps := as_steps st @ [(name, q, obs)], as_browser := b',
                     as_iterations := Suc (as_iterations st)\<rparr>)
           else
             st\<lparr>as_steps := as_steps st @ [(name, q, invalid_tool name (ag_tools ag))],
                as_iterations := Suc (as_iterations st)\<rparr>))"

text \<open>\<open>_should_continue\<close>, and the loop's exit on a final answer or an exception.\<close>

definition agent_running :: "agent_conf \<Rightarrow> agent_state \<Rightarrow> bool" where
  "agent_running ag st = (as_outcome st = Running \<and> as_iterations st < ag_max_iterations ag)"

definition agent_start :: "browser \<Rightarrow> agent_state" where
  "agent_start b = \<lparr>as_steps = [], as_iterations = 0, as_browser = b, as_outcome = Running\<rparr>"

definition agent_loop :: "agent_conf \<Rightarrow> llm_oracle \<Rightarrow> backend \<Rightarrow> string \<Rightarrow> browser \<Rightarrow> agent_state option" where
  "agent_loop ag llm bk inp b = while_option (agent_running ag) (agent_step ag llm bk inp) (agent_start b)"

text \<open>
  The states the loop passes through: the start, and the step of a state in
  which the loop goes on.
\<close>

inductive agent_reach :: "agent_conf \<Rightarrow> llm_oracle \<Rightarrow> backend \<Rightarrow> string \<Rightarrow> browser \<Rightarrow> agent_state \<Rightarrow> bool"
  for ag llm bk inp b where
  reach_start: "agent_reach ag llm bk inp b (agent_start b)"
| reach_step: "agent_reach ag llm bk inp b st \<Longrightarrow> agent_running ag st \<Longrightarrow>
    agent_reach ag llm bk inp b (agent_step ag llm bk inp st)"

text \<open>
  What \<open>invoke\<close> returns: the dictionary \<open>{"input": ..., "output": ...}\<close>
  as a pair, or the exception; and the browser afterwards.
\<close>

definition agent_result :: "string \<Rightarrow> agent_state \<Rightarrow> (string \<times> string) py_result \<times> browser" where
  "agent_result inp st =
     (case as_outcome st of
        Running \<Rightarrow> (Inr (inp, stopped_message), as_browser st)
      | Finished answer \<Rightarrow> (Inr (inp, answer), as_browser st)
      | Raised e \<Rightarrow> (Inl e, as_browser st))"

definition agent_invoke ::
  "agent_conf \<Rightarrow> llm_oracle \<Rightarrow> backend \<Rightarrow> string \<Rightarrow> browser \<Rightarrow> ((string \<times> string) py_result \<times> browser) option" where
  "agent_invoke ag llm bk inp b = map_option (agent_result inp) (agent_loop ag llm bk inp b)"

section \<open>The module's run\<close>

text \<open>Lines 101 to 113.\<close>

definition task_input :: string where
  "task_input = ''Find the most cited article about bipolar disorder on ScienceDirect. Include link and citation count.''"

definition program_agent :: "env \<Rightarrow> agent_conf" where
  "program_agent env = initialize_agent [sciencedirect_tool] (llm_setup env) ZERO_SHOT_REACT_DESCRIPTION True"

text \<open>
  The module from its import to the answer: configuration (theory
  \<open>Config\<close>), LLM and agent set up from the configured environment, one
  \<open>invoke\<close> on a browser with no driver yet.
\<close>

definition module_run ::
  "env \<Rightarrow> env \<Rightarrow> llm_oracle \<Rightarrow> backend \<Rightarrow> ((string \<times> string) py_result \<times> browser) option" where
  "module_run env dotenv llm bk =
     agent_invoke (program_agent (module_config env dotenv)) llm bk task_input fresh_browser"

text \<open>
  An LLM for the examples that first names a tool that is not registered,
  then gives the output \<open>out\<close>.
\<close>

definition retry_llm :: "llm_output \<Rightarrow> llm_oracle" where
  "retry_llm out c ts inp steps = (case steps of [] \<Rightarrow> Inr (Act ''lookup'' inp) | _ \<Rightarrow> Inr out)"

text \<open>
  An LLM for the examples: it calls the tool once on \<open>"bipolar disorder"\<close>
  and answers with the observation.
\<close>

definition demo_llm :: llm_oracle where
  "demo_llm c ts inp steps =
     (case steps of
        [] \<Rightarrow> Inr (Act ''search_sciencedirect_bipolar'' ''bipolar disorder'')
      | (_, _, obs) # _ \<Rightarrow> Inr (Finish obs))"

text \<open>The number of Chrome processes started, as logged.\<close>

fun is_launch :: "drv_event \<Rightarrow> bool" where
  "is_launch (Launch _) = True"
| "is_launch _ = False"

definition launches :: "browser \<Rightarrow> nat" where
  "launches b = length (filter is_launch (br_events b))"

text \<open>
  What each iteration uses up: the iterations left, and one more while the
  outcome is still open.
\<close>

definition agent_measure :: "agent_conf \<Rightarrow> agent_state \<Rightarrow> nat" where
  "agent_measure ag st = (ag_max_iterations ag - as_iterations st) + (if as_outcome st = Running then 1 else 0)"

section \<open>Lemmas\<close>

lemma agent_step_progress:
  "agent_running ag st \<Longrightarrow> agent_measure ag (agent_step ag llm bk inp st) < agent_measure ag st"
  by (auto simp: agent_running_def agent_measure_def agent_step_def
           split: sum.splits llm_output.splits prod.splits)

text \<open>The loop always stops: each iteration lowers \<open>agent_measure\<close>.\<close>

lemma agent_loop_Some: "\<exists>st. agent_loop ag llm bk inp b = Some st"
  unfolding agent_loop_def
  by (rule measure_while_option_Some [where P = "\<lambda>_. True" and f = "agent_measure ag"])
     (simp_all add: agent_step_progress)

text \<open>Invariants of the loop, and its exit condition, for the state it stops in.\<close>

lemma agent_loop_rule:
  assumes "agent_loop ag llm bk inp b = Some st" and "P (agent_start b)"
    and "\<And>s. P s \<Longrightarrow> agent_running ag s \<Longrightarrow> P (agent_step ag llm bk inp s)"
  shows "P st \<and> \<not> agent_running ag st"
proof
  show "P st"
    by (rule while_option_rule [where P = P, OF assms(3) assms(1) [unfolded agent_loop_def] assms(2)])
  show "\<not> agent_running ag st"
    using assms(1) unfolding agent_loop_def by (rule while_option_stop)
qed

lemma agent_invoke_Some_iff:
  "agent_invoke ag llm bk inp b = Some x \<longleftrightarrow>
   (\<exists>st. agent_loop ag llm bk inp b = Some st \<and> x = agent_result inp st)"
  by (auto simp: agent_invoke_def)

lemma snd_agent_result [simp]: "snd (agent_result inp st) = as_browser st"
  by (simp add: agent_result_def split: agent_outcome.split)

text \<open>Nothing leads back to no driver, so a driver session starts Chrome at most once.\<close>

lemma drv_run_NoDriver:
  assumes "drv_run p es NoDriver"
  shows "es = [] \<and> p = NoDriver"
  using assms by (cases rule: drv_run.cases) (auto elim: drv_step.cases)

lemma drv_run_launches:
  "drv_run p es q \<Longrightarrow> length (filter is_launch es) \<le> (if p = NoDriver then 1 else 0)"
proof (induction rule: drv_run.induct)
  case (run_nil p)
  then show ?case by simp
next
  case (run_snoc p es q e r)
  from run_snoc.hyps(2) show ?case
  proof (cases rule: drv_step.cases)
    case (launch opts)
    with run_snoc.hyps(1) have "es = [] \<and> p = NoDriver"
      by (simp add: drv_run_NoDriver)
    with launch show ?thesis by simp
  qed (use run_snoc.IH in auto)
qed

lemma search_launches:
  "launches (snd (search_sciencedirect_bipolar bk q b)) \<le> Suc (launches b)"
  using search_events [of bk q b] by (auto simp: launches_def dest!: drv_run_launches)

text \<open>Each iteration starts Chrome at most once, and only a tool call that raises ends the loop after starting it.\<close>

lemma agent_step_launches:
  assumes "agent_running ag st"
    and "launches (as_browser st) \<le> n + as_iterations st"
  shows "launches (as_browser (agent_step ag llm bk inp st))
           \<le> n + as_iterations (agent_step ag llm bk inp st)
              + (if \<exists>e. as_outcome (agent_step ag llm bk inp st) = Raised e then 1 else 0)"
    and "(\<exists>e. as_outcome (agent_step ag llm bk inp st) = Raised e)
           \<longrightarrow> as_iterations (agent_step ag llm bk inp st) < ag_max_iterations ag"
    and "as_iterations (agent_step ag llm bk inp st) \<le> ag_max_iterations ag"
proof -
  have l: "search_sciencedirect_bipolar bk q (as_browser st) = (r', b'') \<Longrightarrow>
            launches b'' \<le> Suc (launches (as_browser st))"
    for q r' b'' using search_launches [of bk q "as_browser st"] by simp
  show "launches (as_browser (agent_step ag llm bk inp st))
           \<le> n + as_iterations (agent_step ag llm bk inp st)
              + (if \<exists>e. as_outcome (agent_step ag llm bk inp st) = Raised e then 1 else 0)"
    using assms l
    by (fastforce simp: agent_step_def agent_running_def split: sum.splits llm_output.splits prod.splits)
  show "(\<exists>e. as_outcome (agent_step ag llm bk inp st) = Raised e)
           \<longrightarrow> as_iterations (agent_step ag llm bk inp st) < ag_max_iterations ag"
    using assms(1)
    by (auto simp: agent_step_def agent_running_def split: sum.splits llm_output.splits prod.splits)
  show "as_iterations (agent_step ag llm bk inp st) \<le> ag_max_iterations ag"
    using assms(1)
    by (auto simp: agent_step_def agent_running_def split: sum.splits llm_output.splits prod.splits)
qed

text \<open>Each iteration keeps the browser idle (theory \<open>Session\<close>).\<close>

lemma agent_step_idle:
  assumes "browser_idle (as_browser st)"
  shows "browser_idle (as_browser (agent_step ag llm bk inp st))"
proof -
  have "search_sciencedirect_bipolar bk q (as_browser st) = (r, b') \<Longrightarrow> browser_idle b'" for q r b'
    using search_keeps_idle [OF assms, of bk q] by simp
  with assms show ?thesis
    by (auto simp: agent_step_def split: sum.splits llm_output.splits prod.splits)
qed

lemma agent_step_Act_ok:
  assumes "llm (ag_llm ag) (ag_tools ag) inp (as_steps st) = Inr (Act n q)"
    and "n \<in> set (map tool_name (ag_tools ag))"
    and "search_sciencedirect_bipolar bk q (as_browser st) = (Inr obs, b')"
  shows "agent_step ag llm bk inp st =
           st\<lparr>as_steps := as_steps st @ [(n, q, obs)], as_browser := b',
              as_iterations := Suc (as_iterations st)\<rparr>"
  using assms by (simp add: agent_step_def)

text \<open>
  From a state the loop reaches, the loop goes on as from the start; so an
  iteration that ends the loop gives the state the loop stops in.
\<close>

lemma agent_reach_loop:
  "agent_reach ag llm bk inp b st \<Longrightarrow>
   agent_loop ag llm bk inp b = while_option (agent_running ag) (agent_step ag llm bk inp) st"
proof (induction rule: agent_reach.induct)
  case reach_start
  then show ?case by (simp add: agent_loop_def)
next
  case (reach_step st)
  then show ?case by (simp add: while_option_unfold [of _ _ st])
qed

lemma agent_reach_last:
  assumes "agent_reach ag llm bk inp b st" and "agent_running ag st"
    and "\<not> agent_running ag (agent_step ag llm bk inp st)"
  shows "agent_loop ag llm bk inp b = Some (agent_step ag llm bk inp st)"
  using assms
  by (simp add: agent_reach_loop while_option_unfold [of _ _ st]
                while_option_unfold [of _ _ "agent_step ag llm bk inp st"])

section \<open>Properties of the agent run\<close>

text \<open>
  C11 (termination): \<open>agent.invoke\<close> returns, whatever the LLM answers and
  whatever the browser does: the \<open>AgentExecutor\<close> loop ends within
  \<open>max_iterations\<close> iterations, or earlier on a final answer or an exception.
\<close>

theorem agent_invoke_terminates: "\<exists>r. agent_invoke ag llm bk inp b = Some r"
  using agent_loop_Some [of ag llm bk inp b] by (auto simp: agent_invoke_def)

text \<open>
  C12 (liveness): from an idle browser, every run of the agent ends, and ends
  with the browser idle: every Chrome process the tool started during the run
  has been quit.
\<close>

theorem agent_run_ends_idle:
  assumes "browser_idle b"
  shows "\<exists>r b'. agent_invoke ag llm bk inp b = Some (r, b') \<and> browser_idle b'"
proof -
  obtain st where st: "agent_loop ag llm bk inp b = Some st"
    using agent_loop_Some by blast
  have "browser_idle (as_browser st)"
  proof (rule conjunct1 [OF agent_loop_rule [OF st, where P = "\<lambda>s. browser_idle (as_browser s)"]])
    show "browser_idle (as_browser (agent_start b))" using assms by (simp add: agent_start_def)
  qed (rule agent_step_idle)
  with st show ?thesis
    by (intro exI [of _ "fst (agent_result inp st)"] exI [of _ "as_browser st"])
       (simp add: agent_invoke_def prod_eq_iff)
qed

theorem agent_run_ends_idle_witness:
  "browser_idle fresh_browser \<and>
   (\<exists>r b'. agent_invoke (program_agent Map.empty) demo_llm (fixture_backend []) task_input fresh_browser
             = Some (r, b') \<and> browser_idle b')"
proof -
  have h: "browser_idle fresh_browser"
    by (simp add: browser_idle_def fresh_browser_def sessions_nil)
  show ?thesis using h agent_run_ends_idle [OF h] by blast
qed

text \<open>
  C13 (error): an exception that leaves the tool is not turned into an
  observation, at whatever iteration the tool runs: it leaves
  \<open>agent.invoke\<close>, so a failure of \<open>driver.quit()\<close>, of the driver
  installation or of the launch of Chrome ends the whole run.
\<close>

theorem agent_tool_error_propagates:
  assumes "agent_reach ag llm bk inp b st" and "agent_running ag st"
    and "llm (ag_llm ag) (ag_tools ag) inp (as_steps st) = Inr (Act n q)"
    and "n \<in> set (map tool_name (ag_tools ag))"
    and "search_sciencedirect_bipolar bk q (as_browser st) = (Inl e, b')"
  shows "agent_invoke ag llm bk inp b = Some (Inl e, b')"
proof -
  have "agent_step ag llm bk inp st = st\<lparr>as_browser := b', as_outcome := Raised e\<rparr>"
    using assms(3-5) by (simp add: agent_step_def)
  with agent_reach_last [OF assms(1,2)] show ?thesis
    by (simp add: agent_running_def agent_invoke_def agent_result_def)
qed

text \<open>The tool raises at the second iteration, after an unknown tool name.\<close>

theorem agent_tool_error_propagates_witness:
  "agent_reach (program_agent Map.empty) (retry_llm (Act ''search_sciencedirect_bipolar'' ''bipolar disorder'')) ((fixture_backend [])\<lparr>bk_quit := Some (WebDriverError ''session lost'')\<rparr>) task_input fresh_browser
     (agent_step (program_agent Map.empty) (retry_llm (Act ''search_sciencedirect_bipolar'' ''bipolar disorder'')) ((fixture_backend [])\<lparr>bk_quit := Some (WebDriverError ''session lost'')\<rparr>) task_input (agent_start fresh_browser)) \<and>
   agent_running (program_agent Map.empty) (agent_step (program_agent Map.empty) (retry_llm (Act ''search_sciencedirect_bipolar'' ''bipolar disorder'')) ((fixture_backend [])\<lparr>bk_quit := Some (WebDriverError ''session lost'')\<rparr>) task_input (agent_start fresh_browser)) \<and>
   (retry_llm (Act ''search_sciencedirect_bipolar'' ''bipolar disorder'')) (ag_llm (program_agent Map.empty)) (ag_tools (program_agent Map.empty)) task_input
     (as_steps (agent_step (program_agent Map.empty) (retry_llm (Act ''search_sciencedirect_bipolar'' ''bipolar disorder'')) ((fixture_backend [])\<lparr>bk_quit := Some (WebDriverError ''session lost'')\<rparr>) task_input (agent_start fresh_browser)))
     = Inr (Act ''search_sciencedirect_bipolar'' ''bipolar disorder'') \<and>
   ''search_sciencedirect_bipolar'' \<in> set (map tool_name (ag_tools (program_agent Map.empty))) \<and>
   search_sciencedirect_bipolar ((fixture_backend [])\<lparr>bk_quit := Some (WebDriverError ''session lost'')\<rparr>) ''bipolar disorder'' (as_browser (agent_step (program_agent Map.empty) (retry_llm (Act ''search_sciencedirect_bipolar'' ''bipolar disorder'')) ((fixture_backend [])\<lparr>bk_quit := Some (WebDriverError ''session lost'')\<rparr>) task_input (agent_start fresh_browser)))
     = (Inl (WebDriverError ''session lost''), \<lparr>br_events = [Launch chrome_options, Navigate (search_url ''bipolar disorder''), PageSource, Quit], br_live = False\<rparr>) \<and>
   agent_invoke (program_agent Map.empty) (retry_llm (Act ''search_sciencedirect_bipolar'' ''bipolar disorder'')) ((fixture_backend [])\<lparr>bk_quit := Some (WebDriverError ''session lost'')\<rparr>) task_input fresh_browser
     = Some (Inl (WebDriverError ''session lost''), \<lparr>br_events = [Launch chrome_options, Navigate (search_url ''bipolar disorder''), PageSource, Quit], br_live = False\<rparr>)"
proof -
  have r0: "agent_running (program_agent Map.empty) (agent_start fresh_browser)"
    by (simp add: agent_running_def agent_start_def program_agent_def initialize_agent_def)
  have h1: "agent_reach (program_agent Map.empty) (retry_llm (Act ''search_sciencedirect_bipolar'' ''bipolar disorder'')) ((fixture_backend [])\<lparr>bk_quit := Some (WebDriverError ''session lost'')\<rparr>) task_input fresh_browser
     (agent_step (program_agent Map.empty) (retry_llm (Act ''search_sciencedirect_bipolar'' ''bipolar disorder'')) ((fixture_backend [])\<lparr>bk_quit := Some (WebDriverError ''session lost'')\<rparr>) task_input (agent_start fresh_browser))"
    by (rule reach_step [OF reach_start r0])
  have st: "(agent_step (program_agent Map.empty) (retry_llm (Act ''search_sciencedirect_bipolar'' ''bipolar disorder'')) ((fixture_backend [])\<lparr>bk_quit := Some (WebDriverError ''session lost'')\<rparr>) task_input (agent_start fresh_browser)) = (agent_start fresh_browser)\<lparr>as_steps := [(''lookup'', task_input, invalid_tool ''lookup'' [sciencedirect_tool])], as_iterations := 1\<rparr>"
    by (simp add: agent_step_def agent_start_def retry_llm_def program_agent_def initialize_agent_def sciencedirect_tool_def)
  have h2: "agent_running (program_agent Map.empty) (agent_step (program_agent Map.empty) (retry_llm (Act ''search_sciencedirect_bipolar'' ''bipolar disorder'')) ((fixture_backend [])\<lparr>bk_quit := Some (WebDriverError ''session lost'')\<rparr>) task_input (agent_start fresh_browser))"
    unfolding st by (simp add: agent_running_def agent_start_def program_agent_def initialize_agent_def)
  have h3: "(retry_llm (Act ''search_sciencedirect_bipolar'' ''bipolar disorder'')) (ag_llm (program_agent Map.empty)) (ag_tools (program_agent Map.empty)) task_input
     (as_steps (agent_step (program_agent Map.empty) (retry_llm (Act ''search_sciencedirect_bipolar'' ''bipolar disorder'')) ((fixture_backend [])\<lparr>bk_quit := Some (WebDriverError ''session lost'')\<rparr>) task_input (agent_start fresh_browser)))
     = Inr (Act ''search_sciencedirect_bipolar'' ''bipolar disorder'')"
    unfolding st by (simp add: retry_llm_def agent_start_def)
  have h4: "''search_sciencedirect_bipolar'' \<in> set (map tool_name (ag_tools (program_agent Map.empty)))"
    by (simp add: program_agent_def initialize_agent_def sciencedirect_tool_def)
  have h5: "search_sciencedirect_bipolar ((fixture_backend [])\<lparr>bk_quit := Some (WebDriverError ''session lost'')\<rparr>) ''bipolar disorder'' fresh_browser
     = (Inl (WebDriverError ''session lost''), \<lparr>br_events = [Launch chrome_options, Navigate (search_url ''bipolar disorder''), PageSource, Quit], br_live = False\<rparr>)"
    by code_simp
  then have h5': "search_sciencedirect_bipolar ((fixture_backend [])\<lparr>bk_quit := Some (WebDriverError ''session lost'')\<rparr>) ''bipolar disorder'' (as_browser (agent_step (program_agent Map.empty) (retry_llm (Act ''search_sciencedirect_bipolar'' ''bipolar disorder'')) ((fixture_backend [])\<lparr>bk_quit := Some (WebDriverError ''session lost'')\<rparr>) task_input (agent_start fresh_browser)))
     = (Inl (WebDriverError ''session lost''), \<lparr>br_events = [Launch chrome_options, Navigate (search_url ''bipolar disorder''), PageSource, Quit], br_live = False\<rparr>)"
    unfolding st by (simp add: agent_start_def)
  show ?thesis using h1 h2 h3 h4 h5' agent_tool_error_propagates [OF h1 h2 h3 h4 h5'] by simp
qed

text \<open>
  C14 (bounds): one run of the agent starts Chrome at most \<open>max_iterations\<close>
  times (15 for the program's agent).
\<close>

theorem agent_launch_bound:
  assumes "agent_invoke ag llm bk inp b = Some (r, b')"
  shows "launches b' \<le> launches b + ag_max_iterations ag"
proof -
  obtain st where st: "agent_loop ag llm bk inp b = Some st" and "(r, b') = agent_result inp st"
    using assms by (auto simp: agent_invoke_Some_iff)
  then have b': "b' = as_browser st" by (metis snd_agent_result snd_conv)
  let ?P = "\<lambda>s. as_iterations s \<le> ag_max_iterations ag \<and>
                 launches (as_browser s) \<le> launches b + as_iterations s
                   + (if \<exists>e. as_outcome s = Raised e then 1 else 0) \<and>
                 ((\<exists>e. as_outcome s = Raised e) \<longrightarrow> as_iterations s < ag_max_iterations ag)"
  have "?P st"
  proof (rule conjunct1 [OF agent_loop_rule [OF st]])
    show "?P (agent_start b)" by (simp add: agent_start_def)
  next
    fix s assume P: "?P s" and run: "agent_running ag s"
    then have "launches (as_browser s) \<le> launches b + as_iterations s"
      by (auto simp: agent_running_def)
    with run show "?P (agent_step ag llm bk inp s)"
      using agent_step_launches [OF run] by blast
  qed
  with b' show ?thesis by (auto split: if_splits)
qed

theorem agent_launch_bound_witness:
  "agent_invoke (program_agent Map.empty) demo_llm (fixture_backend []) task_input fresh_browser
     = Some (Inr (task_input, ''No articles found.''),
             \<lparr>br_events = [Launch chrome_options, Navigate (search_url ''bipolar disorder''), PageSource, Quit],
              br_live = False\<rparr>) \<and>
   launches \<lparr>br_events = [Launch chrome_options, Navigate (search_url ''bipolar disorder''), PageSource, Quit],
              br_live = False\<rparr> \<le> launches fresh_browser + ag_max_iterations (program_agent Map.empty)"
proof -
  have h: "agent_invoke (program_agent Map.empty) demo_llm (fixture_backend []) task_input fresh_browser
     = Some (Inr (task_input, ''No articles found.''),
             \<lparr>br_events = [Launch chrome_options, Navigate (search_url ''bipolar disorder''), PageSource, Quit],
              br_live = False\<rparr>)"
    by code_simp
  show ?thesis using h agent_launch_bound [OF h] by simp
qed

text \<open>
  C15 (functional): an LLM that never gives a final answer and keeps calling
  the tool, which does not raise, gets the answer
  \<open>"Agent stopped due to iteration limit or time limit."\<close>.
\<close>

theorem agent_stops_at_limit:
  assumes act: "\<forall>steps. llm (ag_llm ag) (ag_tools ag) inp steps = Inr (Act n q)"
    and tool: "n \<in> set (map tool_name (ag_tools ag))"
    and ok: "\<forall>b. \<exists>s. fst (search_sciencedirect_bipolar bk q b) = Inr s"
  shows "\<exists>b'. agent_invoke ag llm bk inp b = Some (Inr (inp, stopped_message), b')"
proof -
  obtain st where st: "agent_loop ag llm bk inp b = Some st"
    using agent_loop_Some by blast
  have step: "as_outcome (agent_step ag llm bk inp s) = Running" if "as_outcome s = Running" for s
  proof -
    obtain obs where "fst (search_sciencedirect_bipolar bk q (as_browser s)) = Inr obs"
      using ok by blast
    then obtain b' where "search_sciencedirect_bipolar bk q (as_browser s) = (Inr obs, b')"
      by (cases "search_sciencedirect_bipolar bk q (as_browser s)") auto
    with act tool that show ?thesis by (simp add: agent_step_Act_ok)
  qed
  have "as_outcome st = Running"
    by (rule conjunct1 [OF agent_loop_rule [OF st, where P = "\<lambda>s. as_outcome s = Running"]])
       (simp_all add: agent_start_def step)
  with st show ?thesis by (simp add: agent_invoke_def agent_result_def)
qed

theorem agent_stops_at_limit_witness:
  "(\<forall>steps. (\<lambda>c ts inp steps. Inr (Act ''search_sciencedirect_bipolar'' ''q'')) (ag_llm (program_agent Map.empty))
       (ag_tools (program_agent Map.empty)) task_input steps
       = (Inr (Act ''search_sciencedirect_bipolar'' ''q'') :: llm_output py_result)) \<and>
   ''search_sciencedirect_bipolar'' \<in> set (map tool_name (ag_tools (program_agent Map.empty))) \<and>
   (\<forall>b. \<exists>s. fst (search_sciencedirect_bipolar (fixture_backend []) ''q'' b) = Inr s) \<and>
   (\<exists>b'. agent_invoke (program_agent Map.empty) (\<lambda>c ts inp steps. Inr (Act ''search_sciencedirect_bipolar'' ''q''))
           (fixture_backend []) task_input fresh_browser = Some (Inr (task_input, stopped_message), b'))"
proof -
  have h1: "\<forall>steps. (\<lambda>c ts inp steps. Inr (Act ''search_sciencedirect_bipolar'' ''q'')) (ag_llm (program_agent Map.empty))
       (ag_tools (program_agent Map.empty)) task_input steps
       = (Inr (Act ''search_sciencedirect_bipolar'' ''q'') :: llm_output py_result)"
    by simp
  have h2: "''search_sciencedirect_bipolar'' \<in> set (map tool_name (ag_tools (program_agent Map.empty)))"
    by (simp add: program_agent_def initialize_agent_def sciencedirect_tool_def)
  have h3: "\<forall>b. \<exists>s. fst (search_sciencedirect_bipolar (fixture_backend []) ''q'' b) = Inr s"
    by (simp add: search_sciencedirect_bipolar_def fixture_backend_def fetch_and_scrape_def
        quit_driver_def handle_exception_def Let_def scrape_page_def page_candidates_def soup_select_def)
  show ?thesis using h1 h2 h3 agent_stops_at_limit [where llm = "\<lambda>c ts inp steps. Inr (Act ''search_sciencedirect_bipolar'' ''q'')" and ag = "program_agent Map.empty" and inp = task_input, OF h1 h2 h3] by blast
qed

text \<open>
  C16 (error): with \<open>handle_parsing_errors\<close> left \<open>False\<close>, as
  \<open>initialize_agent\<close> leaves it for the program's agent, an LLM output the
  ReAct parser rejects, at whatever iteration, raises \<open>ValueError\<close> from
  \<open>agent.invoke\<close> and ends the run with the browser as it was.
\<close>

theorem agent_parse_error_raises:
  assumes "\<not> ag_handle_parsing_errors ag"
    and "agent_reach ag llm bk inp b st" and "agent_running ag st"
    and "llm (ag_llm ag) (ag_tools ag) inp (as_steps st) = Inr (Unparsable text obs)"
  shows "agent_invoke ag llm bk inp b = Some (Inl (parse_error text), as_browser st)"
proof -
  have "agent_step ag llm bk inp st = st\<lparr>as_outcome := Raised (parse_error text)\<rparr>"
    using assms(1,4) by (simp add: agent_step_def)
  with agent_reach_last [OF assms(2,3)] show ?thesis
    by (simp add: agent_running_def agent_invoke_def agent_result_def)
qed

text \<open>The parser rejects the LLM's output at the second iteration.\<close>

theorem agent_parse_error_raises_witness:
  "\<not> ag_handle_parsing_errors (program_agent Map.empty) \<and>
   agent_reach (program_agent Map.empty) (retry_llm (Unparsable ''I should search.'' None)) (fixture_backend []) task_input fresh_browser (agent_step (program_agent Map.empty) (retry_llm (Unparsable ''I should search.'' None)) (fixture_backend []) task_input (agent_start fresh_browser)) \<and>
   agent_running (program_agent Map.empty) (agent_step (program_agent Map.empty) (retry_llm (Unparsable ''I should search.'' None)) (fixture_backend []) task_input (agent_start fresh_browser)) \<and>
   (retry_llm (Unparsable ''I should search.'' None)) (ag_llm (program_agent Map.empty)) (ag_tools (program_agent Map.empty)) task_input
     (as_steps (agent_step (program_agent Map.empty) (retry_llm (Unparsable ''I should search.'' None)) (fixture_backend []) task_input (agent_start fresh_browser))) = Inr (Unparsable ''I should search.'' None) \<and>
   agent_invoke (program_agent Map.empty) (retry_llm (Unparsable ''I should search.'' None)) (fixture_backend []) task_input fresh_browser
     = Some (Inl (parse_error ''I should search.''), fresh_browser)"
proof -
  have h1: "\<not> ag_handle_parsing_errors (program_agent Map.empty)"
    by (simp add: program_agent_def initialize_agent_def)
  have r0: "agent_running (program_agent Map.empty) (agent_start fresh_browser)"
    by (simp add: agent_running_def agent_start_def program_agent_def initialize_agent_def)
  have h2: "agent_reach (program_agent Map.empty) (retry_llm (Unparsable ''I should search.'' None)) (fixture_backend []) task_input fresh_browser (agent_step (program_agent Map.empty) (retry_llm (Unparsable ''I should search.'' None)) (fixture_backend []) task_input (agent_start fresh_browser))"
    by (rule reach_step [OF reach_start r0])
  have st: "(agent_step (program_agent Map.empty) (retry_llm (Unparsable ''I should search.'' None)) (fixture_backend []) task_input (agent_start fresh_browser)) = (agent_start fresh_browser)\<lparr>as_steps := [(''lookup'', task_input, invalid_tool ''lookup'' [sciencedirect_tool])], as_iterations := 1\<rparr>"
    by (simp add: agent_step_def agent_start_def retry_llm_def program_agent_def initialize_agent_def sciencedirect_tool_def)
  have h3: "agent_running (program_agent Map.empty) (agent_step (program_agent Map.empty) (retry_llm (Unparsable ''I should search.'' None)) (fixture_backend []) task_input (agent_start fresh_browser))"
    unfolding st by (simp add: agent_running_def agent_start_def program_agent_def initialize_agent_def)
  have h4: "(retry_llm (Unparsable ''I should search.'' None)) (ag_llm (program_agent Map.empty)) (ag_tools (program_agent Map.empty)) task_input
     (as_steps (agent_step (program_agent Map.empty) (retry_llm (Unparsable ''I should search.'' None)) (fixture_backend []) task_input (agent_start fresh_browser))) = Inr (Unparsable ''I should search.'' None)"
    unfolding st by (simp add: retry_llm_def agent_start_def)
  have "as_browser (agent_step (program_agent Map.empty) (retry_llm (Unparsable ''I should search.'' None)) (fixture_backend []) task_input (agent_start fresh_browser)) = fresh_browser" unfolding st by (simp add: agent_start_def)
  then show ?thesis using h1 h2 h3 h4 agent_parse_error_raises [OF h1 h2 h3 h4] by simp
qed

end
