(* ===== verification/PyRepr.thy ===== *)
theory PyRepr
  imports Prelude
begin

text \<open>
  Line 115, \<open>print(response)\<close>: the response is the dictionary
  \<open>{"input": ..., "output": ...}\<close>, printed as its \<open>repr\<close>, in which each
  string is written as CPython's \<open>unicode_repr\<close> writes it (characters are
  code points 0 to 255): double quotes when the string has a single quote
  and no double quote, single quotes otherwise; the quote and the backslash
  escaped by a backslash; tab, newline and carriage return as a backslash
  and \<open>t\<close>, \<open>n\<close>, \<open>r\<close>; other characters that are not printable as a
  backslash, \<open>x\<close> and two hexadecimal digits.
\<close>

section \<open>Definitions\<close>

text \<open>A lower-case hexadecimal digit.\<close>

definition hex_digit :: "nat \<Rightarrow> char" where
  "hex_digit d = (if d < 10 then char_of (48 + d) else char_of (87 + d))"

text \<open>\<open>Py_UNICODE_ISPRINTABLE\<close> below 256: not a control, not a separator but the space, not the soft hyphen.\<close>

definition py_printable :: "char \<Rightarrow> bool" where
  "py_printable c = (let n = (of_char c :: nat) in (32 \<le> n \<and> n < 127) \<or> (161 \<le> n \<and> n \<noteq> 173))"

text \<open>One character inside quotes \<open>q\<close>.\<close>

definition repr_char :: "char \<Rightarrow> char \<Rightarrow> string" where
  "repr_char q c =
     (let n = (of_char c :: nat) in
      if c = q \<or> c = CHR 0x5C then [CHR 0x5C, c]
      else if c = CHR 0x09 then [CHR 0x5C, CHR ''t'']
      else if c = CHR 0x0A then [CHR 0x5C, CHR ''n'']
      else if c = CHR 0x0D then [CHR 0x5C, CHR ''r'']
      else if py_printable c then [c]
      else [CHR 0x5C, CHR ''x'', hex_digit (n div 16), hex_digit (n mod 16)])"

text \<open>\<open>repr(s)\<close>, with the choice of quotes.\<close>

definition py_repr_str :: "string \<Rightarrow> string" where
  "py_repr_str s =
     (let q = (if CHR 0x27 \<in> set s \<and> CHR 0x22 \<notin> set s then CHR 0x22 else CHR 0x27)
      in q # concat (map (repr_char q) s) @ [q])"

text \<open>\<open>print\<close> of the response dictionary: its \<open>repr\<close> and a newline.\<close>

definition print_response :: "string \<times> string \<Rightarrow> string" where
  "print_response r =
     (case r of (inp, out) \<Rightarrow>
        ''{'' @ py_repr_str ''input'' @ '': '' @ py_repr_str inp @ '', '' @
        py_repr_str ''output'' @ '': '' @ py_repr_str out @ ''}'' @ [CHR 0x0A])"

section \<open>Lemmas\<close>

lemma hex_digit_printable: "d < 16 \<Longrightarrow> py_printable (hex_digit d)"
  by (simp add: hex_digit_def py_printable_def)

text \<open>Each character is written with printable characters only.\<close>

lemma repr_char_printable:
  assumes "py_printable q"
  shows "list_all py_printable (repr_char q c)"
proof -
  let ?n = "of_char c :: nat"
  have "?n < 256" by simp
  then have "?n div 16 < 16" by (simp add: less_mult_imp_div_less)
  then show ?thesis
    using assms hex_digit_printable [of "?n div 16"] hex_digit_printable [of "?n mod 16"]
    by (auto simp: repr_char_def Let_def py_printable_def)
qed

lemma py_repr_str_printable: "list_all py_printable (py_repr_str s)"
proof -
  let ?q = "if CHR 0x27 \<in> set s \<and> CHR 0x22 \<notin> set s then CHR 0x22 else CHR 0x27"
  have q: "py_printable ?q" by (simp add: py_printable_def)
  then have "list_all py_printable (concat (map (repr_char ?q) s))"
    using repr_char_printable [OF q] by (simp add: list_all_iff)
  with q show ?thesis by (simp add: py_repr_str_def Let_def)
qed

section \<open>Properties\<close>

text \<open>
  C32 (safety): \<open>print(response)\<close> writes exactly one line of printable
  characters, whatever the input and the answer hold: newlines, carriage
  returns, escape sequences and other control characters of a scraped title
  are escaped by \<open>repr\<close>, so the response cannot break the output or
  drive the terminal.
\<close>

theorem print_response_one_line:
  "\<exists>l. print_response r = l @ [CHR 0x0A] \<and> list_all py_printable l \<and> CHR 0x0A \<notin> set l"
proof -
  obtain inp out where r: "r = (inp, out)" by (cases r)
  let ?l = "''{'' @ py_repr_str ''input'' @ '': '' @ py_repr_str inp @ '', '' @
            py_repr_str ''output'' @ '': '' @ py_repr_str out @ ''}''"
  have p: "list_all py_printable ?l"
    by (simp add: py_repr_str_printable) (simp add: py_printable_def)
  moreover have "\<not> py_printable (CHR 0x0A)" by (simp add: py_printable_def)
  ultimately have "CHR 0x0A \<notin> set ?l" by (auto simp: list_all_iff)
  with p show ?thesis by (intro exI [of _ ?l]) (simp add: print_response_def r)
qed

end
