(* ===== verification/HtmlLex.thy ===== *)
theory HtmlLex
  imports Html PyInt
begin

text \<open>
  The tokenizer of Python's \<open>html.parser.HTMLParser\<close> on the subset of
  markup the model covers: start tags \<open>[a-zA-Z][-.a-zA-Z0-9:_]*\<close> with
  attributes separated by ASCII whitespace, each a name of ASCII characters
  with an optional value in double quotes, single quotes or unquoted;
  \<open>/>\<close>; end tags \<open></name>\<close>; comments and \<open><!doctype ...>\<close>; text;
  character references in text and values, as far as \<open>unescape\<close> covers
  them.  A lexer returns \<open>None\<close> on markup outside the subset: the
  character references \<open>unescape\<close> does not cover, processing
  instructions, other declarations, attribute syntax of other shapes,
  raw-text content that current and older Pythons read differently, and
  \<open>plaintext\<close> (\<open>special_tags\<close>).  The content of \<open>script\<close>, \<open>style\<close>,
  \<open>title\<close> and the other raw-text elements is read up to its end tag
  (\<open>lex_element\<close>).  Names are lowered as \<open>str.lower\<close> does on ASCII.
\<close>

section \<open>Characters of the markup\<close>

definition ascii_letter :: "char \<Rightarrow> bool" where
  "ascii_letter c = (let n = (of_char c :: nat) in (65 \<le> n \<and> n \<le> 90) \<or> (97 \<le> n \<and> n \<le> 122))"

definition ascii_upper :: "char \<Rightarrow> bool" where
  "ascii_upper c = (let n = (of_char c :: nat) in 65 \<le> n \<and> n \<le> 90)"

definition to_lower :: "char \<Rightarrow> char" where
  "to_lower c = (if ascii_upper c then char_of ((of_char c :: nat) + 32) else c)"

definition name_char :: "char \<Rightarrow> bool" where
  "name_char c = (ascii_letter c \<or> is_digit c \<or> c \<in> set ''-.:_'')"

definition tag_ws :: "char \<Rightarrow> bool" where
  "tag_ws c = (c \<in> set [CHR '' '', CHR 0x09, CHR 0x0A, CHR 0x0C, CHR 0x0D])"

definition attr_name_char :: "char \<Rightarrow> bool" where
  "attr_name_char c =
     ((of_char c :: nat) < 128 \<and> \<not> py_isspace c \<and> c \<notin> set ''/>=<&'' \<and> c \<noteq> CHR 0x22 \<and> c \<noteq> CHR 0x27)"

definition unquoted_char :: "char \<Rightarrow> bool" where
  "unquoted_char c = (\<not> py_isspace c \<and> c \<notin> set ''>=<`'' \<and> c \<noteq> CHR 0x22 \<and> c \<noteq> CHR 0x27)"

definition text_char :: "char \<Rightarrow> bool" where
  "text_char c = (c \<noteq> CHR ''<'')"

section \<open>Character references\<close>

text \<open>
  \<open>html.unescape\<close>, which \<open>HTMLParser\<close> applies to text (with
  \<open>convert_charrefs=True\<close>) and to attribute values.  It rewrites each
  match of \<open>&(#[0-9]+;?|#[xX][0-9a-fA-F]+;?|[^\t\n\f <&#;]{1,32};?)\<close> and
  leaves an \<open>&\<close> that starts no match as it is.  A numeric reference is
  read with \<open>int()\<close> (a decimal one is subject to the digit limit, a
  hexadecimal one is not); a named reference is looked up in the HTML5 table.
  The model is \<open>None\<close> where the result is outside it: a code point above
  U+00FF (including the Windows-1252 replacements of 0x80 to 0x9F and
  U+FFFD), a reference that \<open>unescape\<close> deletes (a text made only of such
  references would reach bs4 as an empty string, which \<open>endData\<close> turns
  into a space), and a name followed by a semicolon that is not in
  \<open>named_refs\<close> (it is either one of the names valued above U+00FF or no
  name, and only the whole table tells them apart).  A name without its
  semicolon is modelled exactly: the table's entries without a semicolon
  are the legacy names, and \<open>_replace_charref\<close> replaces the longest of
  them that starts the name, or leaves the text as it is.
\<close>

definition is_hex :: "char \<Rightarrow> bool" where
  "is_hex c = (is_digit c \<or> c \<in> set ''abcdefABCDEF'')"

definition hex_val :: "char \<Rightarrow> nat" where
  "hex_val c =
     (if is_digit c then digit_val c
      else if c \<in> set ''abcdef'' then of_char c - 87 else of_char c - 55)"

definition hex_value :: "string \<Rightarrow> nat" where
  "hex_value s = foldl (\<lambda>a c. 16 * a + hex_val c) 0 s"

definition charref_name_char :: "char \<Rightarrow> bool" where
  "charref_name_char c = (c \<notin> set [CHR 0x09, CHR 0x0A, CHR 0x0C, CHR '' '', CHR ''<'', CHR ''&'', CHR ''#'', CHR '';''])"

text \<open>
  The entries of \<open>html.entities.html5\<close> written with their semicolon whose
  value lies in U+0000 to U+00FF (159 of the 2125), without the semicolon.
\<close>

definition named_refs :: "(string \<times> string) list" where
  "named_refs = [
     (''AElig'', [CHR 0xC6]), (''AMP'', [CHR ''&'']), (''Aacute'', [CHR 0xC1]), (''Acirc'', [CHR 0xC2]),
     (''Agrave'', [CHR 0xC0]), (''Aring'', [CHR 0xC5]), (''Atilde'', [CHR 0xC3]),
     (''Auml'', [CHR 0xC4]), (''COPY'', [CHR 0xA9]), (''Ccedil'', [CHR 0xC7]),
     (''Cedilla'', [CHR 0xB8]), (''CenterDot'', [CHR 0xB7]), (''DiacriticalAcute'', [CHR 0xB4]),
     (''DiacriticalGrave'', [CHR 0x60]), (''Dot'', [CHR 0xA8]), (''DoubleDot'', [CHR 0xA8]),
     (''ETH'', [CHR 0xD0]), (''Eacute'', [CHR 0xC9]), (''Ecirc'', [CHR 0xCA]), (''Egrave'', [CHR 0xC8]),
     (''Euml'', [CHR 0xCB]), (''GT'', [CHR ''>'']), (''Hat'', [CHR ''^'']), (''Iacute'', [CHR 0xCD]),
     (''Icirc'', [CHR 0xCE]), (''Igrave'', [CHR 0xCC]), (''Iuml'', [CHR 0xCF]), (''LT'', [CHR ''<'']),
     (''NewLine'', [CHR 0x0A]), (''NonBreakingSpace'', [CHR 0xA0]), (''Ntilde'', [CHR 0xD1]),
     (''Oacute'', [CHR 0xD3]), (''Ocirc'', [CHR 0xD4]), (''Ograve'', [CHR 0xD2]),
     (''Oslash'', [CHR 0xD8]), (''Otilde'', [CHR 0xD5]), (''Ouml'', [CHR 0xD6]),
     (''PlusMinus'', [CHR 0xB1]), (''QUOT'', [CHR 0x22]), (''REG'', [CHR 0xAE]),
     (''THORN'', [CHR 0xDE]), (''Tab'', [CHR 0x09]), (''Uacute'', [CHR 0xDA]), (''Ucirc'', [CHR 0xDB]),
     (''Ugrave'', [CHR 0xD9]), (''UnderBar'', [CHR ''_'']), (''Uuml'', [CHR 0xDC]),
     (''VerticalLine'', [CHR ''|'']), (''Yacute'', [CHR 0xDD]), (''aacute'', [CHR 0xE1]),
     (''acirc'', [CHR 0xE2]), (''acute'', [CHR 0xB4]), (''aelig'', [CHR 0xE6]),
     (''agrave'', [CHR 0xE0]), (''amp'', [CHR ''&'']), (''angst'', [CHR 0xC5]), (''apos'', [CHR 0x27]),
     (''aring'', [CHR 0xE5]), (''ast'', [CHR ''*'']), (''atilde'', [CHR 0xE3]), (''auml'', [CHR 0xE4]),
     (''brvbar'', [CHR 0xA6]), (''bsol'', [CHR 0x5C]), (''ccedil'', [CHR 0xE7]),
     (''cedil'', [CHR 0xB8]), (''cent'', [CHR 0xA2]), (''centerdot'', [CHR 0xB7]),
     (''circledR'', [CHR 0xAE]), (''colon'', [CHR '':'']), (''comma'', [CHR '','']),
     (''commat'', [CHR ''@'']), (''copy'', [CHR 0xA9]), (''curren'', [CHR 0xA4]), (''deg'', [CHR 0xB0]),
     (''die'', [CHR 0xA8]), (''div'', [CHR 0xF7]), (''divide'', [CHR 0xF7]), (''dollar'', [CHR ''$'']),
     (''eacute'', [CHR 0xE9]), (''ecirc'', [CHR 0xEA]), (''egrave'', [CHR 0xE8]),
     (''equals'', [CHR ''='']), (''eth'', [CHR 0xF0]), (''euml'', [CHR 0xEB]), (''excl'', [CHR ''!'']),
     (''fjlig'', [CHR ''f'', CHR ''j'']), (''frac12'', [CHR 0xBD]), (''frac14'', [CHR 0xBC]),
     (''frac34'', [CHR 0xBE]), (''grave'', [CHR 0x60]), (''gt'', [CHR ''>'']), (''half'', [CHR 0xBD]),
     (''iacute'', [CHR 0xED]), (''icirc'', [CHR 0xEE]), (''iexcl'', [CHR 0xA1]),
     (''igrave'', [CHR 0xEC]), (''iquest'', [CHR 0xBF]), (''iuml'', [CHR 0xEF]),
     (''laquo'', [CHR 0xAB]), (''lbrace'', [CHR ''{'']), (''lbrack'', [CHR ''['']),
     (''lcub'', [CHR ''{'']), (''lowbar'', [CHR ''_'']), (''lpar'', [CHR ''('']),
     (''lsqb'', [CHR ''['']), (''lt'', [CHR ''<'']), (''macr'', [CHR 0xAF]), (''micro'', [CHR 0xB5]),
     (''midast'', [CHR ''*'']), (''middot'', [CHR 0xB7]), (''nbsp'', [CHR 0xA0]), (''not'', [CHR 0xAC]),
     (''ntilde'', [CHR 0xF1]), (''num'', [CHR ''#'']), (''oacute'', [CHR 0xF3]),
     (''ocirc'', [CHR 0xF4]), (''ograve'', [CHR 0xF2]), (''ordf'', [CHR 0xAA]), (''ordm'', [CHR 0xBA]),
     (''oslash'', [CHR 0xF8]), (''otilde'', [CHR 0xF5]), (''ouml'', [CHR 0xF6]), (''para'', [CHR 0xB6]),
     (''percnt'', [CHR ''%'']), (''period'', [CHR ''.'']), (''plus'', [CHR ''+'']),
     (''plusmn'', [CHR 0xB1]), (''pm'', [CHR 0xB1]), (''pound'', [CHR 0xA3]), (''quest'', [CHR ''?'']),
     (''quot'', [CHR 0x22]), (''raquo'', [CHR 0xBB]), (''rbrace'', [CHR ''}'']),
     (''rbrack'', [CHR '']'']), (''rcub'', [CHR ''}'']), (''reg'', [CHR 0xAE]), (''rpar'', [CHR '')'']),
     (''rsqb'', [CHR '']'']), (''sect'', [CHR 0xA7]), (''semi'', [CHR '';'']), (''shy'', [CHR 0xAD]),
     (''sol'', [CHR ''/'']), (''strns'', [CHR 0xAF]), (''sup1'', [CHR 0xB9]), (''sup2'', [CHR 0xB2]),
     (''sup3'', [CHR 0xB3]), (''szlig'', [CHR 0xDF]), (''thorn'', [CHR 0xFE]), (''times'', [CHR 0xD7]),
     (''uacute'', [CHR 0xFA]), (''ucirc'', [CHR 0xFB]), (''ugrave'', [CHR 0xF9]), (''uml'', [CHR 0xA8]),
     (''uuml'', [CHR 0xFC]), (''verbar'', [CHR ''|'']), (''vert'', [CHR ''|'']),
     (''yacute'', [CHR 0xFD]), (''yen'', [CHR 0xA5]), (''yuml'', [CHR 0xFF])]"

text \<open>
  The entries of \<open>html.entities.html5\<close> without a semicolon (the legacy
  names, all 106 of them, all valued in U+0000 to U+00FF).
\<close>

definition legacy_refs :: "(string \<times> string) list" where
  "legacy_refs = [
     (''AElig'', [CHR 0xC6]), (''AMP'', [CHR ''&'']), (''Aacute'', [CHR 0xC1]), (''Acirc'', [CHR 0xC2]),
     (''Agrave'', [CHR 0xC0]), (''Aring'', [CHR 0xC5]), (''Atilde'', [CHR 0xC3]),
     (''Auml'', [CHR 0xC4]), (''COPY'', [CHR 0xA9]), (''Ccedil'', [CHR 0xC7]), (''ETH'', [CHR 0xD0]),
     (''Eacute'', [CHR 0xC9]), (''Ecirc'', [CHR 0xCA]), (''Egrave'', [CHR 0xC8]),
     (''Euml'', [CHR 0xCB]), (''GT'', [CHR ''>'']), (''Iacute'', [CHR 0xCD]), (''Icirc'', [CHR 0xCE]),
     (''Igrave'', [CHR 0xCC]), (''Iuml'', [CHR 0xCF]), (''LT'', [CHR ''<'']), (''Ntilde'', [CHR 0xD1]),
     (''Oacute'', [CHR 0xD3]), (''Ocirc'', [CHR 0xD4]), (''Ograve'', [CHR 0xD2]),
     (''Oslash'', [CHR 0xD8]), (''Otilde'', [CHR 0xD5]), (''Ouml'', [CHR 0xD6]), (''QUOT'', [CHR 0x22]),
     (''REG'', [CHR 0xAE]), (''THORN'', [CHR 0xDE]), (''Uacute'', [CHR 0xDA]), (''Ucirc'', [CHR 0xDB]),
     (''Ugrave'', [CHR 0xD9]), (''Uuml'', [CHR 0xDC]), (''Yacute'', [CHR 0xDD]),
     (''aacute'', [CHR 0xE1]), (''acirc'', [CHR 0xE2]), (''acute'', [CHR 0xB4]),
     (''aelig'', [CHR 0xE6]), (''agrave'', [CHR 0xE0]), (''amp'', [CHR ''&'']), (''aring'', [CHR 0xE5]),
     (''atilde'', [CHR 0xE3]), (''auml'', [CHR 0xE4]), (''brvbar'', [CHR 0xA6]),
     (''ccedil'', [CHR 0xE7]), (''cedil'', [CHR 0xB8]), (''cent'', [CHR 0xA2]), (''copy'', [CHR 0xA9]),
     (''curren'', [CHR 0xA4]), (''deg'', [CHR 0xB0]), (''divide'', [CHR 0xF7]),
     (''eacute'', [CHR 0xE9]), (''ecirc'', [CHR 0xEA]), (''egrave'', [CHR 0xE8]), (''eth'', [CHR 0xF0]),
     (''euml'', [CHR 0xEB]), (''frac12'', [CHR 0xBD]), (''frac14'', [CHR 0xBC]),
     (''frac34'', [CHR 0xBE]), (''gt'', [CHR ''>'']), (''iacute'', [CHR 0xED]), (''icirc'', [CHR 0xEE]),
     (''iexcl'', [CHR 0xA1]), (''igrave'', [CHR 0xEC]), (''iquest'', [CHR 0xBF]),
     (''iuml'', [CHR 0xEF]), (''laquo'', [CHR 0xAB]), (''lt'', [CHR ''<'']), (''macr'', [CHR 0xAF]),
     (''micro'', [CHR 0xB5]), (''middot'', [CHR 0xB7]), (''nbsp'', [CHR 0xA0]), (''not'', [CHR 0xAC]),
     (''ntilde'', [CHR 0xF1]), (''oacute'', [CHR 0xF3]), (''ocirc'', [CHR 0xF4]),
     (''ograve'', [CHR 0xF2]), (''ordf'', [CHR 0xAA]), (''ordm'', [CHR 0xBA]), (''oslash'', [CHR 0xF8]),
     (''otilde'', [CHR 0xF5]), (''ouml'', [CHR 0xF6]), (''para'', [CHR 0xB6]), (''plusmn'', [CHR 0xB1]),
     (''pound'', [CHR 0xA3]), (''quot'', [CHR 0x22]), (''raquo'', [CHR 0xBB]), (''reg'', [CHR 0xAE]),
     (''sect'', [CHR 0xA7]), (''shy'', [CHR 0xAD]), (''sup1'', [CHR 0xB9]), (''sup2'', [CHR 0xB2]),
     (''sup3'', [CHR 0xB3]), (''szlig'', [CHR 0xDF]), (''thorn'', [CHR 0xFE]), (''times'', [CHR 0xD7]),
     (''uacute'', [CHR 0xFA]), (''ucirc'', [CHR 0xFB]), (''ugrave'', [CHR 0xF9]), (''uml'', [CHR 0xA8]),
     (''uuml'', [CHR 0xFC]), (''yacute'', [CHR 0xFD]), (''yen'', [CHR 0xA5]), (''yuml'', [CHR 0xFF])]"

text \<open>
  The longest legacy name that is a prefix of \<open>s\<close>, with its value and
  length: \<open>_replace_charref\<close> tries \<open>s\<close> itself and then its prefixes
  from the longest down to two characters.
\<close>

definition legacy_match :: "string \<Rightarrow> (string \<times> nat) option" where
  "legacy_match s =
     (case find (\<lambda>x. map_of legacy_refs (take x s) \<noteq> None) (rev [2..<Suc (length s)]) of
        None \<Rightarrow> None
      | Some x \<Rightarrow> map_option (\<lambda>v. (v, x)) (map_of legacy_refs (take x s)))"

text \<open>
  \<open>_replace_charref\<close> on a code point: \<open>_invalid_charrefs\<close>, then the
  surrogates and the values above U+10FFFF, then \<open>_invalid_codepoints\<close>,
  then \<open>chr\<close>.
\<close>

definition numeric_ref :: "nat \<Rightarrow> string option" where
  "numeric_ref n =
     (if n \<in> {0x0D, 0x81, 0x8D, 0x8F, 0x90, 0x9D} then Some [char_of n]
      else if n = 0 \<or> (0x80 \<le> n \<and> n \<le> 0x9F) then None
      else if (1 \<le> n \<and> n \<le> 8) \<or> n = 0x0B \<or> (0x0E \<le> n \<and> n \<le> 0x1F) \<or> n = 0x7F then None
      else if n \<le> 0xFF then Some [char_of n]
      else None)"

definition skip_semi :: "string \<Rightarrow> string" where
  "skip_semi s = (if s \<noteq> [] \<and> hd s = CHR '';'' then tl s else s)"

function unescape :: "string \<Rightarrow> string option" where
  "unescape s =
     (case s of
        [] \<Rightarrow> Some []
      | c # r \<Rightarrow>
          if c \<noteq> CHR ''&'' then map_option (Cons c) (unescape r)
          else (case r of
                  [] \<Rightarrow> Some ''&''
                | d # r2 \<Rightarrow>
                    if d = CHR ''#'' then
                      (case r2 of
                         [] \<Rightarrow> map_option (Cons c) (unescape r)
                       | e # r3 \<Rightarrow>
                           if is_digit e then
                             (case py_int (takeWhile is_digit r2) of
                                Inl _ \<Rightarrow> None
                              | Inr k \<Rightarrow>
                                  (case numeric_ref (nat k) of
                                     None \<Rightarrow> None
                                   | Some t \<Rightarrow> map_option ((@) t) (unescape (skip_semi (dropWhile is_digit r2)))))
                           else if (e = CHR ''x'' \<or> e = CHR ''X'') \<and> r3 \<noteq> [] \<and> is_hex (hd r3) then
                             (case numeric_ref (hex_value (takeWhile is_hex r3)) of
                                None \<Rightarrow> None
                              | Some t \<Rightarrow> map_option ((@) t) (unescape (skip_semi (dropWhile is_hex r3))))
                           else map_option (Cons c) (unescape r))
                    else if charref_name_char d then
                      (let nm = takeWhile charref_name_char r; r4 = dropWhile charref_name_char r
                       in if r4 \<noteq> [] \<and> hd r4 = CHR '';'' \<and> length nm \<le> 32 then
                            (case map_of named_refs nm of None \<Rightarrow> None | Some t \<Rightarrow> map_option ((@) t) (unescape (tl r4)))
                          else (case legacy_match (take 32 nm) of
                                  None \<Rightarrow> map_option (Cons c) (unescape r)
                                | Some (t, x) \<Rightarrow> map_option ((@) t) (unescape (drop x r))))
                    else map_option (Cons c) (unescape r)))"
  by pat_completeness auto
termination
  by (relation "measure length")
     (auto simp: skip_semi_def less_Suc_eq_le intro!: le_trans [OF diff_le_self] le_SucI length_dropWhile_le)

declare unescape.simps [simp del]

section \<open>Tokens\<close>

datatype html_token =
    StartTag string attrs
  | StartEndTag string attrs
  | EndTag string
  | DataTok string
  | SkipTok

text \<open>
  Elements whose content the parser does not read as markup.
  \<open>script\<close> and \<open>style\<close> are \<open>CDATA_CONTENT_ELEMENTS\<close>: their content
  is raw text up to their end tag.  Newer Pythons also read \<open>xmp\<close>,
  \<open>iframe\<close>, \<open>noembed\<close>, \<open>noframes\<close> as raw text and \<open>title\<close>,
  \<open>textarea\<close> as text with references, where older ones parse their
  content as markup; the model takes the content that all of them read
  alike: no \<open><\<close> before the end tag, and for the raw-text four no
  \<open>&\<close>.  \<open>plaintext\<close> (everything after it is text in newer
  Pythons) is outside the model.
\<close>

definition cdata_tags :: "string list" where
  "cdata_tags = [''script'', ''style'']"

definition rawtext_tags :: "string list" where
  "rawtext_tags = [''xmp'', ''iframe'', ''noembed'', ''noframes'']"

definition rcdata_tags :: "string list" where
  "rcdata_tags = [''title'', ''textarea'']"

definition raw_text_tags :: "string list" where
  "raw_text_tags = cdata_tags @ rawtext_tags @ rcdata_tags"

definition special_tags :: "string list" where
  "special_tags = [''plaintext'']"

section \<open>The tokenizer\<close>

definition lex_value :: "string \<Rightarrow> (string \<times> string) option" where
  "lex_value v =
     (case v of
        q # t \<Rightarrow>
          if q = CHR 0x22 \<or> q = CHR 0x27 then
            (case dropWhile (\<lambda>c. c \<noteq> q) t of
               _ # r \<Rightarrow> map_option (\<lambda>body. (body, r)) (unescape (takeWhile (\<lambda>c. c \<noteq> q) t))
             | [] \<Rightarrow> None)
          else if unquoted_char q then
            map_option (\<lambda>body. (body, dropWhile unquoted_char v)) (unescape (takeWhile unquoted_char v))
          else None
      | [] \<Rightarrow> None)"

definition lex_attr :: "string \<Rightarrow> ((string \<times> string) \<times> string) option" where
  "lex_attr s =
     (let name = takeWhile attr_name_char s; r = dropWhile attr_name_char s
      in if name = [] then None
         else case r of
                c # v \<Rightarrow> if c = CHR ''='' then map_option (\<lambda>(val, r'). ((map to_lower name, val), r')) (lex_value v)
                         else Some ((map to_lower name, ''''), r)
              | [] \<Rightarrow> Some ((map to_lower name, ''''), r))"

function lex_attrs :: "string \<Rightarrow> (attrs \<times> bool \<times> string) option" where
  "lex_attrs s =
     (case s of
        [] \<Rightarrow> None
      | c # r \<Rightarrow>
          if c = CHR ''>'' then Some ([], False, r)
          else if c = CHR ''/'' then (case r of d # r' \<Rightarrow> if d = CHR ''>'' then Some ([], True, r') else None | [] \<Rightarrow> None)
          else if tag_ws c then
            (let r1 = dropWhile tag_ws r in
             case r1 of
               [] \<Rightarrow> None
             | d # r2 \<Rightarrow>
                 if d = CHR ''>'' \<or> d = CHR ''/'' then lex_attrs r1
                 else (case lex_attr r1 of
                         None \<Rightarrow> None
                       | Some (a, r3) \<Rightarrow> map_option (\<lambda>(as, sc, r4). (a # as, sc, r4)) (lex_attrs r3)))
          else None)"
  by pat_completeness auto
termination
proof (relation "measure length", simp_all add: le_imp_less_Suc length_dropWhile_le)
  fix x22 :: string and x2 a r3
  assume la: "lex_attr (dropWhile tag_ws x22) = Some x2" and x: "(a, r3) = x2"
  define r1 where "r1 = dropWhile tag_ws x22"
  from la x have la: "lex_attr r1 = Some (a, r3)" by (simp add: r1_def)
  have lv: "length r' \<le> length v" if lv: "lex_value v = Some (b, r')" for v b r'
  proof (cases v)
    case Nil
    with lv show ?thesis by (simp add: lex_value_def)
  next
    case (Cons q t)
    show ?thesis
    proof (cases "q = CHR 0x22 \<or> q = CHR 0x27")
      case True
      with lv Cons obtain e where "dropWhile (\<lambda>c. c \<noteq> q) t = e # r'"
        by (auto simp: lex_value_def Let_def split: list.split_asm if_split_asm)
      then have "length (e # r') \<le> length t" by (metis length_dropWhile_le)
      with Cons show ?thesis by simp
    next
      case False
      with lv Cons have "r' = dropWhile unquoted_char v"
        by (auto simp: lex_value_def split: if_split_asm)
      then show ?thesis by (simp add: length_dropWhile_le)
    qed
  qed
  have "length r3 \<le> length (dropWhile attr_name_char r1)"
  proof (cases "dropWhile attr_name_char r1")
    case Nil
    with la show ?thesis by (auto simp: lex_attr_def Let_def split: if_split_asm)
  next
    case (Cons e v)
    show ?thesis
    proof (cases "e = CHR ''=''")
      case True
      with la Cons obtain b where "lex_value v = Some (b, r3)"
        by (auto simp: lex_attr_def Let_def split: if_split_asm)
      with Cons show ?thesis using lv by fastforce
    next
      case False
      with la Cons have "r3 = dropWhile attr_name_char r1"
        by (auto simp: lex_attr_def Let_def split: if_split_asm)
      then show ?thesis by simp
    qed
  qed
  then have "length r3 \<le> length r1" using length_dropWhile_le le_trans by blast
  also have "length r1 \<le> length x22" by (simp add: r1_def length_dropWhile_le)
  finally show "length r3 < Suc (length x22)" by simp
qed

declare lex_attrs.simps [simp del]

definition lex_start :: "string \<Rightarrow> (html_token \<times> string) option" where
  "lex_start s =
     (let name = map to_lower (takeWhile name_char s); r = dropWhile name_char s
      in if name \<in> set special_tags then None
         else map_option (\<lambda>(as, sc, r'). (if sc then StartEndTag name as else StartTag name as, r')) (lex_attrs r))"

text \<open>
  The content of a raw-text element \<open>n\<close> up to its end tag, which must be
  \<open></n>\<close> (in any case): the data token, when the content is not
  empty, and the end tag.
\<close>

definition raw_data :: "string \<Rightarrow> string \<Rightarrow> string option" where
  "raw_data n body =
     (if n \<in> set rcdata_tags then unescape body
      else if n \<in> set rawtext_tags \<and> CHR ''&'' \<in> set body then None
      else Some body)"

definition lex_raw :: "string \<Rightarrow> string \<Rightarrow> (html_token list \<times> string) option" where
  "lex_raw n s =
     (let body = takeWhile (\<lambda>c. c \<noteq> CHR ''<'') s; after = dropWhile (\<lambda>c. c \<noteq> CHR ''<'') s
      in if take 2 after = ''</'' \<and> map to_lower (take (length n) (drop 2 after)) = n \<and>
            take 1 (drop (length n + 2) after) = ''>''
         then map_option (\<lambda>d. ((if d = [] then [] else [DataTok d]) @ [EndTag n], drop (length n + 3) after))
                (raw_data n body)
         else None)"

text \<open>
  \<open>parse_starttag\<close> with \<open>set_cdata_mode\<close>: a start tag, and for a
  raw-text element its content and end tag; \<open><script/>\<close> and the like,
  which Python versions read differently, are outside the model.
\<close>

definition lex_element :: "string \<Rightarrow> (html_token list \<times> string) option" where
  "lex_element s =
     (case lex_start s of
        None \<Rightarrow> None
      | Some (tok, rest) \<Rightarrow>
          (case tok of
             StartTag n a \<Rightarrow>
               if n \<in> set raw_text_tags then map_option (\<lambda>(ts, r'). (tok # ts, r')) (lex_raw n rest)
               else Some ([tok], rest)
           | StartEndTag n a \<Rightarrow> if n \<in> set raw_text_tags then None else Some ([tok], rest)
           | _ \<Rightarrow> Some ([tok], rest)))"

definition lex_end :: "string \<Rightarrow> (html_token \<times> string) option" where
  "lex_end s =
     (let name = map to_lower (takeWhile name_char s); r = dropWhile tag_ws (dropWhile name_char s)
      in case r of c # r' \<Rightarrow> if c = CHR ''>'' then Some (EndTag name, r') else None | [] \<Rightarrow> None)"


fun split_dashes :: "string \<Rightarrow> (string \<times> string) option" where
  "split_dashes (a # b # r) =
     (if a = CHR ''-'' \<and> b = CHR ''-'' then Some ([], r)
      else map_option (\<lambda>(x, y). (a # x, y)) (split_dashes (b # r)))"
| "split_dashes _ = None"

definition lex_comment :: "string \<Rightarrow> (html_token \<times> string) option" where
  "lex_comment t =
     (if take 1 t = ''>'' \<or> take 2 t = ''->'' then None
      else case split_dashes t of
             Some (body, c # r) \<Rightarrow> if c = CHR ''>'' then Some (SkipTok, r) else None
           | _ \<Rightarrow> None)"

definition lex_doctype :: "string \<Rightarrow> (html_token \<times> string) option" where
  "lex_doctype t =
     (case dropWhile (\<lambda>c. c \<noteq> CHR ''>'') t of
        _ # r \<Rightarrow> Some (SkipTok, r)
      | [] \<Rightarrow> None)"

definition lex_bang :: "string \<Rightarrow> (html_token \<times> string) option" where
  "lex_bang t =
     (if take 2 t = ''--'' then lex_comment (drop 2 t)
      else if map to_lower (take 7 t) = ''doctype'' then lex_doctype (drop 7 t)
      else None)"


section \<open>Each lexer consumes input\<close>

lemma lex_value_len:
  assumes lv: "lex_value v = Some (b, r')"
  shows "length r' \<le> length v"
proof (cases v)
  case Nil
  with lv show ?thesis by (simp add: lex_value_def)
next
  case (Cons q t)
  show ?thesis
  proof (cases "q = CHR 0x22 \<or> q = CHR 0x27")
    case True
    with lv Cons obtain e where "dropWhile (\<lambda>c. c \<noteq> q) t = e # r'"
      by (auto simp: lex_value_def Let_def split: list.split_asm if_split_asm)
    then have "length (e # r') \<le> length t" by (metis length_dropWhile_le)
    with Cons show ?thesis by simp
  next
    case False
    with lv Cons have "r' = dropWhile unquoted_char v"
      by (auto simp: lex_value_def split: if_split_asm)
    then show ?thesis by (simp add: length_dropWhile_le)
  qed
qed

lemma lex_attr_len:
  assumes la: "lex_attr s = Some (a, r3)"
  shows "length r3 < length s"
proof -
  have ne: "takeWhile attr_name_char s \<noteq> []" using la by (auto simp: lex_attr_def Let_def)
  then have short: "length (dropWhile attr_name_char s) < length s"
    by (metis append_Nil length_append length_greater_0_conv less_add_same_cancel2 takeWhile_dropWhile_id)
  have "length r3 \<le> length (dropWhile attr_name_char s)"
  proof (cases "dropWhile attr_name_char s")
    case Nil
    with la show ?thesis by (auto simp: lex_attr_def Let_def split: if_split_asm)
  next
    case (Cons e v)
    show ?thesis
    proof (cases "e = CHR ''=''")
      case True
      with la Cons obtain b where "lex_value v = Some (b, r3)"
        by (auto simp: lex_attr_def Let_def split: if_split_asm)
      with Cons show ?thesis using lex_value_len by fastforce
    next
      case False
      with la Cons have "r3 = dropWhile attr_name_char s"
        by (auto simp: lex_attr_def Let_def split: if_split_asm)
      then show ?thesis by simp
    qed
  qed
  with short show ?thesis by simp
qed

lemma lex_attrs_len: "lex_attrs x = Some (as, sc, y) \<Longrightarrow> length y < length x"
proof (induction x arbitrary: as sc y rule: lex_attrs.induct)
  case (1 s)
  show ?case
  proof (cases s)
    case Nil
    with "1.prems" show ?thesis by (simp add: lex_attrs.simps)
  next
    case (Cons c r)
    have r1: "length (dropWhile tag_ws r) < length s"
      using Cons by (simp add: le_imp_less_Suc length_dropWhile_le)
    show ?thesis
    proof (cases "c = CHR ''>'' \<or> c = CHR ''/''")
      case True
      with "1.prems" Cons show ?thesis
        by (auto simp: lex_attrs.simps split: list.split_asm if_split_asm)
    next
      case nc: False
      show ?thesis
      proof (cases "tag_ws c")
        case False
        with nc "1.prems" Cons show ?thesis by (simp add: lex_attrs.simps)
      next
        case ws: True
        show ?thesis
        proof (cases "dropWhile tag_ws r")
          case Nil
          with ws nc "1.prems" Cons show ?thesis by (simp add: lex_attrs.simps)
        next
          case (Cons d r2)
          show ?thesis
          proof (cases "d = CHR ''>'' \<or> d = CHR ''/''")
            case True
            with ws nc "1.prems" \<open>s = c # r\<close> Cons
            have "lex_attrs (dropWhile tag_ws r) = Some (as, sc, y)"
              by (simp add: lex_attrs.simps [of "c # r"])
            with "1.IH"(1) [OF \<open>s = c # r\<close> _ _ ws refl Cons True] r1 nc show ?thesis
              by fastforce
          next
            case False
            with ws nc "1.prems" \<open>s = c # r\<close> Cons
            obtain a r3 as' where la: "lex_attr (dropWhile tag_ws r) = Some (a, r3)"
              and rec: "lex_attrs r3 = Some (as', sc, y)"
              by (auto simp: lex_attrs.simps [of "c # r"] split: option.split_asm)
            have "length r3 < length s" using lex_attr_len [OF la] r1 by simp
            with "1.IH"(2) [OF \<open>s = c # r\<close> _ _ ws refl Cons False la refl rec] nc show ?thesis
              by fastforce
          qed
        qed
      qed
    qed
  qed
qed

lemma lex_start_len: "lex_start s = Some (t, y) \<Longrightarrow> length y < length s"
proof -
  assume "lex_start s = Some (t, y)"
  then obtain as sc where "lex_attrs (dropWhile name_char s) = Some (as, sc, y)"
    by (auto simp: lex_start_def Let_def split: if_split_asm)
  then have "length y < length (dropWhile name_char s)" by (rule lex_attrs_len)
  then show ?thesis using length_dropWhile_le less_le_trans by blast
qed

lemma lex_raw_len: "lex_raw n s = Some (ts, y) \<Longrightarrow> length y < Suc (length s)"
proof -
  assume h: "lex_raw n s = Some (ts, y)"
  let ?after = "dropWhile (\<lambda>c. c \<noteq> CHR ''<'') s"
  from h have "y = drop (length n + 3) ?after"
    by (auto simp: lex_raw_def Let_def split: if_split_asm)
  then have "length y \<le> length ?after" by simp
  also have "\<dots> \<le> length s" by (rule length_dropWhile_le)
  finally have "length y \<le> length s" .
  then show ?thesis by simp
qed

lemma lex_element_len: "lex_element s = Some (ts, y) \<Longrightarrow> length y < length s"
proof -
  assume h: "lex_element s = Some (ts, y)"
  then obtain tok rest where st: "lex_start s = Some (tok, rest)"
    by (auto simp: lex_element_def split: option.split_asm)
  have "length y \<le> length rest"
  proof (cases tok)
    case (StartTag n a)
    with h st show ?thesis
      by (auto simp: lex_element_def split: if_split_asm dest!: lex_raw_len)
  qed (use h st in \<open>auto simp: lex_element_def split: if_split_asm\<close>)
  with lex_start_len [OF st] show ?thesis by simp
qed

lemma lex_end_len: "lex_end s = Some (t, y) \<Longrightarrow> length y < length s"
proof -
  assume le: "lex_end s = Some (t, y)"
  then obtain c where "dropWhile tag_ws (dropWhile name_char s) = c # y"
    by (auto simp: lex_end_def Let_def split: list.split_asm if_split_asm)
  then have "length (c # y) \<le> length s"
    by (metis length_dropWhile_le le_trans)
  then show ?thesis by simp
qed

lemma split_dashes_len: "split_dashes s = Some (x, y) \<Longrightarrow> length y < length s"
  by (induction s arbitrary: x rule: split_dashes.induct) (auto split: if_split_asm)

lemma lex_bang_len: "lex_bang s = Some (t, y) \<Longrightarrow> length y < length s"
proof -
  assume lb: "lex_bang s = Some (t, y)"
  show ?thesis
  proof (cases "take 2 s = ''--''")
    case True
    with lb obtain body c where sd: "split_dashes (drop 2 s) = Some (body, c # y)"
      by (auto simp: lex_bang_def lex_comment_def split: if_split_asm option.split_asm list.split_asm prod.split_asm)
    from split_dashes_len [OF sd] show ?thesis by simp
  next
    case False
    with lb obtain c where "dropWhile (\<lambda>c. c \<noteq> CHR ''>'') (drop 7 s) = c # y"
      by (auto simp: lex_bang_def lex_doctype_def split: if_split_asm list.split_asm)
    then have "length (c # y) \<le> length (drop 7 s)" by (metis length_dropWhile_le)
    then show ?thesis by simp
  qed
qed

end
