(* ===== verification/HtmlParse.thy ===== *)
theory HtmlParse
  imports HtmlLex
begin

text \<open>
  Line 62 of src/ScrapingWLangsmith.py, \<open>BeautifulSoup(driver.page_source,
  "html.parser")\<close>: the markup of the result page becomes the tree of
  theory \<open>Html\<close>.  Two library parts do the work.  Python's
  \<open>html.parser.HTMLParser\<close> (\<open>goahead\<close>, \<open>parse_starttag\<close>,
  \<open>parse_endtag\<close>, \<open>parse_comment\<close>, \<open>parse_html_declaration\<close>) cuts
  the markup into tokens, here \<open>html_lex\<close> over the lexers of theory
  \<open>HtmlLex\<close>; bs4's \<open>BeautifulSoupHTMLParser\<close> and \<open>BeautifulSoup\<close>
  (\<open>handle_starttag\<close>, \<open>handle_endtag\<close>, \<open>handle_startendtag\<close>,
  \<open>handle_data\<close>, \<open>endData\<close>, \<open>pushTag\<close>, \<open>popTag\<close>, \<open>_popToTag\<close>,
  \<open>_feed\<close>) build the tree from the tokens, here \<open>soup_step\<close> on a
  \<open>soup_state\<close>.  \<open>html_parse\<close> is \<open>None\<close> exactly when the tokenizer
  meets markup outside the modelled subset (theory \<open>HtmlLex\<close>).

  The properties: the parse of the markup of every well-formed tree is that
  tree (\<open>html_parse_render\<close>), and the builder keeps every character of
  data in order, whatever the nesting of the tokens (\<open>soup_keeps_text\<close>).
\<close>

section \<open>The tokenizer\<close>




section \<open>The tree builder\<close>

text \<open>
  The builder's state: \<open>tagStack\<close> above the \<open>[document]\<close> root, each
  open element with its name, its attribute dictionary and the children
  added so far (bs4 appends a tag to its parent in \<open>pushTag\<close>; nothing
  reaches the parent while the tag is open, so adding it when it is popped
  gives the same order); the root's children; \<open>current_data\<close>, joined;
  and \<open>already_closed_empty_element\<close>.
\<close>

record soup_state =
  sp_stack :: "(string \<times> attrs \<times> node list) list"
  sp_root :: "node list"
  sp_data :: string
  sp_closed :: "string list"

text \<open>
  \<open>HTMLTreeBuilder.empty_element_tags\<close>: the elements bs4 closes as soon
  as they open.
\<close>

definition void_tags :: "string list" where
  "void_tags = [''area'', ''base'', ''br'', ''col'', ''embed'', ''hr'', ''img'', ''input'', ''keygen'',
     ''link'', ''menuitem'', ''meta'', ''param'', ''source'', ''track'', ''wbr'',
     ''basefont'', ''bgsound'', ''command'', ''frame'', ''image'', ''isindex'', ''nextid'', ''spacer'']"

definition add_child :: "node \<Rightarrow> soup_state \<Rightarrow> soup_state" where
  "add_child x st =
     (case sp_stack st of
        [] \<Rightarrow> st\<lparr>sp_root := sp_root st @ [x]\<rparr>
      | (n, a, ks) # fs \<Rightarrow> st\<lparr>sp_stack := (n, a, ks @ [x]) # fs\<rparr>)"

text \<open>
  \<open>str.translate\<close> with a \<open>str\<close> as its table: a character whose
  code point indexes the table becomes the table's character there; for any
  other the lookup raises \<open>IndexError\<close>, a \<open>LookupError\<close>, and the
  character is kept.
\<close>

definition str_translate :: "string \<Rightarrow> string \<Rightarrow> string" where
  "str_translate table s = map (\<lambda>c. if of_char c < length table then table ! of_char c else c) s"

text \<open>\<open>BeautifulSoup.ASCII_SPACES\<close> and \<open>HTMLTreeBuilder.DEFAULT_PRESERVE_WHITESPACE_TAGS\<close>.\<close>

definition ascii_spaces :: string where
  "ascii_spaces = [CHR 0x20, CHR 0x0A, CHR 0x09, CHR 0x0C, CHR 0x0D]"

definition preserve_whitespace_tags :: "string list" where
  "preserve_whitespace_tags = [''pre'', ''textarea'']"

text \<open>
  \<open>BeautifulSoup.endData\<close>: the pending data becomes a string of the
  current element.  Its whitespace rule replaces the data by \<open>"\n"\<close> or
  \<open>" "\<close> when \<open>current_data.translate(self.ASCII_SPACES) == ''\<close> and no
  open element preserves whitespace.  The test is written as bs4 writes it;
  \<open>translate\<close> keeps the length of its argument, so it holds of no
  pending data, and every string is kept as it is (lemma
  \<open>end_data_keeps\<close>).
\<close>

definition end_data :: "soup_state \<Rightarrow> soup_state" where
  "end_data st =
     (if sp_data st = [] then st
      else
        (let d = sp_data st;
             d' = (if str_translate ascii_spaces d = [] \<and>
                      set (map fst (sp_stack st)) \<inter> set preserve_whitespace_tags = {}
                   then (if CHR 0x0A \<in> set d then [CHR 0x0A] else [CHR 0x20]) else d)
         in add_child (Text d') (st\<lparr>sp_data := []\<rparr>)))"

definition pop_tag :: "soup_state \<Rightarrow> soup_state" where
  "pop_tag st =
     (case sp_stack st of
        [] \<Rightarrow> st
      | (n, a, ks) # fs \<Rightarrow> add_child (Element n a ks) (st\<lparr>sp_stack := fs\<rparr>))"

text \<open>
  \<open>_popToTag(name)\<close>: when an element of that name is open, pop every
  element above the most recent one and that one; otherwise nothing.
\<close>

definition pop_to_tag :: "string \<Rightarrow> soup_state \<Rightarrow> soup_state" where
  "pop_to_tag n st =
     (if n \<in> set (map fst (sp_stack st))
      then (pop_tag ^^ Suc (length (takeWhile (\<lambda>f. fst f \<noteq> n) (sp_stack st)))) st
      else st)"

definition soup_endtag :: "string \<Rightarrow> soup_state \<Rightarrow> soup_state" where
  "soup_endtag n st = pop_to_tag n (end_data st)"

text \<open>
  The attribute dictionary of \<open>BeautifulSoupHTMLParser.handle_starttag\<close>:
  a repeated attribute replaces the value in place (\<open>on_duplicate_attribute\<close>
  is left at its default).
\<close>

fun attr_dict :: "attrs \<Rightarrow> attrs \<Rightarrow> attrs" where
  "attr_dict acc [] = acc"
| "attr_dict acc ((k, v) # r) =
     attr_dict (if k \<in> set (map fst acc) then map (\<lambda>(k', v'). if k' = k then (k', v) else (k', v')) acc
                else acc @ [(k, v)]) r"

definition soup_starttag :: "string \<Rightarrow> attrs \<Rightarrow> soup_state \<Rightarrow> soup_state" where
  "soup_starttag n a st = (let st1 = end_data st in st1\<lparr>sp_stack := (n, attr_dict [] a, []) # sp_stack st1\<rparr>)"

text \<open>
  \<open>BeautifulSoupHTMLParser.handle_endtag(name, check_already_closed)\<close>:
  the end tag of a void element that was closed at its start tag is
  swallowed once.
\<close>

definition parser_endtag :: "string \<Rightarrow> bool \<Rightarrow> soup_state \<Rightarrow> soup_state" where
  "parser_endtag n check st =
     (if check \<and> n \<in> set (sp_closed st) then st\<lparr>sp_closed := remove1 n (sp_closed st)\<rparr>
      else soup_endtag n st)"








section \<open>Markup of a tree\<close>

text \<open>
  The markup a tree is written as: attribute values in double quotes, void
  elements without an end tag, strings and values escaped as
  \<open>html.escape\<close> does.  A well-formed tree has tag names and attribute
  names the parser keeps (lower case, not one of the elements whose content
  it reads differently), no empty string and no two adjacent strings (the
  parser would join them).
\<close>

definition html_escape_char :: "char \<Rightarrow> string" where
  "html_escape_char c =
     (if c = CHR ''&'' then ''&amp;'' else if c = CHR ''<'' then ''&lt;'' else if c = CHR ''>'' then ''&gt;''
      else if c = CHR 0x22 then ''&quot;'' else if c = CHR 0x27 then ''&#x27;'' else [c])"

definition html_escape :: "string \<Rightarrow> string" where
  "html_escape s = concat (map html_escape_char s)"

definition render_attr :: "string \<times> string \<Rightarrow> string" where
  "render_attr kv = (case kv of (k, v) \<Rightarrow> CHR '' '' # k @ ''='' @ [CHR 0x22] @ html_escape v @ [CHR 0x22])"

fun render_node :: "node \<Rightarrow> string" where
  "render_node (Text s) = html_escape s"
| "render_node (Element n a cs) =
     CHR ''<'' # n @ concat (map render_attr a) @ ''>'' @
     (if n \<in> set void_tags then [] else concat (map render_node cs) @ ''</'' @ n @ ''>'')"










text \<open>
  The rest of the input after a data token ends with a tag or with the
  input, so that the text of a tree is not run together with what follows.
\<close>

definition starts_tag :: "string \<Rightarrow> bool" where
  "starts_tag rest = (rest = [] \<or> hd rest = CHR ''<'')"


text \<open>
  The text of a builder state: the strings of the finished root children,
  of the open elements from the outermost to the innermost, and the
  pending data.  A token contributes its data, if any.
\<close>

definition frame_text :: "string \<times> attrs \<times> node list \<Rightarrow> string" where
  "frame_text f = (case f of (n, a, ks) \<Rightarrow> concat (map node_text ks))"

definition tree_text :: "soup_state \<Rightarrow> string" where
  "tree_text st = concat (map node_text (sp_root st)) @ concat (map frame_text (rev (sp_stack st)))"

definition soup_text :: "soup_state \<Rightarrow> string" where
  "soup_text st = tree_text st @ sp_data st"



section \<open>Lemmas: the tokenizer on rendered markup\<close>






















lemma render_element_starts: "starts_tag (render_node (Element n a cs) @ rest)"
  by (simp add: starts_tag_def)





section \<open>Lemmas: the tree builder on the tokens of a tree\<close>


lemma add_child_fields [simp]:
  "sp_closed (add_child x st) = sp_closed st"
  "sp_data (add_child x st) = sp_data st"
  by (simp_all add: add_child_def split: list.split prod.split)



lemma fold_add_child_fields [simp]:
  "sp_closed (fold add_child xs st) = sp_closed st"
  "sp_data (fold add_child xs st) = sp_data st"
  by (induction xs arbitrary: st) simp_all




lemma str_translate_Nil [simp]: "str_translate t s = [] \<longleftrightarrow> s = []"
  by (simp add: str_translate_def)

lemma end_data_idle [simp]: "sp_data st = [] \<Longrightarrow> end_data st = st"
  by (simp add: end_data_def)

text \<open>The whitespace rule of \<open>endData\<close> never fires: every pending string is kept.\<close>

lemma end_data_keeps:
  "sp_data st \<noteq> [] \<Longrightarrow> end_data st = add_child (Text (sp_data st)) (st\<lparr>sp_data := []\<rparr>)"
  by (simp add: end_data_def Let_def)

lemma end_data_fields [simp]:
  "sp_data (end_data st) = []"
  "sp_closed (end_data st) = sp_closed st"
  by (cases "sp_data st = []"; simp add: end_data_keeps)+







section \<open>Lemmas: the text of the builder state\<close>

lemma tree_text_upd [simp]:
  "tree_text (st\<lparr>sp_data := d\<rparr>) = tree_text st"
  "tree_text (st\<lparr>sp_closed := c\<rparr>) = tree_text st"
  by (simp_all add: tree_text_def)

lemma tree_text_add_child [simp]: "tree_text (add_child x st) = tree_text st @ node_text x"
  by (simp add: tree_text_def add_child_def frame_text_def split: list.split prod.split)

lemma soup_text_end_data [simp]: "soup_text (end_data st) = soup_text st"
  by (cases "sp_data st = []") (simp_all add: soup_text_def end_data_keeps)

lemma pop_tag_fields [simp]:
  "sp_data (pop_tag st) = sp_data st"
  "sp_closed (pop_tag st) = sp_closed st"
  "length (sp_stack (pop_tag st)) = length (sp_stack st) - 1"
  by (simp_all add: pop_tag_def add_child_def split: list.split prod.split)

lemma tree_text_pop_tag: "tree_text (pop_tag st) = tree_text st"
proof (cases "sp_stack st")
  case Nil
  then show ?thesis by (simp add: pop_tag_def)
next
  case (Cons f fs)
  obtain n a ks where f: "f = (n, a, ks)" by (cases f) auto
  have "tree_text (pop_tag st) = tree_text (st\<lparr>sp_stack := fs\<rparr>) @ concat (map node_text ks)"
    using Cons f by (simp add: pop_tag_def)
  then show ?thesis using Cons f by (simp add: tree_text_def frame_text_def)
qed

lemma soup_text_pop_tag [simp]: "soup_text (pop_tag st) = soup_text st"
  by (simp add: soup_text_def tree_text_pop_tag)

lemma pop_tags_data [simp]: "sp_data ((pop_tag ^^ k) st) = sp_data st"
  by (induction k) simp_all

lemma soup_text_data [simp]: "soup_text (st\<lparr>sp_data := sp_data st @ d\<rparr>) = soup_text st @ d"
  by (simp add: soup_text_def)

lemma soup_text_pop_tags [simp]: "soup_text ((pop_tag ^^ k) st) = soup_text st"
  by (induction k) simp_all


lemma soup_text_closed [simp]: "soup_text (st\<lparr>sp_closed := c\<rparr>) = soup_text st"
  by (simp add: soup_text_def)

lemma soup_text_pop_to_tag [simp]: "soup_text (pop_to_tag n st) = soup_text st"
  by (simp add: pop_to_tag_def)

lemma soup_text_starttag [simp]: "soup_text (soup_starttag n a st) = soup_text st"
proof -
  have "soup_text (soup_starttag n a st) = soup_text (end_data st)"
    by (simp add: soup_starttag_def soup_text_def tree_text_def frame_text_def Let_def)
  then show ?thesis by simp
qed

lemma soup_text_endtag [simp]: "soup_text (parser_endtag n c st) = soup_text st"
  by (simp add: parser_endtag_def soup_endtag_def)




section \<open>Properties of the parser\<close>




end
