(* ===== verification/Logging.thy ===== *)
theory Logging
  imports PyStr
begin

text \<open>
  Line 20 of src/ScrapingWLangsmith.py, \<open>logging.basicConfig(level=logging.DEBUG)\<close>,
  and what it makes of a log record.  The state is the root logger of
  Python's \<open>logging\<close> module: its level and its handlers.  A record is
  emitted by \<open>Logger.handle\<close>: the level test of \<open>isEnabledFor\<close>, then
  each handler of the root whose level admits the record
  (\<open>callHandlers\<close>), or \<open>logging.lastResort\<close> when there is none.
  The loggers of the libraries are taken with no handler of their own
  (their level, when set, is the first level on their chain of parents),
  and records without exception or stack information.
\<close>

section \<open>Definitions\<close>

datatype log_stream = Stderr | Stdout

text \<open>The format strings a handler may carry: \<open>BASIC_FORMAT\<close> and \<open>"%(message)s"\<close>.\<close>

datatype log_format = BasicFormat | MessageFormat

record log_handler =
  lh_stream :: log_stream
  lh_level :: nat
  lh_fmt :: log_format

record root_logger =
  rl_level :: nat
  rl_handlers :: "log_handler list"

text \<open>The numeric levels of \<open>logging\<close>.\<close>

definition log_debug :: nat where "log_debug = 10"
definition log_info :: nat where "log_info = 20"
definition log_warning :: nat where "log_warning = 30"
definition log_error :: nat where "log_error = 40"
definition log_critical :: nat where "log_critical = 50"

text \<open>\<open>logging.getLevelName(level)\<close> for a number.\<close>

definition level_name :: "nat \<Rightarrow> string" where
  "level_name l =
     (if l = 0 then ''NOTSET'' else if l = log_debug then ''DEBUG'' else if l = log_info then ''INFO''
      else if l = log_warning then ''WARNING'' else if l = log_error then ''ERROR''
      else if l = log_critical then ''CRITICAL'' else ''Level '' @ show_nat l)"

text \<open>The root logger as \<open>import logging\<close> creates it: \<open>RootLogger(WARNING)\<close>, no handler.\<close>

definition root_init :: root_logger where
  "root_init = \<lparr>rl_level = log_warning, rl_handlers = []\<rparr>"

text \<open>
  \<open>logging.basicConfig(force=..., stream=..., level=...)\<close>: with \<open>force\<close>
  the root's handlers are removed first; then, only when the root has no
  handler, a \<open>StreamHandler\<close> on the given stream (\<open>sys.stderr\<close> when
  none) with level \<open>NOTSET\<close> and \<open>BASIC_FORMAT\<close> is added and the level
  is set.  A root that already has a handler is left as it is.
\<close>

definition basic_config :: "bool \<Rightarrow> log_stream option \<Rightarrow> nat option \<Rightarrow> root_logger \<Rightarrow> root_logger" where
  "basic_config force stream level r =
     (let r1 = (if force then r\<lparr>rl_handlers := []\<rparr> else r)
      in if rl_handlers r1 = [] then
           r1\<lparr>rl_handlers := [\<lparr>lh_stream = (case stream of None \<Rightarrow> Stderr | Some s \<Rightarrow> s), lh_level = 0,
                                 lh_fmt = BasicFormat\<rparr>],
              rl_level := (case level of None \<Rightarrow> rl_level r1 | Some l \<Rightarrow> l)\<rparr>
         else r1)"

text \<open>Line 20.\<close>

definition module_logging :: root_logger where
  "module_logging = basic_config False None (Some log_debug) root_init"

text \<open>\<open>Formatter.format\<close> for the two format strings, and the terminator of \<open>StreamHandler\<close>.\<close>

fun format_record :: "log_format \<Rightarrow> string \<Rightarrow> nat \<Rightarrow> string \<Rightarrow> string" where
  "format_record BasicFormat name l msg = level_name l @ '':'' @ name @ '':'' @ msg"
| "format_record MessageFormat name l msg = msg"

text \<open>
  A record of level \<open>l\<close> with message \<open>msg\<close> logged on the logger
  \<open>name\<close>, whose chain of parents below the root has the level \<open>own\<close>
  (0 when all are \<open>NOTSET\<close>): what is written, on which stream.
  \<open>logging.disable\<close> is not called, so a record of level 0 is dropped.
  \<open>lastResort\<close> writes records of level \<open>WARNING\<close> and above, message only.
\<close>

definition log_emit :: "root_logger \<Rightarrow> nat \<Rightarrow> string \<Rightarrow> nat \<Rightarrow> string \<Rightarrow> (log_stream \<times> string) list" where
  "log_emit r own name l msg =
     (let eff = (if own = 0 then rl_level r else own)
      in if l = 0 \<or> l < eff then []
         else if rl_handlers r = [] then
           (if log_warning \<le> l then [(Stderr, format_record MessageFormat name l msg @ [CHR 0x0A])] else [])
         else map (\<lambda>h. (lh_stream h, format_record (lh_fmt h) name l msg @ [CHR 0x0A]))
                  (filter (\<lambda>h. lh_level h \<le> l) (rl_handlers r)))"

section \<open>Lemmas\<close>

text \<open>A root that already has a handler is not changed by \<open>basicConfig\<close> without \<open>force\<close>.\<close>

lemma basic_config_configured:
  "rl_handlers r \<noteq> [] \<Longrightarrow> basic_config False stream level r = r"
  by (simp add: basic_config_def)

lemma basic_config_configured_witness:
  "rl_handlers \<lparr>rl_level = log_warning, rl_handlers = [\<lparr>lh_stream = Stdout, lh_level = 0, lh_fmt = MessageFormat\<rparr>]\<rparr> \<noteq> [] \<and>
   basic_config False None (Some log_debug) \<lparr>rl_level = log_warning, rl_handlers = [\<lparr>lh_stream = Stdout, lh_level = 0, lh_fmt = MessageFormat\<rparr>]\<rparr>
     = \<lparr>rl_level = log_warning, rl_handlers = [\<lparr>lh_stream = Stdout, lh_level = 0, lh_fmt = MessageFormat\<rparr>]\<rparr>"
  using basic_config_configured [of "\<lparr>rl_level = log_warning, rl_handlers = [\<lparr>lh_stream = Stdout, lh_level = 0, lh_fmt = MessageFormat\<rparr>]\<rparr>" None "Some log_debug"]
  by simp

text \<open>Before line 20 a debug record is dropped.\<close>

lemma root_init_drops_debug: "log_emit root_init 0 name log_debug msg = []"
  by (simp add: log_emit_def root_init_def log_debug_def log_warning_def)

section \<open>Properties of the logging setup\<close>

text \<open>
  C31 (functional): after line 20, every record of a library logger is
  written exactly once, to standard error, as \<open>LEVEL:name:message\<close>, when
  its level is at least \<open>DEBUG\<close> (or the library's own level, when it
  sets one), and nothing is written otherwise: the debug log never reaches
  standard output.
\<close>

theorem module_logging_emit:
  "log_emit module_logging own name l msg =
     (if 0 < l \<and> (if own = 0 then log_debug else own) \<le> l
      then [(Stderr, level_name l @ '':'' @ name @ '':'' @ msg @ [CHR 0x0A])] else [])"
  by (simp add: log_emit_def module_logging_def basic_config_def root_init_def)

end
