(* ===== verification/Spec2Isabelle.thy ===== *)
theory Spec2Isabelle
  imports Agent PyRepr HtmlParse Logging
begin

text \<open>
  \<^bold>\<open>A verification library for src/ScrapingWLangsmith.py.\<close>

  \<^emph>\<open>The program.\<close>  One Python module.  At import time it configures the
  process environment (lines 25 to 40: \<open>.env\<close>, LangSmith tracing
  variables, proxy), then defines the tool \<open>search_sciencedirect_bipolar\<close>
  (lines 43 to 90), an LLM and a LangChain agent that may call the tool (lines
  92 to 108), and runs the agent once (lines 110 to 115).  The tool is the core:
  it builds a search URL from the query (line 48), starts a headless Chrome
  through Selenium (lines 50 to 58), loads the URL and parses the page source
  with BeautifulSoup (lines 61 and 62), turns the first ten
  \<open>article.result-item-content\<close> nodes into candidates (title, link,
  citation count; lines 63 to 78), returns the most cited one formatted, or
  \<open>"No articles found."\<close> (lines 80 to 84), turns any \<open>Exception\<close> into
  \<open>"Error during scraping: ..."\<close> (lines 86 and 87) and always quits the
  driver (lines 89 and 90).  Data flows one way: query, URL, browser, page
  tree, candidates, string.

  \<^emph>\<open>The theories.\<close>
  \<^item> \<open>Prelude\<close>: exceptions as the datatype \<open>py_exn\<close> and computations
    that may raise as \<open>py_exn + 'a\<close>; \<open>str(e)\<close>; the environment type;
    \<open>py_errors\<close> and \<open>py_values\<close>, the exceptions and values among a
    list of outcomes, for loop-free specifications.
  \<^item> \<open>PyStr\<close>: the string builtins the code calls: \<open>str.isspace\<close>,
    \<open>strip\<close>, \<open>split\<close>, \<open>startswith\<close>, \<open>replace\<close> (a scanning
    function with a measure termination proof) and \<open>str(int)\<close>
    (\<open>show_nat\<close>, \<open>py_str_int\<close>).  Characters are code points 0 to 255.
    \<open>split()\<close> is characterised by its words (\<open>is_word\<close>) and a round
    trip with joining.
  \<^item> \<open>PyInt\<close>: \<open>int(s)\<close> as CPython parses a \<open>str\<close> (line 74): Unicode
    whitespace, sign, digits with single underscores, the digit limit of
    4300 digits (\<open>int_max_str_digits\<close>, CPython 3.11 on), every failure a
    \<open>ValueError\<close>.  The bound on its values, and digit groups joined by
    underscores (\<open>digit_group\<close>).
  \<^item> \<open>Html\<close>: the parsed page as a forest of \<open>node\<close>s, BeautifulSoup's
    \<open>Tag\<close> as the record \<open>tag\<close> (name, attributes, children, ancestors),
    \<open>.text\<close> (the strings of the tag's own class: bs4 gives the strings
    inside \<open>script\<close>, \<open>style\<close>, \<open>template\<close>, \<open>rt\<close> and \<open>rp\<close> their
    container's class, \<open>node_strings\<close>), \<open>tag[key]\<close> (\<open>KeyError\<close> when
    missing), and soupsieve's
    \<open>select\<close>/\<open>select_one\<close> for compound selectors joined by the
    descendant combinator, in document order, soupsieve's walk over all
    the ancestors of an element included.
  \<^item> \<open>Extract\<close>: the extractor-ranker, lines 62 to 84: \<open>extract_article\<close>
    (one loop iteration), \<open>collect_results\<close> (the loop), \<open>page_candidates\<close>
    (the first ten articles), \<open>citations_to_int\<close> (the inner
    \<open>try/except ValueError\<close>), \<open>py_max_key\<close> (Python's \<open>max\<close> with a
    key, a scan that replaces the running maximum only on a strictly greater
    key), \<open>format_result\<close> and \<open>scrape_page\<close>; \<open>first_max\<close> is the
    ranking the specification asks for, stated without a loop, and
    \<open>best_article\<close> the whole of lines 62 to 84 stated without loop or
    scan, which \<open>scrape_page\<close> refines.
  \<^item> \<open>HtmlLex\<close> and \<open>HtmlParse\<close>: line 62,
    \<open>BeautifulSoup(driver.page_source, "html.parser")\<close>.  Python's
    \<open>HTMLParser\<close> cuts the markup into \<open>html_token\<close>s (\<open>html_lex\<close>, a
    \<open>function\<close> on a subset of markup, \<open>None\<close> outside it, with the
    lexers of tags, attributes, raw-text elements such as \<open>script\<close> and
    \<open>title\<close> (\<open>lex_element\<close>, \<open>lex_raw\<close>), comments and doctypes, and
    \<open>html.unescape\<close> for character references, with the entries of the
    HTML5 table valued in Latin-1); bs4's tree builder
    turns the tokens into the forest of \<open>Html\<close> (\<open>soup_step\<close> on the
    record \<open>soup_state\<close>: the stack of open elements, the pending data,
    the void elements already closed; \<open>end_data\<close> with bs4's whitespace
    test written as bs4 writes it (\<open>str_translate\<close>, Python's
    \<open>str.translate\<close> with a \<open>str\<close> table, which keeps the length of the
    data, so the test never holds of pending data: lemma
    \<open>end_data_keeps\<close>), \<open>pop_to_tag\<close>,
    \<open>parser_starttag\<close>, \<open>parser_endtag\<close>, \<open>soup_finish\<close>).  The markup
    of a tree is \<open>render_nodes\<close>, and \<open>wf_nodes\<close> the trees the parser
    gives back unchanged.
  \<^item> \<open>Url\<close>: the search URL of line 48.
  \<^item> \<open>Tool\<close>: \<open>search_sciencedirect_bipolar\<close> itself.  Selenium and the
    driver manager are a \<open>backend\<close> record holding the answer (a value or an
    exception) to each call; the browser is a \<open>browser\<close> record, the log of
    calls on the driver and whether Chrome runs, passed explicitly through
    \<open>fetch_and_scrape\<close> (the \<open>try\<close> body), \<open>handle_exception\<close> (the
    \<open>except\<close> clause) and \<open>quit_driver\<close> (the \<open>finally\<close> clause).  The
    driver protocol is the step relation \<open>drv_step\<close> and its runs
    \<open>drv_run\<close>.  Every lemma holds for every backend.
  \<^item> \<open>Session\<close>: any sequence of calls of the tool on one browser
    (\<open>tool_session\<close>), as \<open>agent.invoke\<close> may make them, with the
    invariant \<open>browser_idle\<close>: the log is a sequence of complete driver
    sessions (\<open>drv_sessions\<close>) and no Chrome process runs.
  \<^item> \<open>Config\<close>: lines 25 to 40 as functions on the environment.
  \<^item> \<open>Logging\<close>: line 20, \<open>logging.basicConfig(level=logging.DEBUG)\<close>
    (\<open>basic_config\<close> on the record \<open>root_logger\<close>, the result
    \<open>module_logging\<close>), and what the configured root does with a
    library's log record (\<open>log_emit\<close>).
  \<^item> \<open>Agent\<close>: lines 43 and 92 to 113.  The tool's registration
    (\<open>sciencedirect_tool\<close>), the LLM client's settings (\<open>llm_setup\<close>,
    the key read from the configured environment), \<open>initialize_agent\<close> with
    the \<open>AgentExecutor\<close> defaults it keeps, and \<open>agent.invoke\<close>
    (\<open>agent_invoke\<close>): LangChain's \<open>_call\<close> loop kept as a
    \<open>while_option\<close> over the record \<open>agent_state\<close> (steps, iteration
    counter, browser, outcome), one iteration being \<open>agent_step\<close>, which
    reads \<open>handle_parsing_errors\<close> (raise, or record an \<open>_Exception\<close>
    step); \<open>agent_reach\<close>, an inductive predicate, holds of the states the
    loop passes through, so that a property of an iteration is stated for
    every iteration and not only the first.  The LLM
    is an oracle \<open>llm_oracle\<close>: any function from its settings, the tools,
    the input and the steps so far to a parsed reply or an exception.
    \<open>module_run\<close> composes configuration, LLM, agent and run.
  \<^item> \<open>PyRepr\<close>: line 115, \<open>print(response)\<close>: CPython's \<open>repr\<close> of a
    string and of the response dictionary.
  \<^item> This theory: the end-to-end scenarios of the specification, run on the
    whole tool with a backend that serves a fixed page, and the module run
    with its printed line (\<open>module_stdout\<close>).

  \<^emph>\<open>What is proved.\<close>  The ranking keeps the first maximal candidate and is
  the specification's \<open>first_max\<close> (refinement), and the whole
  extractor-ranker, errors included, equals \<open>best_article\<close>; the page gives
  \<open>"No articles found."\<close> exactly when it has no article node; at most ten
  articles are read, in document order; citation texts of digits are read
  exactly, texts without digits become 0, and \<open>"-n"\<close> becomes the negative
  \<open>-n\<close>; \<open>int\<close>'s values are bounded and \<open>"1_000"\<close> counts 1000; a title anchor without \<open>href\<close> raises \<open>KeyError\<close> for the whole
  page; the driver is always released and used in protocol order, with no
  wait between loading and reading, and any number of calls keeps the
  browser idle; inside the \<open>try\<close> every
  \<open>Exception\<close> becomes the error string, while failures of driver
  installation, launch and quit propagate; the URL has no spaces and decodes
  back, but is not a URL encoding; the configuration touches only its six
  variables; \<open>split()\<close> yields whitespace-free words; inside an
  \<open>h2\<close>, \<open>select_one("h2 a")\<close> of an article is its first anchor, as
  soupsieve looks above the article; every candidate is well formed.  Of the agent:
  \<open>agent.invoke\<close> returns whatever the LLM and the browser do (termination),
  ends with the browser idle, starts Chrome at most 15 times, answers the
  stop message when the LLM never finishes, and raises, at whatever
  iteration, when the tool raises or, \<open>handle_parsing_errors\<close> being left
  \<open>False\<close>, when the LLM's reply cannot be parsed; the printed response is
  one line of printable characters, whatever the answer holds.
  Of the logging setup: after line 20 every library record of level
  \<^verbatim>\<open>DEBUG\<close> and above goes once to standard error, none to standard output.
  Of \<open>.text\<close>: on ordinary markup it is every string below the element,
  and a string container inside the element adds nothing to it.
  Of the parser: the markup of every well-formed tree, its strings and
  values escaped by \<open>html.escape\<close>, parses back to that tree (round trip through the tokenizer and the tree builder), and the
  builder keeps every character of data in document order on every token
  sequence, however badly nested.

  \<^emph>\<open>Bounds and loops.\<close>  The article loop runs over a list of at most ten
  tags, the string functions recurse on shorter strings (\<open>py_split\<close> and
  \<open>replace_scan\<close> with measure proofs), the tree traversal on smaller
  forests, the markup tokenizer
  \<open>html_lex\<close> and the attribute lexer \<open>lex_attrs\<close> on shorter suffixes
  (measure proofs over the lengths the sub-lexers leave), the tree builder
  on the token list.  The agent's loop is the
  one loop whose end is not structural: it is a \<open>while_option\<close>, which is
  \<open>None\<close> when it does not stop, and it is proved to stop by
  \<open>measure_while_option_Some\<close> with \<open>agent_measure\<close>, the iterations left
  plus one while the outcome is open; the bound is LangChain's
  \<open>max_iterations = 15\<close>, as \<open>initialize_agent\<close> leaves it.  No fuel is
  needed.  The other numeric bound is CPython's 4300-digit limit.

  \<^emph>\<open>Not modelled.\<close>  Markup outside the parser's subset, for which
  \<open>html_parse\<close> is \<open>None\<close>: a name with semicolon outside the 159 entries
  of the HTML5 table valued in Latin-1 (telling the other 1966 entries from
  non-names needs the whole table, too large a definition to check in
  time), references to code points above U+00FF or that
  \<open>html.unescape\<close> deletes, raw-text content that Python versions read
  differently (a \<open><\<close> inside it, \<open>&\<close> in \<open>xmp\<close> and the like, a
  self-closing \<open><script/>\<close>, \<open>plaintext\<close>), processing instructions, CDATA and other declarations, attribute syntax
  other than \<open>name\<close>, \<open>name="v"\<close>, \<open>name='v'\<close> and \<open>name=v\<close> after
  whitespace; comments and doctypes are read but not kept, as neither
  \<open>select\<close> nor \<open>.text\<close> sees them.  The
  network and Chrome (the backend answers stand for them), \<open>find_dotenv\<close>
  and \<open>.env\<close> parsing (the file is the map of the variables it assigns),
  what the LLM answers (an oracle: the Together API and the model are
  outside the program), the ReAct prompt and the text parsing of the LLM's
  reply (the oracle returns the parsed reply, or the rejected text),
  LangChain's callbacks and \<open>verbose\<close> logging, \<open>max_execution_time\<close>
  (unset, so never reached), \<open>nest_asyncio.apply()\<close> (line 23: it makes
  asyncio's event loop re-entrant, and nothing the module calls runs one
  event loop inside another), which records the libraries log (any record
  is characterised by \<open>log_emit\<close>), the imports (lines 1 to 17),
  and the traceback printed when \<open>agent.invoke\<close> raises.  Characters beyond U+00FF are outside the model; in
  Latin-1 there is no non-ASCII decimal digit, so \<open>int()\<close> is exact on
  the strings modelled.  soupsieve's case-insensitive matching of tag names
  in HTML documents is not needed: \<open>html.parser\<close> already lowercases them
  and the program's selectors are lower case.

  \<^emph>\<open>Plan.\<close>  Built first, as the most important behaviour: the
  extractor-ranker with the builtins it uses (theories \<open>PyStr\<close>,
  \<open>PyInt\<close>, \<open>Html\<close>, \<open>Extract\<close>), then the tool with its driver
  lifecycle (\<open>Url\<close>, \<open>Tool\<close>), then the configuration (\<open>Config\<close>)
  and the end-to-end scenarios here; then the loop-free specification of
  the extractor-ranker with its refinement, the repeated calls of
  \<open>Session\<close>, the CSS semantics of selectors and \<open>split()\<close>; then the
  agent layer (\<open>Agent\<close>) and the printed response (\<open>PyRepr\<close>); then
  the markup parser (\<open>HtmlLex\<close>, \<open>HtmlParse\<close>) and the logging setup
  (\<open>Logging\<close>); then bs4's string classes in \<open>.text\<close>, the raw-text
  elements and the HTML5 entries valued in Latin-1.  What remains is
  outside what can be checked in time or outside the program: the
  entries of the HTML5 table valued above U+00FF, markup that Python
  versions read differently, and \<open>nest_asyncio\<close>.
\<close>

section \<open>End-to-end scenarios\<close>

text \<open>
  An article node as the result page renders it: a title anchor inside an
  \<open>h2\<close> and, optionally, a citation count.
\<close>

definition article_node :: "string \<Rightarrow> string \<Rightarrow> string option \<Rightarrow> node" where
  "article_node title href cites =
     Element ''article'' [(''class'', ''result-item-content'')]
       ([Element ''h2'' [] [Element ''a'' [(''href'', href)] [Text ('' '' @ title @ '' '')]]] @
        (case cites of
           None \<Rightarrow> []
         | Some c \<Rightarrow> [Element ''span'' [(''class'', ''CitationCount'')] [Text c]]))"

definition query :: string where
  "query = ''bipolar disorder''"

text \<open>
  What \<open>print(response)\<close> writes to standard output: the printed
  response, or nothing when \<open>agent.invoke\<close> raises (the traceback goes
  to standard error).  The agent's trace, which LangChain's standard-output
  callback writes before it because of \<open>verbose=True\<close>, is not modelled.
\<close>

definition module_stdout :: "env \<Rightarrow> env \<Rightarrow> llm_oracle \<Rightarrow> backend \<Rightarrow> string py_result option" where
  "module_stdout env dotenv llm bk =
     map_option (\<lambda>(r, b). py_bind r (\<lambda>resp. Inr (print_response resp))) (module_run env dotenv llm bk)"

text \<open>
  Three articles with citation texts \<open>"120"\<close>,
  \<open>"45"\<close> and \<open>"300"\<close>: the tool reports the third, with 300 citations.
\<close>

theorem scenario_most_cited:
  "fst (search_sciencedirect_bipolar
          (fixture_backend [article_node ''A'' ''/a'' (Some ''120''), article_node ''B'' ''/b'' (Some ''45''),
                            article_node ''C'' ''/c'' (Some ''300'')])
          query fresh_browser)
   = Inr ''C (300 citations): https://www.sciencedirect.com/c''"
  by code_simp

text \<open>
  One article whose citation count is missing: the count
  is 0 and that article is returned.
\<close>

theorem scenario_missing_count:
  "fst (search_sciencedirect_bipolar (fixture_backend [article_node ''A'' ''/a'' None]) query fresh_browser)
   = Inr ''A (0 citations): https://www.sciencedirect.com/a''"
  by code_simp

text \<open>
  A page with no article node gives
  \<open>"No articles found."\<close>.
\<close>

theorem scenario_no_articles:
  "fst (search_sciencedirect_bipolar (fixture_backend [Element ''div'' [] [Text ''No results'']])
          query fresh_browser)
   = Inr ''No articles found.''"
  by code_simp

text \<open>
  Two articles tied at \<open>"50"\<close>, A before B: A is
  reported.
\<close>

theorem scenario_tie_first:
  "fst (search_sciencedirect_bipolar
          (fixture_backend [article_node ''A'' ''/a'' (Some ''50''), article_node ''B'' ''/b'' (Some ''50'')])
          query fresh_browser)
   = Inr ''A (50 citations): https://www.sciencedirect.com/a''"
  by code_simp

text \<open>
  The page load times out: the tool returns
  \<open>"Error during scraping: <reason>"\<close> and the driver is quit.
\<close>

theorem scenario_timeout:
  "search_sciencedirect_bipolar
     ((fixture_backend [])\<lparr>bk_get := (\<lambda>_. Some (WebDriverError ''Timed out receiving message from renderer''))\<rparr>)
     query fresh_browser
   = (Inr ''Error during scraping: Timed out receiving message from renderer'',
      \<lparr>br_events = [Launch chrome_options, Navigate (search_url query), Quit], br_live = False\<rparr>)"
  by code_simp

text \<open>
  An eleventh article is never read: on a page whose first ten
  articles are cited once and whose eleventh is cited 999 times, the first
  article is reported.
\<close>

theorem scenario_eleventh_ignored:
  "fst (search_sciencedirect_bipolar
          (fixture_backend (map (\<lambda>i. article_node ''A'' ''/a'' (Some ''1'')) [0..<10] @
                            [article_node ''Z'' ''/z'' (Some ''999'')]))
          query fresh_browser)
   = Inr ''A (1 citations): https://www.sciencedirect.com/a''"
  by code_simp

text \<open>
  The module run end to end, with no environment variables, an LLM that
  calls the tool once and answers with what it returned, and a page of three
  articles cited 120, 45 and 300 times: the line it prints holds the third
  article in the dictionary's \<open>repr\<close>, between single quotes, as the
  answer holds none itself.
\<close>

theorem scenario_module_stdout:
  "module_stdout Map.empty Map.empty demo_llm
     (fixture_backend [article_node ''A'' ''/a'' (Some ''120''), article_node ''B'' ''/b'' (Some ''45''),
                       article_node ''C'' ''/c'' (Some ''300'')])
   = Some (Inr (''{'' @ [CHR 0x27] @ ''input'' @ [CHR 0x27] @ '': '' @ [CHR 0x27] @ task_input @ [CHR 0x27] @ '', '' @
                [CHR 0x27] @ ''output'' @ [CHR 0x27] @ '': '' @ [CHR 0x27] @ ''C (300 citations): https://www.sciencedirect.com/c'' @
                [CHR 0x27] @ ''}'' @ [CHR 0x0A]))"
  by code_simp

end
